theory Spec2Isabelle
  imports Main "HOL-Library.Sublist"
begin

section \<open>Python values, dictionaries and exceptions\<close>

text \<open>
  The server works on JSON-like Python values: strings, integers, floats, lists and
  dictionaries with string keys. A dictionary is an association list in insertion order
  (the order Python iterates in). A float is carried by its \<open>repr\<close> text: the program
  holds two float constants and computes with neither.
\<close>

datatype pyval =
    PStr string
  | PInt int
  | PFloat string
  | PList "pyval list"
  | PDict "(string \<times> pyval) list"

type_synonym dict = "(string \<times> pyval) list"

text \<open>A raised exception is the left summand of the result.\<close>

datatype py_error = KeyError | TypeError | ValueError | AttributeError

definition bindE :: "'e + 'a \<Rightarrow> ('a \<Rightarrow> 'e + 'b) \<Rightarrow> 'e + 'b" where
  "bindE m f = (case m of Inl e \<Rightarrow> Inl e | Inr v \<Rightarrow> f v)"

text \<open>\<open>d[k]\<close>: the value stored under \<open>k\<close>, KeyError when there is none.\<close>

definition dict_getitem :: "(string \<times> 'v) list \<Rightarrow> string \<Rightarrow> py_error + 'v" where
  "dict_getitem d k = (case map_of d k of None \<Rightarrow> Inl KeyError | Some v \<Rightarrow> Inr v)"

text \<open>\<open>k in d\<close> for a dictionary \<open>d\<close>.\<close>

definition has_key :: "(string \<times> 'v) list \<Rightarrow> string \<Rightarrow> bool" where
  "has_key d k = (map_of d k \<noteq> None)"

text \<open>\<open>d.get(k)\<close>, with Python's None as \<open>None\<close>, and \<open>d.get(k, default)\<close>.\<close>

definition dict_get :: "(string \<times> 'v) list \<Rightarrow> string \<Rightarrow> 'v option" where
  "dict_get d k = map_of d k"

definition dict_get_default :: "(string \<times> 'v) list \<Rightarrow> string \<Rightarrow> 'v \<Rightarrow> 'v" where
  "dict_get_default d k dflt = (case map_of d k of None \<Rightarrow> dflt | Some v \<Rightarrow> v)"

text \<open>
  \<open>d[k] = v\<close>: an existing key keeps its place and takes the new value, a new key goes
  to the end.
\<close>

fun dict_set :: "(string \<times> 'v) list \<Rightarrow> string \<Rightarrow> 'v \<Rightarrow> (string \<times> 'v) list" where
  "dict_set [] k v = [(k, v)]"
| "dict_set ((k', v') # d) k v = (if k' = k then (k, v) # d else (k', v') # dict_set d k v)"

text \<open>The dictionary display \<open>{k1: v1, ..., **e}\<close>: the items of \<open>e\<close> are stored in turn.\<close>

definition spread :: "(string \<times> 'v) list \<Rightarrow> (string \<times> 'v) list \<Rightarrow> (string \<times> 'v) list" where
  "spread base e = foldl (\<lambda>d (k, v). dict_set d k v) base e"

subsection \<open>Strings\<close>

text \<open>
  Strings are modelled as ASCII text. \<open>needle in haystack\<close> is the substring test.
\<close>

fun py_in :: "string \<Rightarrow> string \<Rightarrow> bool" where
  "py_in needle [] = (needle = [])"
| "py_in needle (c # cs) = (prefix needle (c # cs) \<or> py_in needle cs)"

text \<open>\<open>str.lower\<close> and \<open>str.upper\<close> on ASCII letters; every other character is kept.\<close>

definition lower_chr :: "char \<Rightarrow> char" where
  "lower_chr c =
     (case map_of (zip ''ABCDEFGHIJKLMNOPQRSTUVWXYZ'' ''abcdefghijklmnopqrstuvwxyz'') c of
        Some l \<Rightarrow> l | None \<Rightarrow> c)"

definition upper_chr :: "char \<Rightarrow> char" where
  "upper_chr c =
     (case map_of (zip ''abcdefghijklmnopqrstuvwxyz'' ''ABCDEFGHIJKLMNOPQRSTUVWXYZ'') c of
        Some u \<Rightarrow> u | None \<Rightarrow> c)"

definition lower :: "string \<Rightarrow> string" where
  "lower s = map lower_chr s"

text \<open>\<open>s.replace(a, b)\<close> for one-character strings \<open>a\<close> and \<open>b\<close>.\<close>

definition replace_chr :: "char \<Rightarrow> char \<Rightarrow> string \<Rightarrow> string" where
  "replace_chr a b s = map (\<lambda>c. if c = a then b else c) s"

section \<open>Layer 1: the taxonomy tables\<close>

definition ARRANGEMENT_STYLES :: "(string \<times> (string \<times> dict) list) list" where
  "ARRANGEMENT_STYLES = [
    (''ikebana'', [
      (''moribana'', [
        (''description'', PStr ''Low bowl arrangement, naturalistic landscape''),
        (''container'', PStr ''shallow bowl, suiban''),
        (''characteristics'', PStr ''horizontal emphasis, nature scenery, kenzan pin holder''),
        (''balance'', PStr ''asymmetrical''),
        (''complexity'', PStr ''high'')]),
      (''nageire'', [
        (''description'', PStr ''Tall vase arrangement, flowing asymmetrical''),
        (''container'', PStr ''tall cylindrical vase''),
        (''characteristics'', PStr ''natural grace, no mechanics visible, stem supports stem''),
        (''balance'', PStr ''asymmetrical''),
        (''complexity'', PStr ''medium'')]),
      (''rikka'', [
        (''description'', PStr ''Formal standing flowers, classical seven-branch''),
        (''container'', PStr ''bronze or ceramic vase''),
        (''characteristics'', PStr ''symbolic cosmic mountain, rigid structure, ceremonial''),
        (''balance'', PStr ''symmetrical''),
        (''complexity'', PStr ''very high'')])]),
    (''western_classical'', [
      (''cascade'', [
        (''description'', PStr ''Waterfall flow with trailing elements''),
        (''container'', PStr ''elevated pedestal vase or urn''),
        (''characteristics'', PStr ''dramatic downward movement, trailing vines, 1.5x container height drop''),
        (''balance'', PStr ''asymmetrical''),
        (''complexity'', PStr ''high'')]),
      (''crescent'', [
        (''description'', PStr ''Curved asymmetrical arc, moon-shaped''),
        (''container'', PStr ''low bowl or compote''),
        (''characteristics'', PStr ''graceful curve, negative space emphasis, 60-degree arc''),
        (''balance'', PStr ''asymmetrical''),
        (''complexity'', PStr ''medium'')]),
      (''hogarth'', [
        (''description'', PStr ''S-curve, line of beauty''),
        (''container'', PStr ''pedestal vase or urn''),
        (''characteristics'', PStr ''flowing S-shape, dynamic movement, elegant proportion''),
        (''balance'', PStr ''asymmetrical''),
        (''complexity'', PStr ''high'')]),
      (''dome'', [
        (''description'', PStr ''Rounded symmetrical mass''),
        (''container'', PStr ''low bowl, vase, or compote''),
        (''characteristics'', PStr ''equal dimensions all sides, full 360-degree viewing, dense''),
        (''balance'', PStr ''radial symmetrical''),
        (''complexity'', PStr ''low'')]),
      (''triangular'', [
        (''description'', PStr ''Stable pyramid form''),
        (''container'', PStr ''any stable base''),
        (''characteristics'', PStr ''wide base tapering to point, classical proportion, formal''),
        (''balance'', PStr ''symmetrical''),
        (''complexity'', PStr ''low'')]),
      (''vertical'', [
        (''description'', PStr ''Tall upright emphasis''),
        (''container'', PStr ''tall narrow vase''),
        (''characteristics'', PStr ''height 2-3x container, upward movement, line flowers dominant''),
        (''balance'', PStr ''symmetrical or asymmetrical''),
        (''complexity'', PStr ''low'')]),
      (''horizontal'', [
        (''description'', PStr ''Low spreading centerpiece''),
        (''container'', PStr ''long low container or candelabra''),
        (''characteristics'', PStr ''width 3x height, table centerpiece, conversation-friendly''),
        (''balance'', PStr ''symmetrical''),
        (''complexity'', PStr ''medium'')])]),
    (''contemporary'', [
      (''minimalist'', [
        (''description'', PStr ''Few stems, negative space emphasis''),
        (''container'', PStr ''simple geometric vessel''),
        (''characteristics'', PStr ''3-7 stems maximum, sculptural form, breathing space''),
        (''balance'', PStr ''asymmetrical''),
        (''complexity'', PStr ''medium'')]),
      (''structural'', [
        (''description'', PStr ''Architectural, geometric forms''),
        (''container'', PStr ''modern cube, cylinder, or asymmetric''),
        (''characteristics'', PStr ''bold lines, repetition, graphic shapes, non-traditional materials''),
        (''balance'', PStr ''often asymmetrical''),
        (''complexity'', PStr ''high'')]),
      (''garden_style'', [
        (''description'', PStr ''Loose, natural, abundant''),
        (''container'', PStr ''rustic basket, vintage vessel''),
        (''characteristics'', PStr ''just-picked feel, varied textures, romantic fullness, organic''),
        (''balance'', PStr ''asymmetrical''),
        (''complexity'', PStr ''medium'')]),
      (''parallel'', [
        (''description'', PStr ''Stems grouped in vertical lines''),
        (''container'', PStr ''rectangular or cylindrical''),
        (''characteristics'', PStr ''stems visible through glass, grouped bundles, modern clean''),
        (''balance'', PStr ''symmetrical or asymmetrical''),
        (''complexity'', PStr ''low'')])])]"

section \<open>Layer 2: the mapping functions\<close>

subsection \<open>detect_arrangement_style\<close>

text \<open>
  The loop over \<open>ARRANGEMENT_STYLES.items()\<close> that returns at the first category holding
  the preference as a style type; \<open>None\<close> when the loop ends without returning.
\<close>

fun preference_loop ::
  "string \<Rightarrow> (string \<times> (string \<times> dict) list) list \<Rightarrow> (py_error + dict) option" where
  "preference_loop preference [] = None"
| "preference_loop preference ((category, styles) # rest) =
     (if has_key styles preference
      then Some (bindE (dict_getitem styles preference) (\<lambda>e.
             Inr (spread [(''category'', PStr category), (''type'', PStr preference)] e)))
      else preference_loop preference rest)"

text \<open>\<open>{"category": c, "type": t, **ARRANGEMENT_STYLES[c][t]}\<close>\<close>

definition style_literal :: "string \<Rightarrow> string \<Rightarrow> py_error + dict" where
  "style_literal c t =
     bindE (dict_getitem ARRANGEMENT_STYLES c) (\<lambda>styles.
     bindE (dict_getitem styles t) (\<lambda>e.
     Inr (spread [(''category'', PStr c), (''type'', PStr t)] e)))"

definition detect_arrangement_style :: "string \<Rightarrow> string \<Rightarrow> py_error + dict" where
  "detect_arrangement_style intent preference =
     (if py_in ''ikebana'' intent \<or> py_in ''japanese'' intent then
        (if py_in ''moribana'' intent then style_literal ''ikebana'' ''moribana''
         else if py_in ''nageire'' intent then style_literal ''ikebana'' ''nageire''
         else style_literal ''ikebana'' ''nageire'')
      else if py_in ''cascade'' intent \<or> py_in ''waterfall'' intent \<or> py_in ''trailing'' intent then
        style_literal ''western_classical'' ''cascade''
      else if py_in ''dome'' intent \<or> py_in ''round'' intent \<or> py_in ''centerpiece'' intent then
        style_literal ''western_classical'' ''dome''
      else if py_in ''minimal'' intent \<or> py_in ''modern'' intent \<or> py_in ''contemporary'' intent then
        style_literal ''contemporary'' ''minimalist''
      else if py_in ''garden'' intent \<or> py_in ''loose'' intent \<or> py_in ''natural'' intent
              \<or> py_in ''romantic'' intent then
        style_literal ''contemporary'' ''garden_style''
      else if py_in ''crescent'' intent \<or> py_in ''curve'' intent then
        style_literal ''western_classical'' ''crescent''
      else
        (case (if preference \<noteq> ''any'' then preference_loop preference ARRANGEMENT_STYLES
               else None) of
           Some r \<Rightarrow> r
         | None \<Rightarrow> style_literal ''contemporary'' ''garden_style''))"

definition STRUCTURAL_TECHNIQUES :: "(string \<times> (string \<times> dict) list) list" where
  "STRUCTURAL_TECHNIQUES = [
    (''balance'', [
      (''symmetrical_radial'', [
        (''description'', PStr ''Equal visual weight radiating from center''),
        (''arrangements'', PList [PStr ''dome'', PStr ''round'', PStr ''triangular'']),
        (''effect'', PStr ''formal, stable, traditional'')]),
      (''symmetrical_bilateral'', [
        (''description'', PStr ''Mirror image left and right''),
        (''arrangements'', PList [PStr ''triangular'', PStr ''vertical'', PStr ''fan'']),
        (''effect'', PStr ''formal, classical, orderly'')]),
      (''asymmetrical'', [
        (''description'', PStr ''Unequal but balanced visual weight''),
        (''arrangements'', PList [PStr ''crescent'', PStr ''hogarth'', PStr ''ikebana'']),
        (''effect'', PStr ''dynamic, natural, contemporary'')])]),
    (''proportion'', [
      (''golden_ratio'', [
        (''description'', PStr ''1.618:1 ratio between elements''),
        (''application'', PStr ''height to width, focal to filler, container to arrangement'')]),
      (''rule_of_thirds'', [
        (''description'', PStr ''Divide into thirds horizontally and vertically''),
        (''application'', PStr ''place focal points at intersections'')]),
      (''height_to_container'', [
        (''traditional'', PStr ''1.5 to 2 times container height''),
        (''modern'', PStr ''can break rules for dramatic effect''),
        (''horizontal'', PStr ''container height to arrangement width 1:3'')])]),
    (''focal_points'', [
      (''single_dominant'', [
        (''description'', PStr ''One clear center of interest''),
        (''technique'', PStr ''largest bloom at center or asymmetric position''),
        (''effect'', PStr ''clear hierarchy, classical'')]),
      (''multiple_secondary'', [
        (''description'', PStr ''Primary focal with supporting accents''),
        (''technique'', PStr ''triangle of focal flowers''),
        (''effect'', PStr ''visual journey, sophisticated'')]),
      (''distributed'', [
        (''description'', PStr ''Interest spread throughout''),
        (''technique'', PStr ''no single dominant element''),
        (''effect'', PStr ''garden-style, natural'')])]),
    (''movement'', [
      (''vertical_lift'', [
        (''description'', PStr ''Upward reaching energy''),
        (''technique'', PStr ''line flowers, tall stems, upright forms''),
        (''effect'', PStr ''aspiration, celebration, growth'')]),
      (''horizontal_sweep'', [
        (''description'', PStr ''Side-to-side flow''),
        (''technique'', PStr ''trailing elements, lateral branches''),
        (''effect'', PStr ''calm, peaceful, grounding'')]),
      (''spiral_rotation'', [
        (''description'', PStr ''Circular flow around center''),
        (''technique'', PStr ''stems arranged in spiral, flowers face different directions''),
        (''effect'', PStr ''dynamic, natural, garden-style'')]),
      (''cascade_fall'', [
        (''description'', PStr ''Downward waterfall motion''),
        (''technique'', PStr ''trailing ivy, hanging amaranthus, weighted bottom''),
        (''effect'', PStr ''drama, elegance, gravity'')]),
      (''radiation'', [
        (''description'', PStr ''Outward burst from center''),
        (''technique'', PStr ''stems angle out from central point''),
        (''effect'', PStr ''energy, explosion, celebration'')])]),
    (''texture'', [
      (''smooth_rough_contrast'', [
        (''description'', PStr ''Juxtapose sleek and textured elements''),
        (''examples'', PStr ''glossy calla lilies with spiky thistle''),
        (''effect'', PStr ''visual interest, sophisticated'')]),
      (''delicate_bold_mix'', [
        (''description'', PStr ''Combine fine and substantial forms''),
        (''examples'', PStr ''baby's breath with large roses''),
        (''effect'', PStr ''balance, dimension'')]),
      (''monochromatic_texture'', [
        (''description'', PStr ''Same color, varied textures''),
        (''examples'', PStr ''white roses, ranunculus, stock, baby's breath''),
        (''effect'', PStr ''subtle sophistication, cohesive'')])]),
    (''density'', [
      (''packed_abundant'', [
        (''description'', PStr ''Full mass, minimal negative space''),
        (''style'', PStr ''European garden, romantic''),
        (''effect'', PStr ''lush, generous, romantic'')]),
      (''airy_spacious'', [
        (''description'', PStr ''Minimal stems, maximum negative space''),
        (''style'', PStr ''Ikebana, contemporary minimalist''),
        (''effect'', PStr ''elegant, modern, sculptural'')]),
      (''clustered_with_voids'', [
        (''description'', PStr ''Dense groupings separated by open space''),
        (''style'', PStr ''Contemporary, structural''),
        (''effect'', PStr ''drama, graphic, intentional'')])])]"

subsection \<open>map_structure\<close>

text \<open>\<open>STRUCTURAL_TECHNIQUES[family][name]\<close>\<close>

definition technique :: "string \<Rightarrow> string \<Rightarrow> py_error + pyval" where
  "technique family name =
     bindE (dict_getitem STRUCTURAL_TECHNIQUES family) (\<lambda>techniques.
     bindE (dict_getitem techniques name) (\<lambda>e. Inr (PDict e)))"

definition map_structure :: "dict \<Rightarrow> dict \<Rightarrow> py_error + dict" where
  "map_structure style colors =
     (let structure = [];
          balance_type = dict_get_default style ''balance'' (PStr ''asymmetrical'')
      in
      bindE (if balance_type = PStr ''symmetrical'' then technique ''balance'' ''symmetrical_radial''
             else if balance_type = PStr ''radial symmetrical''
               then technique ''balance'' ''symmetrical_radial''
             else technique ''balance'' ''asymmetrical'') (\<lambda>balance.
      let structure = dict_set structure ''balance'' balance in
      bindE (if dict_get style ''type'' = Some (PStr ''cascade'')
               then technique ''movement'' ''cascade_fall''
             else if dict_get style ''type'' = Some (PStr ''vertical'')
               then technique ''movement'' ''vertical_lift''
             else if dict_get style ''type'' = Some (PStr ''horizontal'')
               then technique ''movement'' ''horizontal_sweep''
             else technique ''movement'' ''spiral_rotation'') (\<lambda>movement.
      let structure = dict_set structure ''movement'' movement in
      bindE (technique ''proportion'' ''golden_ratio'') (\<lambda>proportion.
      let structure = dict_set structure ''proportion'' proportion in
      bindE (if dict_get style ''category'' = Some (PStr ''contemporary'')
                \<and> dict_get style ''type'' = Some (PStr ''minimalist'')
               then technique ''focal_points'' ''single_dominant''
             else technique ''focal_points'' ''multiple_secondary'') (\<lambda>focal.
      let structure = dict_set structure ''focal'' focal in
      bindE (if dict_get style ''category'' = Some (PStr ''contemporary'')
                \<and> dict_get style ''type'' = Some (PStr ''minimalist'')
               then technique ''density'' ''airy_spacious''
             else if dict_get style ''category'' = Some (PStr ''contemporary'')
                \<and> dict_get style ''type'' = Some (PStr ''garden_style'')
               then technique ''density'' ''packed_abundant''
             else technique ''density'' ''clustered_with_voids'') (\<lambda>density.
      let structure = dict_set structure ''density'' density in
      bindE (technique ''texture'' ''smooth_rough_contrast'') (\<lambda>texture.
      let structure = dict_set structure ''texture'' texture in
      Inr structure)))))))"

section \<open>ComfyUI workflow generation\<close>

subsection \<open>The built-ins \<open>str.split\<close> and \<open>int\<close>\<close>

text \<open>
  \<open>s.split(sep)\<close> for a one-character separator: the pieces between the separators, one
  more than there are separators.
\<close>

fun split_chr :: "char \<Rightarrow> string \<Rightarrow> string list" where
  "split_chr sep [] = [[]]"
| "split_chr sep (c # cs) =
     (if c = sep then [] # split_chr sep cs
      else (case split_chr sep cs of [] \<Rightarrow> [[c]] | w # ws \<Rightarrow> (c # w) # ws))"

text \<open>
  \<open>int(s)\<close> in base ten on ASCII text: white space is stripped from both ends, a sign
  may lead, and the digits may be grouped by single underscores. The white space is tab,
  line feed, vertical tab, form feed, carriage return and the space. A literal of more
  than 4300 digits is refused (the interpreter's default \<open>sys.int_max_str_digits\<close>;
  underscores and the sign are not counted). Anything else is a ValueError as well.
\<close>

definition is_space :: "char \<Rightarrow> bool" where
  "is_space c = (c \<in> set [CHR 0x09, CHR 0x0A, CHR 0x0B, CHR 0x0C, CHR 0x0D, CHR 0x20])"

definition strip :: "string \<Rightarrow> string" where
  "strip s = rev (dropWhile is_space (rev (dropWhile is_space s)))"

definition digit_val :: "char \<Rightarrow> nat option" where
  "digit_val c = map_of (zip ''0123456789'' [0, 1, 2, 3, 4, 5, 6, 7, 8, 9]) c"

text \<open>The digits after the first, with the value read so far.\<close>

fun digits_value :: "nat \<Rightarrow> string \<Rightarrow> nat option" where
  "digits_value acc [] = Some acc"
| "digits_value acc [c] =
     (case digit_val c of None \<Rightarrow> None | Some v \<Rightarrow> Some (acc * 10 + v))"
| "digits_value acc (c # d # ds) =
     (if c = CHR ''_'' then
        (case digit_val d of None \<Rightarrow> None | Some v \<Rightarrow> digits_value (acc * 10 + v) ds)
      else
        (case digit_val c of None \<Rightarrow> None | Some v \<Rightarrow> digits_value (acc * 10 + v) (d # ds)))"

definition unsigned_literal :: "string \<Rightarrow> nat option" where
  "unsigned_literal s =
     (case s of
        [] \<Rightarrow> None
      | c # cs \<Rightarrow> (case digit_val c of None \<Rightarrow> None | Some v \<Rightarrow> digits_value v cs))"

definition py_int :: "string \<Rightarrow> py_error + int" where
  "py_int s =
     (let t = strip s;
          negative = (t \<noteq> [] \<and> hd t = CHR ''-'');
          signed = (t \<noteq> [] \<and> (hd t = CHR ''-'' \<or> hd t = CHR ''+''));
          literal = (if signed then tl t else t)
      in case unsigned_literal literal of
           None \<Rightarrow> Inl ValueError
         | Some n \<Rightarrow>
             if length (filter (\<lambda>c. c \<noteq> CHR ''_'') literal) > 4300 then Inl ValueError
             else Inr (if negative then - int n else int n))"

text \<open>
  \<open>a, b = it\<close> for an iterator whose items are computed on demand: the first two items
  are taken, then a third is asked for to see that there is none. An item that raises
  ends the unpacking with its error; too few or too many items are a ValueError.
\<close>

fun unpack2 :: "(py_error + 'a) list \<Rightarrow> py_error + ('a \<times> 'a)" where
  "unpack2 [] = Inl ValueError"
| "unpack2 [a] = bindE a (\<lambda>x. Inl ValueError)"
| "unpack2 (a # b # rest) =
     bindE a (\<lambda>x. bindE b (\<lambda>y.
       (case rest of [] \<Rightarrow> Inr (x, y) | c # _ \<Rightarrow> bindE c (\<lambda>z. Inl ValueError))))"

subsection \<open>get_model_file and build_comfyui_workflow\<close>

definition get_model_file :: "string \<Rightarrow> py_error + string" where
  "get_model_file model_preference =
     (let model_map = [
        (''flux'', ''flux1-dev.safetensors''),
        (''sdxl'', ''sd_xl_base_1.0.safetensors''),
        (''sd15'', ''v1-5-pruned-emaonly.safetensors'')]
      in bindE (dict_getitem model_map ''flux'') (\<lambda>dflt.
         Inr (dict_get_default model_map model_preference dflt)))"

definition build_comfyui_workflow ::
  "string \<Rightarrow> string \<Rightarrow> string \<Rightarrow> string \<Rightarrow> int \<Rightarrow> py_error + dict" where
  "build_comfyui_workflow prompt negative_prompt size_str model steps =
     bindE (unpack2 (map py_int (split_chr CHR ''x'' size_str))) (\<lambda>(width, height).
     bindE (get_model_file model) (\<lambda>ckpt_name.
     Inr [
       (''1'', PDict [
         (''class_type'', PStr ''CheckpointLoaderSimple''),
         (''inputs'', PDict [
           (''ckpt_name'', PStr ckpt_name)])]),
       (''2'', PDict [
         (''class_type'', PStr ''CLIPTextEncode''),
         (''inputs'', PDict [
           (''text'', PStr prompt),
           (''clip'', PList [PStr ''1'', PInt 1])])]),
       (''3'', PDict [
         (''class_type'', PStr ''CLIPTextEncode''),
         (''inputs'', PDict [
           (''text'', PStr negative_prompt),
           (''clip'', PList [PStr ''1'', PInt 1])])]),
       (''4'', PDict [
         (''class_type'', PStr ''EmptyLatentImage''),
         (''inputs'', PDict [
           (''width'', PInt width),
           (''height'', PInt height),
           (''batch_size'', PInt 1)])]),
       (''5'', PDict [
         (''class_type'', PStr ''KSampler''),
         (''inputs'', PDict [
           (''seed'', PInt (- 1)),
           (''steps'', PInt steps),
           (''cfg'', PFloat ''7.5''),
           (''sampler_name'', PStr ''euler_ancestral''),
           (''scheduler'', PStr ''normal''),
           (''denoise'', PFloat ''1.0''),
           (''model'', PList [PStr ''1'', PInt 0]),
           (''positive'', PList [PStr ''2'', PInt 0]),
           (''negative'', PList [PStr ''3'', PInt 0]),
           (''latent_image'', PList [PStr ''4'', PInt 0])])]),
       (''6'', PDict [
         (''class_type'', PStr ''VAEDecode''),
         (''inputs'', PDict [
           (''samples'', PList [PStr ''5'', PInt 0]),
           (''vae'', PList [PStr ''1'', PInt 2])])]),
       (''7'', PDict [
         (''class_type'', PStr ''SaveImage''),
         (''inputs'', PDict [
           (''filename_prefix'', PStr ''floral_arrangement''),
           (''images'', PList [PStr ''6'', PInt 0])])])]))"

section \<open>Occasions\<close>

definition OCCASIONS :: "(string \<times> dict) list" where
  "OCCASIONS = [
    (''wedding'', [
      (''ceremony'', PDict [
        (''arrangements'', PList [PStr ''altar arrangements'', PStr ''aisle markers'', PStr ''chuppah flowers'']),
        (''styles'', PList [PStr ''romantic'', PStr ''elegant'', PStr ''dramatic'']),
        (''scale'', PStr ''large, architectural'')]),
      (''reception'', PDict [
        (''arrangements'', PList [PStr ''centerpieces'', PStr ''cake flowers'', PStr ''sweetheart table'']),
        (''styles'', PList [PStr ''romantic'', PStr ''garden-style'', PStr ''elegant'']),
        (''scale'', PStr ''medium, conversation-friendly'')]),
      (''bridal_party'', PDict [
        (''arrangements'', PList [PStr ''bouquets'', PStr ''boutonnieres'', PStr ''corsages'']),
        (''styles'', PList [PStr ''cohesive with ceremony'', PStr ''hand-tied'', PStr ''wearable'']),
        (''scale'', PStr ''personal, scaled to person'')])]),
    (''funeral'', [
      (''standing_spray'', PDict [
        (''description'', PStr ''Easel-mounted vertical arrangement''),
        (''characteristics'', PStr ''formal, respectful, traditional symbolism'')]),
      (''casket_spray'', PDict [
        (''description'', PStr ''Long horizontal arrangement for casket''),
        (''characteristics'', PStr ''full coverage, masculine or feminine styling'')]),
      (''wreath'', PDict [
        (''description'', PStr ''Circular form symbolizing eternal life''),
        (''characteristics'', PStr ''traditional, symmetrical, symbolic'')]),
      (''sympathy_basket'', PDict [
        (''description'', PStr ''Comforting arrangement for home''),
        (''characteristics'', PStr ''thoughtful, lasting, garden-style'')])]),
    (''celebration'', [
      (''birthday'', PDict [
        (''characteristics'', PStr ''joyful, colorful, personal to recipient''),
        (''styles'', PList [PStr ''vibrant'', PStr ''fun'', PStr ''favorite colors''])]),
      (''anniversary'', PDict [
        (''characteristics'', PStr ''romantic, meaningful, often roses''),
        (''styles'', PList [PStr ''elegant'', PStr ''romantic'', PStr ''traditional flowers''])]),
      (''congratulations'', PDict [
        (''characteristics'', PStr ''bright, uplifting, celebratory''),
        (''styles'', PList [PStr ''vibrant'', PStr ''contemporary'', PStr ''bold''])]),
      (''get_well'', PDict [
        (''characteristics'', PStr ''cheerful, uplifting, fragrance-free''),
        (''styles'', PList [PStr ''bright colors'', PStr ''garden-style'', PStr ''optimistic''])])]),
    (''everyday'', [
      (''home_decor'', PDict [
        (''characteristics'', PStr ''seasonally appropriate, complements interior''),
        (''styles'', PList [PStr ''garden-style'', PStr ''minimalist'', PStr ''whatever brings joy''])]),
      (''hostess_gift'', PDict [
        (''characteristics'', PStr ''thoughtful, pre-arranged, ready to display''),
        (''styles'', PList [PStr ''elegant'', PStr ''seasonal'', PStr ''generous but not overwhelming''])])])]"

subsection \<open>The built-ins \<open>repr\<close> and \<open>str\<close>\<close>

text \<open>
  \<open>repr\<close> of a string: in single quotes, or in double quotes when the string holds a
  single quote and no double quote; the backslash, the chosen quote, line feed, carriage
  return and tab are escaped, any other ASCII control character is written \<open>\xNN\<close>.
\<close>

definition hex_digit :: "nat \<Rightarrow> char" where
  "hex_digit n = ''0123456789abcdef'' ! (n mod 16)"

definition repr_chr :: "char \<Rightarrow> char \<Rightarrow> string" where
  "repr_chr quote c =
     (if c = CHR 0x5C then [CHR 0x5C, CHR 0x5C]
      else if c = quote then [CHR 0x5C, quote]
      else if c = CHR 0x0A then [CHR 0x5C, CHR ''n'']
      else if c = CHR 0x0D then [CHR 0x5C, CHR ''r'']
      else if c = CHR 0x09 then [CHR 0x5C, CHR ''t'']
      else if (of_char c :: nat) < 32 \<or> (of_char c :: nat) = 127
        then [CHR 0x5C, CHR ''x'', hex_digit (of_char c div 16), hex_digit (of_char c)]
      else [c])"

definition repr_str :: "string \<Rightarrow> string" where
  "repr_str s =
     (let quote = (if CHR 0x27 \<in> set s \<and> CHR 0x22 \<notin> set s then CHR 0x22 else CHR 0x27)
      in [quote] @ concat (map (repr_chr quote) s) @ [quote])"

text \<open>The decimal numeral of an integer.\<close>

fun nat_str :: "nat \<Rightarrow> string" where
  "nat_str n =
     (if n < 10 then [''0123456789'' ! n] else nat_str (n div 10) @ [''0123456789'' ! (n mod 10)])"

declare nat_str.simps [simp del]

definition int_str :: "int \<Rightarrow> string" where
  "int_str i = (if i < 0 then CHR ''-'' # nat_str (nat (- i)) else nat_str (nat i))"

text \<open>\<open>sep.join(pieces)\<close>\<close>

fun join :: "string \<Rightarrow> string list \<Rightarrow> string" where
  "join sep [] = []"
| "join sep [p] = p"
| "join sep (p # q # ps) = p @ sep @ join sep (q # ps)"

text \<open>
  \<open>repr\<close> of a value: a list as \<open>[item, ...]\<close>, a dictionary as \<open>{key: value, ...}\<close>, with
  the items' own \<open>repr\<close>.
\<close>

fun py_repr :: "pyval \<Rightarrow> string"
  and repr_list :: "pyval list \<Rightarrow> string list"
  and repr_items :: "(string \<times> pyval) list \<Rightarrow> string list" where
  "py_repr (PStr s) = repr_str s"
| "py_repr (PInt i) = int_str i"
| "py_repr (PFloat r) = r"
| "py_repr (PList xs) = ''['' @ join '', '' (repr_list xs) @ '']''"
| "py_repr (PDict d) = ''{'' @ join '', '' (repr_items d) @ ''}''"
| "repr_list [] = []"
| "repr_list (x # xs) = py_repr x # repr_list xs"
| "repr_items [] = []"
| "repr_items ((k, v) # d) = (repr_str k @ '': '' @ py_repr v) # repr_items d"

text \<open>\<open>str\<close> of a value: a string is itself, anything else its \<open>repr\<close>.\<close>

definition py_str :: "pyval \<Rightarrow> string" where
  "py_str v = (case v of PStr s \<Rightarrow> s | _ \<Rightarrow> py_repr v)"

subsection \<open>map_occasion\<close>

text \<open>
  The loop over \<open>OCCASIONS.items()\<close> that returns at the first entry whose lower-cased
  string form holds the occasion; \<open>None\<close> when the loop ends without returning.
\<close>

fun occasion_loop :: "string \<Rightarrow> (string \<times> dict) list \<Rightarrow> dict option" where
  "occasion_loop occasion [] = None"
| "occasion_loop occasion ((occ_name, occ_data) # rest) =
     (if py_in occasion (lower (py_str (PDict occ_data)))
      then Some [(occ_name, PDict occ_data)]
      else occasion_loop occasion rest)"

definition map_occasion :: "string \<Rightarrow> dict \<Rightarrow> py_error + dict" where
  "map_occasion occasion style =
     (if has_key OCCASIONS occasion then dict_getitem OCCASIONS occasion
      else
        (case occasion_loop occasion OCCASIONS of
           Some r \<Rightarrow> Inr r
         | None \<Rightarrow>
             Inr [(''occasion'', PStr ''general''),
                  (''notes'', PStr ''versatile arrangement suitable for various contexts'')]))"

subsection \<open>The tool suggest_flowers_for_occasion\<close>

definition suggest_flowers_for_occasion :: "string \<Rightarrow> py_error + dict" where
  "suggest_flowers_for_occasion occasion =
     (if has_key OCCASIONS occasion then
        bindE (dict_getitem OCCASIONS occasion) (\<lambda>recommendations.
        Inr [(''occasion'', PStr occasion),
             (''recommendations'', PDict recommendations)])
      else
        Inr [(''occasion'', PStr occasion),
             (''error'', PStr (''Occasion '' @ [CHR 0x27] @ occasion @ [CHR 0x27] @ '' not found'')),
             (''available_occasions'', PList (map (\<lambda>(k, v). PStr k) OCCASIONS))])"

section \<open>Color palettes\<close>

definition COLOR_PALETTES :: "(string \<times> dict) list" where
  "COLOR_PALETTES = [
    (''monochromatic'', [
      (''description'', PStr ''Single color in varying shades and tints''),
      (''examples'', PList [PStr ''all white'', PStr ''blush to deep pink'', PStr ''cream to chocolate'']),
      (''effect'', PStr ''sophisticated, cohesive, elegant''),
      (''occasions'', PList [PStr ''wedding'', PStr ''formal'', PStr ''minimalist''])]),
    (''analogous'', [
      (''description'', PStr ''Colors adjacent on color wheel''),
      (''examples'', PList [PStr ''yellow-orange-red'', PStr ''blue-purple-violet'', PStr ''yellow-green-blue'']),
      (''effect'', PStr ''harmonious, natural, pleasing''),
      (''occasions'', PList [PStr ''everyday'', PStr ''celebration'', PStr ''garden-style''])]),
    (''complementary'', [
      (''description'', PStr ''Opposite colors on wheel''),
      (''examples'', PList [PStr ''purple-yellow'', PStr ''blue-orange'', PStr ''red-green'']),
      (''effect'', PStr ''vibrant, energetic, bold contrast''),
      (''occasions'', PList [PStr ''celebration'', PStr ''modern'', PStr ''attention-grabbing''])]),
    (''triadic'', [
      (''description'', PStr ''Three colors evenly spaced on wheel''),
      (''examples'', PList [PStr ''red-yellow-blue'', PStr ''orange-green-purple'']),
      (''effect'', PStr ''vibrant, balanced, rich''),
      (''occasions'', PList [PStr ''festive'', PStr ''children'', PStr ''joyful''])]),
    (''romantic'', [
      (''colors'', PList [PStr ''blush pink'', PStr ''cream'', PStr ''soft peach'', PStr ''ivory'', PStr ''champagne'']),
      (''effect'', PStr ''soft, dreamy, feminine, gentle''),
      (''occasions'', PList [PStr ''wedding'', PStr ''bridal shower'', PStr ''anniversary''])]),
    (''elegant'', [
      (''colors'', PList [PStr ''deep burgundy'', PStr ''cream'', PStr ''forest green'', PStr ''white'', PStr ''gold accent'']),
      (''effect'', PStr ''sophisticated, refined, formal''),
      (''occasions'', PList [PStr ''gala'', PStr ''formal dinner'', PStr ''luxury events''])]),
    (''vibrant'', [
      (''colors'', PList [PStr ''magenta'', PStr ''orange'', PStr ''hot pink'', PStr ''yellow'', PStr ''coral'']),
      (''effect'', PStr ''energetic, joyful, bold''),
      (''occasions'', PList [PStr ''birthday'', PStr ''tropical'', PStr ''celebration''])]),
    (''spring'', [
      (''colors'', PList [PStr ''tulip yellow'', PStr ''daffodil'', PStr ''lavender'', PStr ''soft pink'', PStr ''fresh green'']),
      (''effect'', PStr ''fresh, renewal, optimistic''),
      (''seasons'', PList [PStr ''spring'']),
      (''occasions'', PList [PStr ''easter'', PStr ''spring wedding''])]),
    (''summer'', [
      (''colors'', PList [PStr ''bright yellow'', PStr ''coral'', PStr ''hot pink'', PStr ''orange'', PStr ''lime green'']),
      (''effect'', PStr ''warm, abundant, lively''),
      (''seasons'', PList [PStr ''summer'']),
      (''occasions'', PList [PStr ''garden party'', PStr ''outdoor celebration''])]),
    (''autumn'', [
      (''colors'', PList [PStr ''rust orange'', PStr ''burgundy'', PStr ''golden yellow'', PStr ''bronze'', PStr ''deep red'']),
      (''effect'', PStr ''warm, rich, harvest''),
      (''seasons'', PList [PStr ''fall'']),
      (''occasions'', PList [PStr ''thanksgiving'', PStr ''fall wedding''])]),
    (''winter'', [
      (''colors'', PList [PStr ''deep red'', PStr ''white'', PStr ''evergreen'', PStr ''silver'', PStr ''navy'']),
      (''effect'', PStr ''crisp, festive, elegant''),
      (''seasons'', PList [PStr ''winter'']),
      (''occasions'', PList [PStr ''christmas'', PStr ''winter formal''])])]"

subsection \<open>detect_color_scheme\<close>

text \<open>
  The loop over \<open>COLOR_PALETTES.items()\<close> that returns at the first palette whose name
  is in the lower-cased intent; \<open>None\<close> when the loop ends without returning.
\<close>

fun palette_loop :: "string \<Rightarrow> (string \<times> dict) list \<Rightarrow> dict option" where
  "palette_loop intent_lower [] = None"
| "palette_loop intent_lower ((palette_name, palette_data) # rest) =
     (if py_in palette_name intent_lower
      then Some (spread [(''palette'', PStr palette_name)] palette_data)
      else palette_loop intent_lower rest)"

text \<open>\<open>{"palette": name, **COLOR_PALETTES[name]}\<close>\<close>

definition palette_literal :: "string \<Rightarrow> py_error + dict" where
  "palette_literal name =
     bindE (dict_getitem COLOR_PALETTES name) (\<lambda>palette_data.
     Inr (spread [(''palette'', PStr name)] palette_data))"

definition detect_color_scheme :: "string \<Rightarrow> string \<Rightarrow> string \<Rightarrow> py_error + dict" where
  "detect_color_scheme intent color_preference occasion =
     (let intent_lower = lower intent in
      case palette_loop intent_lower COLOR_PALETTES of
        Some r \<Rightarrow> Inr r
      | None \<Rightarrow>
          if py_in ''spring'' intent_lower then palette_literal ''spring''
          else if py_in ''summer'' intent_lower then palette_literal ''summer''
          else if py_in ''autumn'' intent_lower \<or> py_in ''fall'' intent_lower
            then palette_literal ''autumn''
          else if py_in ''winter'' intent_lower then palette_literal ''winter''
          else if py_in ''romantic'' intent_lower \<or> py_in ''wedding'' intent_lower
            then palette_literal ''romantic''
          else if py_in ''elegant'' intent_lower \<or> py_in ''formal'' intent_lower
            then palette_literal ''elegant''
          else if py_in ''vibrant'' intent_lower \<or> py_in ''bold'' intent_lower
            then palette_literal ''vibrant''
          else if has_key COLOR_PALETTES color_preference then palette_literal color_preference
          else palette_literal ''analogous'')"

section \<open>Flowers\<close>

definition FLOWERS_BY_ROLE :: "(string \<times> (string \<times> dict) list) list" where
  "FLOWERS_BY_ROLE = [
    (''focal'', [
      (''roses'', [
        (''types'', PList [PStr ''garden roses'', PStr ''spray roses'', PStr ''hybrid tea'', PStr ''English roses'']),
        (''characteristics'', PStr ''classic beauty, layered petals, focal point dominance''),
        (''color_range'', PStr ''full spectrum''),
        (''size'', PStr ''large 3-5 inches''),
        (''seasons'', PList [PStr ''spring'', PStr ''summer'', PStr ''fall'']),
        (''symbolism'', PStr ''love, romance, elegance'')]),
      (''peonies'', [
        (''types'', PList [PStr ''herbaceous'', PStr ''tree peony'', PStr ''Itoh hybrid'']),
        (''characteristics'', PStr ''lush ruffled petals, full bloom drama, short season''),
        (''color_range'', PStr ''white, pink, coral, burgundy''),
        (''size'', PStr ''very large 4-6 inches''),
        (''seasons'', PList [PStr ''late spring'', PStr ''early summer'']),
        (''symbolism'', PStr ''prosperity, honor, romance'')]),
      (''lilies'', [
        (''types'', PList [PStr ''oriental'', PStr ''asiatic'', PStr ''calla'', PStr ''trumpet'']),
        (''characteristics'', PStr ''dramatic form, strong fragrance (oriental), architectural''),
        (''color_range'', PStr ''full spectrum''),
        (''size'', PStr ''large 4-6 inches per bloom''),
        (''seasons'', PList [PStr ''summer'', PStr ''fall'']),
        (''symbolism'', PStr ''purity, majesty, sophistication'')]),
      (''orchids'', [
        (''types'', PList [PStr ''phalaenopsis'', PStr ''cymbidium'', PStr ''dendrobium'', PStr ''vanda'']),
        (''characteristics'', PStr ''exotic elegance, long-lasting, tropical''),
        (''color_range'', PStr ''white, pink, purple, yellow, green''),
        (''size'', PStr ''medium 2-4 inches''),
        (''seasons'', PList [PStr ''year-round'']),
        (''symbolism'', PStr ''luxury, refinement, beauty'')]),
      (''hydrangeas'', [
        (''types'', PList [PStr ''mophead'', PStr ''lacecap'', PStr ''paniculata'', PStr ''oakleaf'']),
        (''characteristics'', PStr ''full mass, color-changing, garden feel''),
        (''color_range'', PStr ''blue, pink, white, green, purple''),
        (''size'', PStr ''very large 6-8 inch heads''),
        (''seasons'', PList [PStr ''summer'', PStr ''fall'']),
        (''symbolism'', PStr ''gratitude, abundance, heartfelt emotion'')]),
      (''sunflowers'', [
        (''types'', PList [PStr ''giant'', PStr ''teddy bear'', PStr ''moulin rouge'', PStr ''autumn beauty'']),
        (''characteristics'', PStr ''bold face, cheerful, rustic charm''),
        (''color_range'', PStr ''yellow, orange, burgundy, bronze''),
        (''size'', PStr ''large 4-10 inches''),
        (''seasons'', PList [PStr ''summer'', PStr ''fall'']),
        (''symbolism'', PStr ''happiness, loyalty, longevity'')]),
      (''dahlias'', [
        (''types'', PList [PStr ''dinner plate'', PStr ''cactus'', PStr ''pompon'', PStr ''decorative'']),
        (''characteristics'', PStr ''geometric petals, bold color, garden luxury''),
        (''color_range'', PStr ''full spectrum except blue''),
        (''size'', PStr ''small to very large 2-10 inches''),
        (''seasons'', PList [PStr ''late summer'', PStr ''fall'']),
        (''symbolism'', PStr ''elegance, dignity, commitment'')])]),
    (''line'', [
      (''snapdragons'', [
        (''characteristics'', PStr ''vertical spikes, graduated blooms, height emphasis''),
        (''color_range'', PStr ''full spectrum''),
        (''height'', PStr ''18-36 inches''),
        (''use'', PStr ''creates vertical movement and height'')]),
      (''delphiniums'', [
        (''characteristics'', PStr ''tall elegant columns, cottage garden feel''),
        (''color_range'', PStr ''blue, purple, pink, white''),
        (''height'', PStr ''24-48 inches''),
        (''use'', PStr ''dramatic height, romantic spires'')]),
      (''gladiolus'', [
        (''characteristics'', PStr ''sword-like stems, formal linear''),
        (''color_range'', PStr ''full spectrum''),
        (''height'', PStr ''24-60 inches''),
        (''use'', PStr ''strong vertical lines, classical elegance'')]),
      (''liatris'', [
        (''characteristics'', PStr ''fuzzy textured spikes, blooms top-down''),
        (''color_range'', PStr ''purple, white''),
        (''height'', PStr ''18-36 inches''),
        (''use'', PStr ''unique texture, prairie wildflower feel'')]),
      (''bells_of_ireland'', [
        (''characteristics'', PStr ''green architectural spires, shell-like calyxes''),
        (''color_range'', PStr ''lime green''),
        (''height'', PStr ''24-36 inches''),
        (''use'', PStr ''fresh green accent, Irish symbolism'')]),
      (''stock'', [
        (''characteristics'', PStr ''fragrant vertical clusters, cottage garden''),
        (''color_range'', PStr ''white, pink, purple, lavender''),
        (''height'', PStr ''18-30 inches''),
        (''use'', PStr ''fragrance, soft spires, romantic'')])]),
    (''filler'', [
      (''baby_breath'', [
        (''characteristics'', PStr ''cloud-like delicate, tiny white blooms''),
        (''use'', PStr ''softens arrangements, creates airiness, classic filler''),
        (''texture'', PStr ''fine, misty'')]),
      (''waxflower'', [
        (''characteristics'', PStr ''tiny clustered blooms, long-lasting, waxy texture''),
        (''color_range'', PStr ''white, pink, purple''),
        (''use'', PStr ''elegant filler, wedding favorite'')]),
      (''statice'', [
        (''characteristics'', PStr ''papery textured, long-lasting, dried feel''),
        (''color_range'', PStr ''purple, white, yellow, pink''),
        (''use'', PStr ''texture contrast, everlasting quality'')]),
      (''solidago'', [
        (''characteristics'', PStr ''golden plumes, wild meadow feel''),
        (''color_range'', PStr ''yellow, gold''),
        (''use'', PStr ''fall arrangements, cheerful accent'')]),
      (''alstroemeria'', [
        (''characteristics'', PStr ''small lily-like, long vase life, multiple blooms''),
        (''color_range'', PStr ''full spectrum''),
        (''use'', PStr ''versatile filler, budget-friendly'')]),
      (''hypericum'', [
        (''characteristics'', PStr ''berry-like, unique texture''),
        (''color_range'', PStr ''red, burgundy, white, green''),
        (''use'', PStr ''adds interest, festive accent'')])]),
    (''texture'', [
      (''thistle'', [
        (''characteristics'', PStr ''spiky, architectural, edgy''),
        (''color_range'', PStr ''purple, blue, white''),
        (''use'', PStr ''modern edge, texture contrast'')]),
      (''protea'', [
        (''characteristics'', PStr ''bold sculptural, exotic''),
        (''color_range'', PStr ''pink, coral, cream''),
        (''use'', PStr ''focal drama, tropical luxury'')]),
      (''scabiosa'', [
        (''characteristics'', PStr ''pincushion center, whimsical''),
        (''color_range'', PStr ''deep burgundy, purple, white''),
        (''use'', PStr ''unique texture, romantic gardens'')]),
      (''ranunculus'', [
        (''characteristics'', PStr ''layered tissue-paper petals, romantic''),
        (''color_range'', PStr ''full spectrum''),
        (''use'', PStr ''texture richness, elegant beauty'')])])]"

subsection \<open>suggest_flowers_by_occasion\<close>

text \<open>
  \<open>d[k].append(item)\<close>: the list under \<open>k\<close> is looked up first, then the item is
  evaluated, then it goes to the end of that list.
\<close>

definition append_to :: "dict \<Rightarrow> string \<Rightarrow> py_error + pyval \<Rightarrow> py_error + dict" where
  "append_to d k item =
     bindE (dict_getitem d k) (\<lambda>l.
     case l of
       PList xs \<Rightarrow> bindE item (\<lambda>v. Inr (dict_set d k (PList (xs @ [v]))))
     | _ \<Rightarrow> Inl AttributeError)"

text \<open>\<open>{"name": name, "role": role, **FLOWERS_BY_ROLE[role][key]}\<close>\<close>

definition flower_literal :: "string \<Rightarrow> string \<Rightarrow> string \<Rightarrow> py_error + pyval" where
  "flower_literal name role key =
     bindE (dict_getitem FLOWERS_BY_ROLE role) (\<lambda>flowers.
     bindE (dict_getitem flowers key) (\<lambda>flower_data.
     Inr (PDict (spread [(''name'', PStr name), (''role'', PStr role)] flower_data))))"

definition suggest_flowers_by_occasion :: "string \<Rightarrow> string \<Rightarrow> py_error + dict" where
  "suggest_flowers_by_occasion occasion intent =
     (let suggestions =
        [(''focal'', PList []), (''line'', PList []), (''filler'', PList []), (''texture'', PList [])]
      in
      if py_in ''wedding'' occasion \<or> py_in ''wedding'' intent \<or> py_in ''bridal'' intent then
        bindE (append_to suggestions ''focal'' (flower_literal ''garden roses'' ''focal'' ''roses''))
          (\<lambda>suggestions.
        bindE (append_to suggestions ''focal'' (flower_literal ''peonies'' ''focal'' ''peonies''))
          (\<lambda>suggestions.
        bindE (append_to suggestions ''filler'' (flower_literal ''baby breath'' ''filler'' ''baby_breath''))
          (\<lambda>suggestions.
        Inr suggestions)))
      else if py_in ''romantic'' intent \<or> py_in ''anniversary'' intent then
        bindE (append_to suggestions ''focal'' (flower_literal ''roses'' ''focal'' ''roses''))
          (\<lambda>suggestions.
        bindE (append_to suggestions ''texture'' (flower_literal ''ranunculus'' ''texture'' ''ranunculus''))
          (\<lambda>suggestions.
        Inr suggestions))
      else if py_in ''vibrant'' intent \<or> py_in ''celebration'' intent \<or> py_in ''birthday'' intent then
        bindE (append_to suggestions ''focal'' (flower_literal ''sunflowers'' ''focal'' ''sunflowers''))
          (\<lambda>suggestions.
        bindE (append_to suggestions ''focal'' (flower_literal ''dahlias'' ''focal'' ''dahlias''))
          (\<lambda>suggestions.
        Inr suggestions))
      else if py_in ''elegant'' intent \<or> py_in ''formal'' intent then
        bindE (append_to suggestions ''focal'' (flower_literal ''orchids'' ''focal'' ''orchids''))
          (\<lambda>suggestions.
        bindE (append_to suggestions ''focal'' (flower_literal ''lilies'' ''focal'' ''lilies''))
          (\<lambda>suggestions.
        Inr suggestions))
      else
        bindE (append_to suggestions ''focal'' (flower_literal ''roses'' ''focal'' ''roses''))
          (\<lambda>suggestions.
        bindE (append_to suggestions ''filler'' (flower_literal ''waxflower'' ''filler'' ''waxflower''))
          (\<lambda>suggestions.
        Inr suggestions)))"

subsection \<open>detect_flowers\<close>

text \<open>The inner loop, over the flowers of one role, and the outer loop, over the roles.\<close>

fun flowers_loop :: "string \<Rightarrow> string \<Rightarrow> (string \<times> dict) list \<Rightarrow> dict \<Rightarrow> py_error + dict" where
  "flowers_loop intent role [] detected = Inr detected"
| "flowers_loop intent role ((flower_name, flower_data) # rest) detected =
     (if py_in (replace_chr CHR ''_'' CHR '' '' flower_name) intent then
        bindE (append_to detected role
                 (Inr (PDict (spread [(''name'', PStr (replace_chr CHR ''_'' CHR '' '' flower_name)),
                                      (''role'', PStr role)] flower_data))))
          (\<lambda>detected. flowers_loop intent role rest detected)
      else flowers_loop intent role rest detected)"

fun roles_loop ::
  "string \<Rightarrow> (string \<times> (string \<times> dict) list) list \<Rightarrow> dict \<Rightarrow> py_error + dict" where
  "roles_loop intent [] detected = Inr detected"
| "roles_loop intent ((role, flowers) # rest) detected =
     bindE (flowers_loop intent role flowers detected) (\<lambda>detected.
     roles_loop intent rest detected)"

text \<open>The truth value of a value: empty strings, lists and dictionaries and zero are false.\<close>

definition truthy :: "pyval \<Rightarrow> bool" where
  "truthy v =
     (case v of
        PStr s \<Rightarrow> s \<noteq> []
      | PInt i \<Rightarrow> i \<noteq> 0
      | PFloat r \<Rightarrow> r \<noteq> ''0.0'' \<and> r \<noteq> ''-0.0''
      | PList xs \<Rightarrow> xs \<noteq> []
      | PDict d \<Rightarrow> d \<noteq> [])"

definition detect_flowers :: "string \<Rightarrow> string \<Rightarrow> py_error + dict" where
  "detect_flowers intent occasion =
     (let detected =
        [(''focal'', PList []), (''line'', PList []), (''filler'', PList []), (''texture'', PList [])]
      in
      bindE (roles_loop intent FLOWERS_BY_ROLE detected) (\<lambda>detected.
      if \<not> list_ex truthy (map snd detected)
      then suggest_flowers_by_occasion occasion intent
      else Inr detected))"

section \<open>Prompt formatting\<close>

subsection \<open>Operations on values of any type\<close>

text \<open>
  \<open>v[k]\<close> for a string key: only a dictionary can be indexed by a string. \<open>v.get(k,
  default)\<close>: only a dictionary has the method. \<open>k in v\<close>: a key of a dictionary, an item
  of a list, a substring of a string.
\<close>

definition subscript :: "pyval \<Rightarrow> string \<Rightarrow> py_error + pyval" where
  "subscript v k = (case v of PDict d \<Rightarrow> dict_getitem d k | _ \<Rightarrow> Inl TypeError)"

definition get_method :: "pyval \<Rightarrow> string \<Rightarrow> pyval \<Rightarrow> py_error + pyval" where
  "get_method v k dflt =
     (case v of PDict d \<Rightarrow> Inr (dict_get_default d k dflt) | _ \<Rightarrow> Inl AttributeError)"

definition contains :: "pyval \<Rightarrow> string \<Rightarrow> py_error + bool" where
  "contains v k =
     (case v of
        PDict d \<Rightarrow> Inr (has_key d k)
      | PList xs \<Rightarrow> Inr (PStr k \<in> set xs)
      | PStr s \<Rightarrow> Inr (py_in k s)
      | _ \<Rightarrow> Inl TypeError)"

text \<open>
  Iteration: the items of a list, the characters of a string, the keys of a dictionary;
  a number cannot be iterated.
\<close>

definition py_iter :: "pyval \<Rightarrow> py_error + pyval list" where
  "py_iter v =
     (case v of
        PList xs \<Rightarrow> Inr xs
      | PStr s \<Rightarrow> Inr (map (\<lambda>c. PStr [c]) s)
      | PDict d \<Rightarrow> Inr (map (\<lambda>(k, x). PStr k) d)
      | _ \<Rightarrow> Inl TypeError)"

text \<open>The comprehension \<open>[f["name"] for f in v]\<close>.\<close>

fun names_of_items :: "pyval list \<Rightarrow> py_error + pyval list" where
  "names_of_items [] = Inr []"
| "names_of_items (f # fs) =
     bindE (subscript f ''name'') (\<lambda>n. bindE (names_of_items fs) (\<lambda>ns. Inr (n # ns)))"

definition names_of :: "pyval \<Rightarrow> py_error + pyval list" where
  "names_of v = bindE (py_iter v) names_of_items"

text \<open>\<open>sep.join(items)\<close>: every item has to be a string.\<close>

fun str_items :: "pyval list \<Rightarrow> py_error + string list" where
  "str_items [] = Inr []"
| "str_items (v # vs) =
     (case v of
        PStr s \<Rightarrow> bindE (str_items vs) (\<lambda>ss. Inr (s # ss))
      | _ \<Rightarrow> Inl TypeError)"

definition join_values :: "string \<Rightarrow> pyval list \<Rightarrow> py_error + string" where
  "join_values sep vs = bindE (str_items vs) (\<lambda>ss. Inr (join sep ss))"

text \<open>
  \<open>str.title\<close> on ASCII letters: a letter that follows a letter is lower-cased, any
  other letter is upper-cased.
\<close>

definition is_lower :: "char \<Rightarrow> bool" where
  "is_lower c = (c \<in> set ''abcdefghijklmnopqrstuvwxyz'')"

definition is_upper :: "char \<Rightarrow> bool" where
  "is_upper c = (c \<in> set ''ABCDEFGHIJKLMNOPQRSTUVWXYZ'')"

fun title_from :: "bool \<Rightarrow> string \<Rightarrow> string" where
  "title_from previous_is_cased [] = []"
| "title_from previous_is_cased (c # cs) =
     (if is_lower c then (if previous_is_cased then c else upper_chr c) # title_from True cs
      else if is_upper c then (if previous_is_cased then lower_chr c else c) # title_from True cs
      else c # title_from False cs)"

definition title :: "string \<Rightarrow> string" where
  "title s = title_from False s"

text \<open>\<open>v.replace('_', ' ').title()\<close>: only a string has the methods.\<close>

definition replace_title :: "pyval \<Rightarrow> py_error + string" where
  "replace_title v =
     (case v of
        PStr s \<Rightarrow> Inr (title (replace_chr CHR ''_'' CHR '' '' s))
      | _ \<Rightarrow> Inl AttributeError)"

subsection \<open>format_prompt_enhancement\<close>

text \<open>
  \<open>if names: parts.append(f"{lead}{', '.join(names)}{trail}")\<close>, returning the list
  \<open>parts\<close> as it is afterwards.
\<close>

definition add_clause ::
  "string list \<Rightarrow> pyval list \<Rightarrow> string \<Rightarrow> string \<Rightarrow> py_error + string list" where
  "add_clause parts names lead trail =
     (if names \<noteq> []
      then bindE (join_values '', '' names) (\<lambda>joined. Inr (parts @ [lead @ joined @ trail]))
      else Inr parts)"

text \<open>The list \<open>parts\<close> that format_prompt_enhancement builds.\<close>

definition prompt_parts :: "dict \<Rightarrow> py_error + string list" where
  "prompt_parts mapped =
     bindE (dict_getitem mapped ''style'') (\<lambda>style.
     bindE (dict_getitem mapped ''flowers'') (\<lambda>flowers.
     bindE (dict_getitem mapped ''foliage'') (\<lambda>foliage.
     bindE (dict_getitem mapped ''colors'') (\<lambda>colors.
     bindE (dict_getitem mapped ''structure'') (\<lambda>structure.
     let parts = [] in
     bindE (subscript style ''type'') (\<lambda>style_type.
     bindE (replace_title style_type) (\<lambda>titled.
     let parts = parts @ [titled @ '' floral arrangement''] in
     bindE (subscript style ''container'') (\<lambda>container.
     let parts = parts @ [''in '' @ py_str container] in
     bindE (bindE (get_method flowers ''focal'' (PList [])) names_of) (\<lambda>focal_flowers.
     bindE (add_clause parts focal_flowers ''featuring '' '' as focal flowers'') (\<lambda>parts.
     bindE (bindE (get_method flowers ''line'' (PList [])) names_of) (\<lambda>line_flowers.
     bindE (add_clause parts line_flowers ''with '' '' creating vertical lines'') (\<lambda>parts.
     bindE (bindE (get_method flowers ''filler'' (PList [])) names_of) (\<lambda>filler_flowers.
     bindE (add_clause parts filler_flowers ''filled with '' []) (\<lambda>parts.
     bindE (names_of foliage) (\<lambda>foliage_names.
     bindE (add_clause parts foliage_names ''accented with '' '' foliage'') (\<lambda>parts.
     bindE (contains colors ''colors'') (\<lambda>has_colors.
     bindE (if has_colors
            then bindE (subscript colors ''colors'') (\<lambda>color_list.
                 bindE (py_iter color_list) (\<lambda>color_items.
                 bindE (join_values '', '' color_items) (\<lambda>joined.
                 Inr (parts @ [''in '' @ joined @ '' palette'']))))
            else Inr parts) (\<lambda>parts.
     bindE (subscript structure ''balance'') (\<lambda>balance.
     bindE (subscript balance ''description'') (\<lambda>balance_description.
     let parts = parts @ [''using '' @ py_str balance_description] in
     bindE (subscript structure ''movement'') (\<lambda>movement.
     bindE (subscript movement ''description'') (\<lambda>movement_description.
     let parts = parts @ [''with '' @ py_str movement_description] in
     bindE (get_method style ''characteristics'' (PStr ''beautiful composition''))
       (\<lambda>characteristics.
     let parts = parts @ [''creating '' @ py_str characteristics] in
     Inr parts)))))))))))))))))))))))"

definition format_prompt_enhancement :: "dict \<Rightarrow> py_error + string" where
  "format_prompt_enhancement mapped =
     bindE (prompt_parts mapped) (\<lambda>parts. Inr (join '', '' parts))"

section \<open>Foliage, cultural context and the pipeline\<close>

definition FOLIAGE_TYPES :: "(string \<times> (string \<times> dict) list) list" where
  "FOLIAGE_TYPES = [
    (''structural'', [
      (''ferns'', [
        (''types'', PList [PStr ''leather fern'', PStr ''tree fern'', PStr ''sword fern'']),
        (''characteristics'', PStr ''feathery fronds, classical backdrop''),
        (''use'', PStr ''traditional base, soft texture'')]),
      (''eucalyptus'', [
        (''types'', PList [PStr ''seeded'', PStr ''silver dollar'', PStr ''baby blue'']),
        (''characteristics'', PStr ''silvery-blue leaves, aromatic, trendy''),
        (''use'', PStr ''modern texture, color accent, fragrance'')]),
      (''ruscus'', [
        (''characteristics'', PStr ''glossy pointed leaves, sturdy stems''),
        (''use'', PStr ''foundation greenery, long-lasting'')]),
      (''salal'', [
        (''characteristics'', PStr ''rounded glossy leaves, pacific northwest''),
        (''use'', PStr ''backdrop greenery, filler'')])]),
    (''accent'', [
      (''ivy'', [
        (''types'', PList [PStr ''English ivy'', PStr ''variegated ivy'']),
        (''characteristics'', PStr ''trailing vines, romantic drape''),
        (''use'', PStr ''softens edges, cascading effect'')]),
      (''pittosporum'', [
        (''characteristics'', PStr ''small rounded leaves, delicate sprays''),
        (''use'', PStr ''airy filler, soft texture'')]),
      (''dusty_miller'', [
        (''characteristics'', PStr ''silvery fuzzy leaves, soft focus''),
        (''use'', PStr ''color contrast, romantic softness'')]),
      (''olive_branches'', [
        (''characteristics'', PStr ''silvery-green, Mediterranean, symbolic''),
        (''use'', PStr ''rustic elegance, peace symbolism'')])]),
    (''dramatic'', [
      (''monstera'', [
        (''characteristics'', PStr ''large split leaves, tropical bold''),
        (''use'', PStr ''modern drama, tropical theme'')]),
      (''palm'', [
        (''types'', PList [PStr ''fan palm'', PStr ''phoenix palm'']),
        (''characteristics'', PStr ''architectural fronds, tropical''),
        (''use'', PStr ''bold statement, event decor'')]),
      (''aspidistra'', [
        (''characteristics'', PStr ''large blade leaves, manipulable''),
        (''use'', PStr ''wraps, structural elements'')])])]"

definition CULTURAL_TRADITIONS :: "(string \<times> dict) list" where
  "CULTURAL_TRADITIONS = [
    (''japanese_ikebana'', [
      (''philosophy'', PStr ''minimalism, asymmetry, nature appreciation, spiritual practice''),
      (''principles'', PList [PStr ''heaven-earth-man triangle'', PStr ''negative space as important as flowers'', PStr ''seasonal awareness'']),
      (''key_concepts'', PDict [
        (''ma'', PStr ''negative space, pause, interval''),
        (''wabi_sabi'', PStr ''imperfect beauty, transience''),
        (''shin_soe_hikae'', PStr ''primary, secondary, tertiary elements'')])]),
    (''european_garden'', [
      (''philosophy'', PStr ''abundance, romance, natural beauty''),
      (''principles'', PList [PStr ''lush fullness'', PStr ''color harmony'', PStr ''garden-fresh aesthetic'']),
      (''characteristics'', PStr ''loose, organic, just-picked feel, varied textures'')]),
    (''victorian'', [
      (''philosophy'', PStr ''language of flowers, tight structure, formal beauty''),
      (''principles'', PList [PStr ''symbolic meanings'', PStr ''tight massing'', PStr ''structured form'']),
      (''characteristics'', PStr ''dense, formal, symbolic, tussie-mussie style'')]),
    (''contemporary_western'', [
      (''philosophy'', PStr ''artistic expression, breaking tradition, individual style''),
      (''principles'', PList [PStr ''rule-breaking'', PStr ''artistic interpretation'', PStr ''personal expression'']),
      (''characteristics'', PStr ''varied widely, structural, unexpected materials'')])]"

subsection \<open>detect_foliage\<close>

text \<open>The two nested loops over the foliage table; \<open>foliage\<close> is the list built so far.\<close>

fun types_loop :: "string \<Rightarrow> string \<Rightarrow> (string \<times> dict) list \<Rightarrow> pyval list \<Rightarrow> pyval list" where
  "types_loop intent category [] foliage = foliage"
| "types_loop intent category ((foliage_name, foliage_data) # rest) foliage =
     (if py_in (replace_chr CHR ''_'' CHR '' '' foliage_name) intent then
        types_loop intent category rest
          (foliage @ [PDict (spread [(''name'', PStr (replace_chr CHR ''_'' CHR '' '' foliage_name)),
                                     (''category'', PStr category)] foliage_data)])
      else types_loop intent category rest foliage)"

fun categories_loop ::
  "string \<Rightarrow> (string \<times> (string \<times> dict) list) list \<Rightarrow> pyval list \<Rightarrow> pyval list" where
  "categories_loop intent [] foliage = foliage"
| "categories_loop intent ((category, types) # rest) foliage =
     categories_loop intent rest (types_loop intent category types foliage)"

text \<open>\<open>{"name": name, "category": category, **FOLIAGE_TYPES[category][key]}\<close>\<close>

definition foliage_literal :: "string \<Rightarrow> string \<Rightarrow> string \<Rightarrow> py_error + pyval" where
  "foliage_literal name category key =
     bindE (dict_getitem FOLIAGE_TYPES category) (\<lambda>types.
     bindE (dict_getitem types key) (\<lambda>foliage_data.
     Inr (PDict (spread [(''name'', PStr name), (''category'', PStr category)] foliage_data))))"

definition detect_foliage :: "string \<Rightarrow> dict \<Rightarrow> py_error + pyval list" where
  "detect_foliage intent style =
     (let foliage = categories_loop intent FOLIAGE_TYPES [] in
      if foliage = [] then
        (if dict_get style ''category'' = Some (PStr ''contemporary'')
            \<and> dict_get style ''type'' = Some (PStr ''minimalist'') then
           bindE (foliage_literal ''eucalyptus'' ''structural'' ''eucalyptus'') (\<lambda>f.
           Inr (foliage @ [f]))
         else if dict_get style ''category'' = Some (PStr ''contemporary'')
            \<and> dict_get style ''type'' = Some (PStr ''garden_style'') then
           bindE (foliage_literal ''eucalyptus'' ''structural'' ''eucalyptus'') (\<lambda>f.
           let foliage = foliage @ [f] in
           bindE (foliage_literal ''ivy'' ''accent'' ''ivy'') (\<lambda>g.
           Inr (foliage @ [g])))
         else if dict_get style ''category'' = Some (PStr ''ikebana'') then
           bindE (foliage_literal ''aspidistra'' ''dramatic'' ''aspidistra'') (\<lambda>f.
           Inr (foliage @ [f]))
         else
           bindE (foliage_literal ''ruscus'' ''structural'' ''ruscus'') (\<lambda>f.
           Inr (foliage @ [f])))
      else Inr foliage)"

subsection \<open>get_cultural_context\<close>

definition get_cultural_context :: "dict \<Rightarrow> py_error + dict" where
  "get_cultural_context style =
     (if dict_get style ''category'' = Some (PStr ''ikebana'')
        then dict_getitem CULTURAL_TRADITIONS ''japanese_ikebana''
      else if dict_get style ''category'' = Some (PStr ''contemporary'')
          \<and> dict_get style ''type'' = Some (PStr ''garden_style'')
        then dict_getitem CULTURAL_TRADITIONS ''european_garden''
      else if dict_get style ''category'' = Some (PStr ''contemporary'')
        then dict_getitem CULTURAL_TRADITIONS ''contemporary_western''
      else dict_getitem CULTURAL_TRADITIONS ''european_garden'')"

subsection \<open>map_floral_taxonomy\<close>

text \<open>
  The defaults of the optional parameters are "any", "general" and "harmonious"; a caller
  that leaves them out passes these.
\<close>

definition map_floral_taxonomy :: "string \<Rightarrow> string \<Rightarrow> string \<Rightarrow> string \<Rightarrow> py_error + dict" where
  "map_floral_taxonomy user_intent style_preference occasion color_scheme =
     (let intent_lower = lower user_intent in
      bindE (detect_arrangement_style intent_lower style_preference) (\<lambda>detected_style.
      bindE (detect_flowers intent_lower occasion) (\<lambda>detected_flowers.
      bindE (detect_foliage intent_lower detected_style) (\<lambda>detected_foliage.
      bindE (detect_color_scheme intent_lower color_scheme occasion) (\<lambda>detected_colors.
      bindE (map_structure detected_style detected_colors) (\<lambda>structure.
      bindE (map_occasion occasion detected_style) (\<lambda>occasion_specs.
      bindE (get_cultural_context detected_style) (\<lambda>cultural_context.
      Inr [(''user_intent'', PStr user_intent),
           (''style'', PDict detected_style),
           (''flowers'', PDict detected_flowers),
           (''foliage'', PList detected_foliage),
           (''colors'', PDict detected_colors),
           (''structure'', PDict structure),
           (''occasion'', PDict occasion_specs),
           (''cultural_context'', PDict cultural_context)]))))))))"

section \<open>The specification's reading of the operations\<close>

subsection \<open>Style detection as an ordered rule list\<close>

text \<open>
  The StyleEntry of a (category, type) pair: the table's record, tagged with its category
  and type.
\<close>

definition style_entry :: "string \<Rightarrow> string \<Rightarrow> dict" where
  "style_entry c t =
     (case map_of ARRANGEMENT_STYLES c of
        None \<Rightarrow> []
      | Some styles \<Rightarrow>
          (case map_of styles t of
             None \<Rightarrow> []
           | Some e \<Rightarrow> (''category'', PStr c) # (''type'', PStr t) # e))"

text \<open>
  The trigger phrases in priority order, each rule bound to a (category, type) pair. The
  first rule is bound to nageire; an intent that also holds "moribana" takes moribana.
\<close>

definition style_rules :: "(string list \<times> string \<times> string) list" where
  "style_rules = [
     ([''ikebana'', ''japanese''], ''ikebana'', ''nageire''),
     ([''cascade'', ''waterfall'', ''trailing''], ''western_classical'', ''cascade''),
     ([''dome'', ''round'', ''centerpiece''], ''western_classical'', ''dome''),
     ([''minimal'', ''modern'', ''contemporary''], ''contemporary'', ''minimalist''),
     ([''garden'', ''loose'', ''natural'', ''romantic''], ''contemporary'', ''garden_style''),
     ([''crescent'', ''curve''], ''western_classical'', ''crescent'')]"

text \<open>The substring test that ignores case.\<close>

definition ci_in :: "string \<Rightarrow> string \<Rightarrow> bool" where
  "ci_in needle haystack = py_in (lower needle) (lower haystack)"

text \<open>An entry that may be tagged: its keys are distinct and none is a tag.\<close>

definition taggable :: "string list \<Rightarrow> dict \<Rightarrow> bool" where
  "taggable tags e = (distinct (map fst e) \<and> list_all (\<lambda>k. k \<notin> set tags) (map fst e))"

subsection \<open>Structure mapping\<close>

text \<open>The technique record of a family, by name.\<close>

definition technique_entry :: "string \<Rightarrow> string \<Rightarrow> pyval" where
  "technique_entry family name =
     (case map_of STRUCTURAL_TECHNIQUES family of
        None \<Rightarrow> PDict []
      | Some techniques \<Rightarrow>
          (case map_of techniques name of None \<Rightarrow> PDict [] | Some e \<Rightarrow> PDict e))"

text \<open>A field of a returned record; \<open>None\<close> when the call raised or the field is missing.\<close>

definition result_field :: "py_error + dict \<Rightarrow> string \<Rightarrow> pyval option" where
  "result_field r k = (case r of Inl _ \<Rightarrow> None | Inr d \<Rightarrow> map_of d k)"

text \<open>Whether a style record is of the given category and type.\<close>

definition is_style :: "dict \<Rightarrow> string \<Rightarrow> string \<Rightarrow> bool" where
  "is_style style c t =
     (map_of style ''category'' = Some (PStr c) \<and> map_of style ''type'' = Some (PStr t))"

subsection \<open>Workflow graphs\<close>

text \<open>A string that \<open>int\<close> reads as an integer.\<close>

definition is_int_literal :: "string \<Rightarrow> bool" where
  "is_int_literal s = (case py_int s of Inl _ \<Rightarrow> False | Inr _ \<Rightarrow> True)"

text \<open>The inputs of a node of a returned graph, and one input of a node.\<close>

definition node_inputs :: "py_error + dict \<Rightarrow> string \<Rightarrow> dict option" where
  "node_inputs r node =
     (case result_field r node of
        Some (PDict n) \<Rightarrow> (case map_of n ''inputs'' of Some (PDict i) \<Rightarrow> Some i | _ \<Rightarrow> None)
      | _ \<Rightarrow> None)"

definition node_input :: "py_error + dict \<Rightarrow> string \<Rightarrow> string \<Rightarrow> pyval option" where
  "node_input r node name = (case node_inputs r node of None \<Rightarrow> None | Some i \<Rightarrow> map_of i name)"

text \<open>
  The shape of a graph, read off any graph document: the node ids with their class types,
  the references (node, input name, referenced node, output slot) in document order, and
  the literal inputs (node, input name, value), which are the inputs that are no
  reference.
\<close>

fun is_reference :: "pyval \<Rightarrow> bool" where
  "is_reference (PList [PStr target, PInt slot]) = True"
| "is_reference v = False"

fun reference_of :: "string \<Rightarrow> string \<times> pyval \<Rightarrow> (string \<times> string \<times> string \<times> int) list" where
  "reference_of node (name, PList [PStr target, PInt slot]) = [(node, name, target, slot)]"
| "reference_of node (name, v) = []"

definition inputs_of :: "pyval \<Rightarrow> dict" where
  "inputs_of n =
     (case n of
        PDict fields \<Rightarrow> (case map_of fields ''inputs'' of Some (PDict i) \<Rightarrow> i | _ \<Rightarrow> [])
      | _ \<Rightarrow> [])"

definition class_types :: "dict \<Rightarrow> (string \<times> pyval option) list" where
  "class_types g =
     map (\<lambda>(node, n). (node, case n of PDict fields \<Rightarrow> map_of fields ''class_type'' | _ \<Rightarrow> None)) g"

definition references :: "dict \<Rightarrow> (string \<times> string \<times> string \<times> int) list" where
  "references g = concat (map (\<lambda>(node, n). concat (map (reference_of node) (inputs_of n))) g)"

definition literals :: "dict \<Rightarrow> (string \<times> string \<times> pyval) list" where
  "literals g =
     concat (map (\<lambda>(node, n).
       map (\<lambda>(name, v). (node, name, v)) (filter (\<lambda>(name, v). \<not> is_reference v) (inputs_of n))) g)"

subsection \<open>Occasions\<close>

text \<open>The sub-table of an occasion.\<close>

definition occasion_table :: "string \<Rightarrow> dict" where
  "occasion_table occasion = (case map_of OCCASIONS occasion of None \<Rightarrow> [] | Some d \<Rightarrow> d)"

subsection \<open>Palette detection as an ordered rule list\<close>

text \<open>The palette record of a name: the table's record, tagged with the name.\<close>

definition palette_entry :: "string \<Rightarrow> dict" where
  "palette_entry name =
     (case map_of COLOR_PALETTES name of
        None \<Rightarrow> []
      | Some palette_data \<Rightarrow> (''palette'', PStr name) # palette_data)"

text \<open>The season keywords and the mood keywords, each rule bound to a palette name.\<close>

definition season_rules :: "(string list \<times> string) list" where
  "season_rules = [
     ([''spring''], ''spring''),
     ([''summer''], ''summer''),
     ([''autumn'', ''fall''], ''autumn''),
     ([''winter''], ''winter'')]"

definition mood_rules :: "(string list \<times> string) list" where
  "mood_rules = [
     ([''romantic'', ''wedding''], ''romantic''),
     ([''elegant'', ''formal''], ''elegant''),
     ([''vibrant'', ''bold''], ''vibrant'')]"

text \<open>The first rule of a list with a keyword in the text, as the palette name it is bound to.\<close>

definition first_keyword_rule :: "(string list \<times> string) list \<Rightarrow> string \<Rightarrow> string option" where
  "first_keyword_rule rules text_lower =
     map_option snd (find (\<lambda>(keywords, name). list_ex (\<lambda>k. py_in k text_lower) keywords) rules)"

text \<open>
  The palette name chosen by the five rules in order: a palette name in the lower-cased
  intent, a season keyword, a mood keyword, the color preference when it is a palette
  name, and analogous.
\<close>

definition chosen_palette :: "string \<Rightarrow> string \<Rightarrow> string" where
  "chosen_palette intent color_preference =
     (case find (\<lambda>name. py_in name (lower intent)) (map fst COLOR_PALETTES) of
        Some name \<Rightarrow> name
      | None \<Rightarrow>
          (case first_keyword_rule season_rules (lower intent) of
             Some name \<Rightarrow> name
           | None \<Rightarrow>
               (case first_keyword_rule mood_rules (lower intent) of
                  Some name \<Rightarrow> name
                | None \<Rightarrow>
                    if color_preference \<in> set (map fst COLOR_PALETTES) then color_preference
                    else ''analogous'')))"

subsection \<open>Flower detection\<close>

text \<open>The flowers the table lists under a role.\<close>

definition role_flowers :: "string \<Rightarrow> (string \<times> dict) list" where
  "role_flowers role = (case map_of FLOWERS_BY_ROLE role of None \<Rightarrow> [] | Some flowers \<Rightarrow> flowers)"

text \<open>A flower's name as it is looked for, and its FlowerEntry under a name and a role.\<close>

definition spoken :: "string \<Rightarrow> string" where
  "spoken flower_name = replace_chr CHR ''_'' CHR '' '' flower_name"

definition flower_entry :: "string \<Rightarrow> string \<Rightarrow> dict \<Rightarrow> pyval" where
  "flower_entry name role flower_data =
     PDict ((''name'', PStr name) # (''role'', PStr role) # flower_data)"

text \<open>Pass 1: under each role, the entries of its flowers named in the intent, in table order.\<close>

definition named_flowers :: "string \<Rightarrow> string \<Rightarrow> pyval list" where
  "named_flowers intent role =
     map (\<lambda>(flower_name, flower_data). flower_entry (spoken flower_name) role flower_data)
       (filter (\<lambda>(flower_name, flower_data). py_in (spoken flower_name) intent) (role_flowers role))"

definition pass1 :: "string \<Rightarrow> dict" where
  "pass1 intent =
     [(''focal'', PList (named_flowers intent ''focal'')),
      (''line'', PList (named_flowers intent ''line'')),
      (''filler'', PList (named_flowers intent ''filler'')),
      (''texture'', PList (named_flowers intent ''texture''))]"

definition any_named :: "string \<Rightarrow> bool" where
  "any_named intent =
     list_ex (\<lambda>(role, flowers). list_ex (\<lambda>(flower_name, flower_data).
       py_in (spoken flower_name) intent) flowers) FLOWERS_BY_ROLE"

text \<open>Pass 2: the five fallback branches in priority order, and the curated set of each.\<close>

datatype branch = Wedding | Romantic | Vibrant | Elegant | Default

definition fallback_branch :: "string \<Rightarrow> string \<Rightarrow> branch" where
  "fallback_branch occasion intent =
     (if py_in ''wedding'' occasion \<or> py_in ''wedding'' intent \<or> py_in ''bridal'' intent then Wedding
      else if py_in ''romantic'' intent \<or> py_in ''anniversary'' intent then Romantic
      else if py_in ''vibrant'' intent \<or> py_in ''celebration'' intent \<or> py_in ''birthday'' intent
        then Vibrant
      else if py_in ''elegant'' intent \<or> py_in ''formal'' intent then Elegant
      else Default)"

text \<open>A curated entry: the table's record of a flower, under the name the branch gives it.\<close>

definition table_flower :: "string \<Rightarrow> string \<Rightarrow> dict" where
  "table_flower role key = (case map_of (role_flowers role) key of None \<Rightarrow> [] | Some d \<Rightarrow> d)"

definition curated_flower :: "string \<Rightarrow> string \<Rightarrow> string \<Rightarrow> pyval" where
  "curated_flower name role key = flower_entry name role (table_flower role key)"

fun curated :: "branch \<Rightarrow> dict" where
  "curated Wedding =
     [(''focal'', PList [curated_flower ''garden roses'' ''focal'' ''roses'',
                         curated_flower ''peonies'' ''focal'' ''peonies'']),
      (''line'', PList []),
      (''filler'', PList [curated_flower ''baby breath'' ''filler'' ''baby_breath'']),
      (''texture'', PList [])]"
| "curated Romantic =
     [(''focal'', PList [curated_flower ''roses'' ''focal'' ''roses'']),
      (''line'', PList []),
      (''filler'', PList []),
      (''texture'', PList [curated_flower ''ranunculus'' ''texture'' ''ranunculus''])]"
| "curated Vibrant =
     [(''focal'', PList [curated_flower ''sunflowers'' ''focal'' ''sunflowers'',
                         curated_flower ''dahlias'' ''focal'' ''dahlias'']),
      (''line'', PList []),
      (''filler'', PList []),
      (''texture'', PList [])]"
| "curated Elegant =
     [(''focal'', PList [curated_flower ''orchids'' ''focal'' ''orchids'',
                         curated_flower ''lilies'' ''focal'' ''lilies'']),
      (''line'', PList []),
      (''filler'', PList []),
      (''texture'', PList [])]"
| "curated Default =
     [(''focal'', PList [curated_flower ''roses'' ''focal'' ''roses'']),
      (''line'', PList []),
      (''filler'', PList [curated_flower ''waxflower'' ''filler'' ''waxflower'']),
      (''texture'', PList [])]"

text \<open>The keys of a returned record, in order; \<open>None\<close> when the call raised.\<close>

definition result_keys :: "py_error + dict \<Rightarrow> string list option" where
  "result_keys r = (case r of Inl _ \<Rightarrow> None | Inr d \<Rightarrow> Some (map fst d))"

subsection \<open>Prompt clauses\<close>

text \<open>
  The names a clause is made from, read off a value that lists records with a "name":
  \<open>None\<close> when the value is no such list or a name is no string.
\<close>

definition clause_names :: "py_error + pyval \<Rightarrow> string list option" where
  "clause_names source =
     (case bindE (bindE source names_of) str_items of Inl _ \<Rightarrow> None | Inr names \<Rightarrow> Some names)"

definition role_names :: "dict \<Rightarrow> string \<Rightarrow> string list option" where
  "role_names mapped role =
     clause_names (bindE (dict_getitem mapped ''flowers'') (\<lambda>flowers.
       get_method flowers role (PList [])))"

definition foliage_names :: "dict \<Rightarrow> string list option" where
  "foliage_names mapped = clause_names (dict_getitem mapped ''foliage'')"

text \<open>Whether the palette record of a mapping result carries a "colors" entry.\<close>

definition carries_colors :: "dict \<Rightarrow> bool" where
  "carries_colors mapped =
     (bindE (dict_getitem mapped ''colors'') (\<lambda>colors. contains colors ''colors'') = Inr True)"

text \<open>An optional clause: absent when there are no names.\<close>

definition optional_clause :: "string \<Rightarrow> string \<Rightarrow> string list \<Rightarrow> string list" where
  "optional_clause lead trail names =
     (if names = [] then [] else [lead @ join '', '' names @ trail])"

text \<open>
  What the formatter needs of its sources: a value that lists records each carrying a
  string under "name", and a value whose items are strings.
\<close>

definition is_str :: "pyval \<Rightarrow> bool" where
  "is_str v = (case v of PStr s \<Rightarrow> True | _ \<Rightarrow> False)"

definition named :: "pyval \<Rightarrow> bool" where
  "named v = (case names_of v of Inl _ \<Rightarrow> False | Inr ns \<Rightarrow> list_all is_str ns)"

definition str_list :: "pyval \<Rightarrow> bool" where
  "str_list v = (case py_iter v of Inl _ \<Rightarrow> False | Inr xs \<Rightarrow> list_all is_str xs)"

section \<open>Dictionaries and strings: basic facts\<close>

lemma py_in_sublist: "py_in needle haystack = sublist needle haystack"
  by (induction haystack) (auto simp: sublist_Cons_right)

lemma dict_set_fresh: "k \<notin> fst ` set d \<Longrightarrow> dict_set d k v = d @ [(k, v)]"
  by (induction d) auto

lemma spread_fresh:
  "distinct (map fst e) \<Longrightarrow> fst ` set e \<inter> fst ` set base = {} \<Longrightarrow> spread base e = base @ e"
proof (induction e arbitrary: base)
  case Nil
  then show ?case by (simp add: spread_def)
next
  case (Cons kv e)
  obtain k v where kv: "kv = (k, v)" by (cases kv)
  from Cons.prems have fresh: "k \<notin> fst ` set base" and d: "distinct (map fst e)"
    and k: "k \<notin> fst ` set e" and disj: "fst ` set e \<inter> fst ` set base = {}"
    by (auto simp: kv)
  have "spread base (kv # e) = spread (dict_set base k v) e"
    by (simp add: spread_def kv)
  also have "\<dots> = spread (base @ [(k, v)]) e"
    using fresh by (simp add: dict_set_fresh)
  also have "\<dots> = (base @ [(k, v)]) @ e"
    using d k disj by (intro Cons.IH) auto
  finally show ?case by (simp add: kv)
qed

lemma spread_taggable: "taggable (map fst base) e \<Longrightarrow> spread base e = base @ e"
  by (rule spread_fresh) (auto simp: taggable_def list_all_iff)

lemma bindE_Inr: "(bindE m f = Inr r) = (\<exists>v. m = Inr v \<and> f v = Inr r)"
  by (cases m) (simp_all add: bindE_def)

lemma bindE_InrE:
  assumes "bindE m f = Inr r"
  obtains v where "m = Inr v" and "f v = Inr r"
  using assms by (auto simp: bindE_Inr)

section \<open>Style detection\<close>

lemma styles_taggable:
  "list_all (\<lambda>(c, styles). list_all (\<lambda>(t, e). taggable [''category'', ''type''] e) styles)
     ARRANGEMENT_STYLES"
  by (simp add: ARRANGEMENT_STYLES_def taggable_def)

lemma styles_distinct: "distinct (map fst ARRANGEMENT_STYLES)"
  by (simp add: ARRANGEMENT_STYLES_def)

lemma style_literal_eval:
  "style_literal ''ikebana'' ''moribana'' = Inr (style_entry ''ikebana'' ''moribana'')"
  "style_literal ''ikebana'' ''nageire'' = Inr (style_entry ''ikebana'' ''nageire'')"
  "style_literal ''western_classical'' ''cascade'' =
     Inr (style_entry ''western_classical'' ''cascade'')"
  "style_literal ''western_classical'' ''dome'' = Inr (style_entry ''western_classical'' ''dome'')"
  "style_literal ''contemporary'' ''minimalist'' = Inr (style_entry ''contemporary'' ''minimalist'')"
  "style_literal ''contemporary'' ''garden_style'' =
     Inr (style_entry ''contemporary'' ''garden_style'')"
  "style_literal ''western_classical'' ''crescent'' =
     Inr (style_entry ''western_classical'' ''crescent'')"
  by (simp_all add: style_literal_def style_entry_def ARRANGEMENT_STYLES_def dict_getitem_def
      bindE_def spread_def)

lemma preference_loop_generic:
  "preference_loop p T =
     (case find (\<lambda>(c, styles). has_key styles p) T of
        Some (c, styles) \<Rightarrow>
          Some (Inr (spread [(''category'', PStr c), (''type'', PStr p)] (the (map_of styles p))))
      | None \<Rightarrow> None)"
  by (induction T) (auto simp: has_key_def dict_getitem_def bindE_def)

lemma preference_loop_find:
  "preference_loop p ARRANGEMENT_STYLES =
     (case find (\<lambda>(c, styles). has_key styles p) ARRANGEMENT_STYLES of
        Some (c, _) \<Rightarrow> Some (Inr (style_entry c p))
      | None \<Rightarrow> None)"
proof (cases "find (\<lambda>(c, styles). has_key styles p) ARRANGEMENT_STYLES")
  case None
  then show ?thesis by (simp add: preference_loop_generic)
next
  case (Some cs)
  obtain c styles where cs: "cs = (c, styles)" by (cases cs)
  from Some have mem: "(c, styles) \<in> set ARRANGEMENT_STYLES" and key: "has_key styles p"
    by (auto simp: cs find_Some_iff in_set_conv_nth)
  from key obtain e where e: "map_of styles p = Some e" by (auto simp: has_key_def)
  then have e_mem: "(p, e) \<in> set styles" by (rule map_of_SomeD)
  have lookup: "map_of ARRANGEMENT_STYLES c = Some styles"
    using mem styles_distinct by simp
  have "taggable [''category'', ''type''] e"
    using styles_taggable mem e_mem by (auto simp: list_all_iff)
  then have "spread [(''category'', PStr c), (''type'', PStr p)] e =
               (''category'', PStr c) # (''type'', PStr p) # e"
    by (simp add: spread_taggable)
  then show ?thesis
    by (simp add: preference_loop_generic Some cs e style_entry_def lookup)
qed

lemma no_style_named_any:
  "find (\<lambda>(c, styles). has_key styles ''any'') ARRANGEMENT_STYLES = None"
  by (simp add: ARRANGEMENT_STYLES_def has_key_def)

lemma detect_arrangement_style_rules:
  "detect_arrangement_style intent preference =
     Inr (case find (\<lambda>(triggers, _). list_ex (\<lambda>t. py_in t intent) triggers) style_rules of
            Some (_, c, t) \<Rightarrow>
              style_entry c
                (if c = ''ikebana'' \<and> py_in ''moribana'' intent then ''moribana'' else t)
          | None \<Rightarrow>
              (case find (\<lambda>(c, styles). has_key styles preference) ARRANGEMENT_STYLES of
                 Some (c, _) \<Rightarrow> style_entry c preference
               | None \<Rightarrow> style_entry ''contemporary'' ''garden_style''))"
  unfolding detect_arrangement_style_def style_rules_def
  by (simp add: style_literal_eval preference_loop_find no_style_named_any split: option.split)

lemma lower_triggers:
  "list_all (\<lambda>(triggers, _). list_all (\<lambda>t. lower t = t) triggers) style_rules"
  "lower ''moribana'' = ''moribana''"
  by (simp_all add: style_rules_def lower_def lower_chr_def)

section \<open>Structure mapping\<close>

lemma technique_eval:
  "technique ''balance'' ''symmetrical_radial'' = Inr (technique_entry ''balance'' ''symmetrical_radial'')"
  "technique ''balance'' ''asymmetrical'' = Inr (technique_entry ''balance'' ''asymmetrical'')"
  "technique ''movement'' ''cascade_fall'' = Inr (technique_entry ''movement'' ''cascade_fall'')"
  "technique ''movement'' ''vertical_lift'' = Inr (technique_entry ''movement'' ''vertical_lift'')"
  "technique ''movement'' ''horizontal_sweep'' = Inr (technique_entry ''movement'' ''horizontal_sweep'')"
  "technique ''movement'' ''spiral_rotation'' = Inr (technique_entry ''movement'' ''spiral_rotation'')"
  "technique ''proportion'' ''golden_ratio'' = Inr (technique_entry ''proportion'' ''golden_ratio'')"
  "technique ''focal_points'' ''single_dominant'' = Inr (technique_entry ''focal_points'' ''single_dominant'')"
  "technique ''focal_points'' ''multiple_secondary'' = Inr (technique_entry ''focal_points'' ''multiple_secondary'')"
  "technique ''density'' ''airy_spacious'' = Inr (technique_entry ''density'' ''airy_spacious'')"
  "technique ''density'' ''packed_abundant'' = Inr (technique_entry ''density'' ''packed_abundant'')"
  "technique ''density'' ''clustered_with_voids'' = Inr (technique_entry ''density'' ''clustered_with_voids'')"
  "technique ''texture'' ''smooth_rough_contrast'' = Inr (technique_entry ''texture'' ''smooth_rough_contrast'')"
  by (simp_all add: technique_def technique_entry_def STRUCTURAL_TECHNIQUES_def dict_getitem_def bindE_def)

lemma map_structure_value:
  "map_structure style colors = Inr
     [(''balance'',
         if dict_get_default style ''balance'' (PStr ''asymmetrical'') = PStr ''symmetrical''
            \<or> dict_get_default style ''balance'' (PStr ''asymmetrical'') = PStr ''radial symmetrical''
         then technique_entry ''balance'' ''symmetrical_radial''
         else technique_entry ''balance'' ''asymmetrical''),
      (''movement'',
         if map_of style ''type'' = Some (PStr ''cascade'') then technique_entry ''movement'' ''cascade_fall''
         else if map_of style ''type'' = Some (PStr ''vertical'') then technique_entry ''movement'' ''vertical_lift''
         else if map_of style ''type'' = Some (PStr ''horizontal'') then technique_entry ''movement'' ''horizontal_sweep''
         else technique_entry ''movement'' ''spiral_rotation''),
      (''proportion'', technique_entry ''proportion'' ''golden_ratio''),
      (''focal'',
         if is_style style ''contemporary'' ''minimalist''
         then technique_entry ''focal_points'' ''single_dominant''
         else technique_entry ''focal_points'' ''multiple_secondary''),
      (''density'',
         if is_style style ''contemporary'' ''minimalist'' then technique_entry ''density'' ''airy_spacious''
         else if is_style style ''contemporary'' ''garden_style'' then technique_entry ''density'' ''packed_abundant''
         else technique_entry ''density'' ''clustered_with_voids''),
      (''texture'', technique_entry ''texture'' ''smooth_rough_contrast'')]"
  by (simp add: map_structure_def technique_eval bindE_def is_style_def dict_get_def Let_def)

lemma techniques_differ:
  "technique_entry ''focal_points'' ''single_dominant'' \<noteq> technique_entry ''focal_points'' ''multiple_secondary''"
  "technique_entry ''density'' ''airy_spacious'' \<noteq> technique_entry ''density'' ''packed_abundant''"
  "technique_entry ''density'' ''airy_spacious'' \<noteq> technique_entry ''density'' ''clustered_with_voids''"
  "technique_entry ''density'' ''packed_abundant'' \<noteq> technique_entry ''density'' ''clustered_with_voids''"
  by (simp_all add: technique_entry_def STRUCTURAL_TECHNIQUES_def)

lemma is_style_eval:
  "is_style (style_entry ''contemporary'' ''garden_style'') ''contemporary'' ''garden_style''"
  "\<not> is_style (style_entry ''contemporary'' ''garden_style'') ''contemporary'' ''minimalist''"
  "\<not> is_style (style_entry ''western_classical'' ''dome'') ''contemporary'' ''garden_style''"
  "\<not> is_style (style_entry ''western_classical'' ''dome'') ''contemporary'' ''minimalist''"
  "is_style (style_entry ''contemporary'' ''minimalist'') ''contemporary'' ''minimalist''"
  by (simp_all add: is_style_def style_entry_def ARRANGEMENT_STYLES_def)

section \<open>Size parsing and the workflow graph\<close>

lemma split_chr_nonempty: "split_chr sep s \<noteq> []"
  by (induction s) (auto split: list.splits)

lemma split_chr_no_sep: "sep \<notin> set s \<Longrightarrow> split_chr sep s = [s]"
  by (induction s) auto

lemma split_chr_append:
  "sep \<notin> set a \<Longrightarrow> split_chr sep (a @ sep # b) = a # split_chr sep b"
  by (induction a) auto

lemma split_chr_two: "split_chr sep s = [a, b] \<Longrightarrow> s = a @ sep # b"
proof (induction s arbitrary: a)
  case Nil
  then show ?case by simp
next
  case (Cons c cs)
  show ?case
  proof (cases "c = sep")
    case True
    with Cons.prems have a: "a = []" and rest: "split_chr sep cs = [b]" by auto
    have "sep \<notin> set cs"
    proof
      assume "sep \<in> set cs"
      then obtain u v where "cs = u @ sep # v" and "sep \<notin> set u"
        by (meson split_list_first)
      then have "split_chr sep cs = u # split_chr sep v" by (simp add: split_chr_append)
      with rest split_chr_nonempty [of sep v] show False by simp
    qed
    then have "cs = b" using rest by (simp add: split_chr_no_sep)
    with True a show ?thesis by simp
  next
    case False
    with Cons.prems obtain w where "split_chr sep cs = [w, b]" and "a = c # w"
      by (auto split: list.splits)
    with Cons.IH [of w] show ?thesis by simp
  qed
qed

lemma digits_value_chars:
  "digits_value acc s = Some n \<Longrightarrow> c \<in> set s \<Longrightarrow> c = CHR ''_'' \<or> digit_val c \<noteq> None"
  by (induction acc s rule: digits_value.induct) (auto split: option.splits if_splits)

lemma digit_val_x: "digit_val CHR ''x'' = None"
  by (simp add: digit_val_def)

lemma unsigned_literal_no_x: "unsigned_literal s = Some n \<Longrightarrow> CHR ''x'' \<notin> set s"
  using digits_value_chars [where c = "CHR ''x''"] digit_val_x
  by (auto simp: unsigned_literal_def split: list.splits option.splits)

lemma set_strip: "set s \<subseteq> set (strip s) \<union> {c. is_space c}"
proof -
  have 1: "set xs \<subseteq> set (dropWhile is_space xs) \<union> {c. is_space c}" for xs
    by (induction xs) auto
  have "set s \<subseteq> set (dropWhile is_space s) \<union> {c. is_space c}" by (rule 1)
  also have "set (dropWhile is_space s) = set (rev (dropWhile is_space s))" by simp
  also have "\<dots> \<subseteq> set (dropWhile is_space (rev (dropWhile is_space s))) \<union> {c. is_space c}"
    by (rule 1)
  finally show ?thesis by (auto simp: strip_def)
qed

lemma not_space_x: "\<not> is_space CHR ''x''"
  by (simp add: is_space_def)

lemma py_int_no_x: "py_int s = Inr n \<Longrightarrow> CHR ''x'' \<notin> set s"
proof
  assume ok: "py_int s = Inr n" and x: "CHR ''x'' \<in> set s"
  from x set_strip [of s] not_space_x have xt: "CHR ''x'' \<in> set (strip s)" by auto
  let ?u = "if strip s \<noteq> [] \<and> (hd (strip s) = CHR ''-'' \<or> hd (strip s) = CHR ''+'')
            then tl (strip s) else strip s"
  from ok obtain m where m: "unsigned_literal ?u = Some m"
    unfolding py_int_def Let_def by (cases "unsigned_literal ?u") (auto split: if_splits)
  have "CHR ''x'' \<in> set ?u"
    using xt by (cases "strip s") auto
  with unsigned_literal_no_x [OF m] show False by simp
qed

lemma py_int_error: "py_int s = Inl e \<Longrightarrow> e = ValueError"
  by (auto simp: py_int_def Let_def split: option.splits if_splits)

lemma parse_size_ok:
  assumes "py_int a = Inr w" and "py_int b = Inr h"
  shows "unpack2 (map py_int (split_chr CHR ''x'' (a @ ''x'' @ b))) = Inr (w, h)"
proof -
  have "split_chr CHR ''x'' (a @ ''x'' @ b) = [a, b]"
    using py_int_no_x [OF assms(1)] py_int_no_x [OF assms(2)]
    by (simp add: split_chr_append split_chr_no_sep)
  then show ?thesis using assms by (simp add: bindE_def)
qed

lemma unpack2_py_int:
  "unpack2 (map py_int ps) =
     (case ps of
        [a, b] \<Rightarrow> (case py_int a of Inl e \<Rightarrow> Inl ValueError
                   | Inr w \<Rightarrow> (case py_int b of Inl e \<Rightarrow> Inl ValueError | Inr h \<Rightarrow> Inr (w, h)))
      | _ \<Rightarrow> Inl ValueError)"
proof (cases ps)
  case Nil
  then show ?thesis by simp
next
  case (Cons a qs)
  show ?thesis
  proof (cases qs)
    case Nil
    with Cons show ?thesis by (auto simp: bindE_def split: sum.splits dest: py_int_error)
  next
    case (Cons b rs)
    with \<open>ps = a # qs\<close> show ?thesis
      by (cases rs) (auto simp: bindE_def split: sum.splits dest: py_int_error)
  qed
qed

lemma parse_size_cases:
  "unpack2 (map py_int (split_chr CHR ''x'' s)) = Inl ValueError
   \<or> (\<exists>a b w h. s = a @ ''x'' @ b \<and> py_int a = Inr w \<and> py_int b = Inr h
        \<and> unpack2 (map py_int (split_chr CHR ''x'' s)) = Inr (w, h))"
proof (cases "unpack2 (map py_int (split_chr CHR ''x'' s)) = Inl ValueError")
  case True
  then show ?thesis by simp
next
  case False
  then obtain a b where ab: "split_chr CHR ''x'' s = [a, b]"
    unfolding unpack2_py_int by (auto split: list.splits)
  with False obtain w h where "py_int a = Inr w" "py_int b = Inr h"
    unfolding unpack2_py_int by (auto split: sum.splits)
  moreover from ab have "s = a @ ''x'' @ b" by (simp add: split_chr_two)
  ultimately show ?thesis using ab by (auto simp: bindE_def)
qed

lemma get_model_file_value:
  "get_model_file m = Inr
     (if m = ''flux'' then ''flux1-dev.safetensors''
      else if m = ''sdxl'' then ''sd_xl_base_1.0.safetensors''
      else if m = ''sd15'' then ''v1-5-pruned-emaonly.safetensors''
      else ''flux1-dev.safetensors'')"
  by (simp add: get_model_file_def dict_getitem_def dict_get_default_def bindE_def)

lemma py_int_1024: "py_int ''1024'' = Inr 1024"
  by (simp add: py_int_def strip_def is_space_def unsigned_literal_def digit_val_def)

lemma py_int_examples:
  "py_int ''  -1_0 '' = Inr (- 10)"
  "py_int ''+768'' = Inr 768"
  "py_int ''0012'' = Inr 12"
  "py_int ''1__0'' = Inl ValueError"
  "py_int ''10_'' = Inl ValueError"
  "py_int ''_10'' = Inl ValueError"
  "py_int [] = Inl ValueError"
  "py_int ''+ 1'' = Inl ValueError"
  "py_int ''12px'' = Inl ValueError"
  "py_int (CHR 0x1C # ''1024'') = Inl ValueError"
  "py_int (''1024'' @ [CHR 0x1F]) = Inl ValueError"
  by (simp_all add: py_int_def strip_def is_space_def unsigned_literal_def digit_val_def)

lemma is_int_literal_iff: "is_int_literal s = (\<exists>n. py_int s = Inr n)"
  by (cases "py_int s") (simp_all add: is_int_literal_def)

lemma size_decomposition_iff:
  "(\<exists>a b. s = a @ ''x'' @ b \<and> is_int_literal a \<and> is_int_literal b) =
   (unpack2 (map py_int (split_chr CHR ''x'' s)) \<noteq> Inl ValueError)"
proof
  assume "\<exists>a b. s = a @ ''x'' @ b \<and> is_int_literal a \<and> is_int_literal b"
  then obtain a b w h where "s = a @ ''x'' @ b" "py_int a = Inr w" "py_int b = Inr h"
    by (auto simp: is_int_literal_iff)
  then show "unpack2 (map py_int (split_chr CHR ''x'' s)) \<noteq> Inl ValueError"
    using parse_size_ok [of a w b h] by simp
next
  assume "unpack2 (map py_int (split_chr CHR ''x'' s)) \<noteq> Inl ValueError"
  with parse_size_cases [of s] show "\<exists>a b. s = a @ ''x'' @ b \<and> is_int_literal a \<and> is_int_literal b"
    by (auto simp: is_int_literal_iff)
qed

lemma build_error_iff:
  "(build_comfyui_workflow prompt negative_prompt s model steps = Inl ValueError) =
   (unpack2 (map py_int (split_chr CHR ''x'' s)) = Inl ValueError)"
  using parse_size_cases [of s]
  by (auto simp: build_comfyui_workflow_def bindE_def get_model_file_value)

lemma build_comfyui_workflow_examples:
  "build_comfyui_workflow p n (CHR 0x1C # ''1024x768'') m s = Inl ValueError"
  "build_comfyui_workflow p n ''1024x768x'' m s = Inl ValueError"
  "build_comfyui_workflow p n ''1024X768'' m s = Inl ValueError"
  "build_comfyui_workflow p n ''1024x'' m s = Inl ValueError"
  "build_comfyui_workflow p n [] m s = Inl ValueError"
  "node_inputs (build_comfyui_workflow p n '' 1024 x -768 '' m s) ''4'' =
     Some [(''width'', PInt 1024), (''height'', PInt (- 768)), (''batch_size'', PInt 1)]"
  by (simp_all add: build_comfyui_workflow_def bindE_def get_model_file_value py_int_def
      strip_def is_space_def unsigned_literal_def digit_val_def node_inputs_def result_field_def)

section \<open>Occasions\<close>

lemma occasions_keys: "map fst OCCASIONS = [''wedding'', ''funeral'', ''celebration'', ''everyday'']"
  by (simp add: OCCASIONS_def)

lemma has_key_occasions:
  "has_key OCCASIONS occasion =
     (occasion \<in> set [''wedding'', ''funeral'', ''celebration'', ''everyday''])"
  unfolding occasions_keys [symmetric] has_key_def
  by (metis domIff dom_map_of_conv_image_fst set_map)

lemma getitem_occasions:
  "has_key OCCASIONS occasion \<Longrightarrow> dict_getitem OCCASIONS occasion = Inr (occasion_table occasion)"
  by (auto simp: has_key_def dict_getitem_def occasion_table_def)

lemma occasion_loop_find:
  "occasion_loop occasion T =
     (case find (\<lambda>(occ_name, occ_data). py_in occasion (lower (py_str (PDict occ_data)))) T of
        None \<Rightarrow> None
      | Some (occ_name, occ_data) \<Rightarrow> Some [(occ_name, PDict occ_data)])"
  by (induction T) auto

lemma py_in_empty: "py_in [] s"
  by (cases s) simp_all

lemma occasions_first: "hd OCCASIONS = (''wedding'', occasion_table ''wedding'')"
  by (simp add: OCCASIONS_def occasion_table_def)

lemma occasion_loop_empty:
  "occasion_loop [] OCCASIONS = Some [(''wedding'', PDict (occasion_table ''wedding''))]"
proof -
  have "OCCASIONS \<noteq> []" using occasions_keys by auto
  then have "OCCASIONS = hd OCCASIONS # tl OCCASIONS" by simp
  then have "OCCASIONS = (''wedding'', occasion_table ''wedding'') # tl OCCASIONS"
    by (simp only: occasions_first)
  then have "occasion_loop [] OCCASIONS =
      occasion_loop [] ((''wedding'', occasion_table ''wedding'') # tl OCCASIONS)"
    by simp
  then show ?thesis by (simp add: py_in_empty)
qed

lemma suggest_value:
  "suggest_flowers_for_occasion occasion = Inr
     (if has_key OCCASIONS occasion
      then [(''occasion'', PStr occasion), (''recommendations'', PDict (occasion_table occasion))]
      else [(''occasion'', PStr occasion),
            (''error'', PStr (''Occasion '' @ [CHR 0x27] @ occasion @ [CHR 0x27] @ '' not found'')),
            (''available_occasions'',
               PList [PStr ''wedding'', PStr ''funeral'', PStr ''celebration'', PStr ''everyday''])])"
proof -
  have "map (\<lambda>(k, v). PStr k) OCCASIONS = map PStr (map fst OCCASIONS)"
    by (simp add: case_prod_unfold comp_def)
  then show ?thesis
    by (simp add: suggest_flowers_for_occasion_def getitem_occasions bindE_def occasions_keys)
qed

lemma birthday_found:
  "find (\<lambda>(occ_name, occ_data). py_in ''birthday'' (lower (py_str (PDict occ_data)))) OCCASIONS
     = Some (''celebration'', occasion_table ''celebration'')"
  by code_simp

section \<open>Palette detection\<close>

lemma palettes_keys:
  "map fst COLOR_PALETTES = [''monochromatic'', ''analogous'', ''complementary'', ''triadic'',
     ''romantic'', ''elegant'', ''vibrant'', ''spring'', ''summer'', ''autumn'', ''winter'']"
  by (simp add: COLOR_PALETTES_def)

lemma palettes_taggable: "list_all (\<lambda>(name, e). taggable [''palette''] e) COLOR_PALETTES"
  by (simp add: COLOR_PALETTES_def taggable_def)

lemma palettes_distinct: "distinct (map fst COLOR_PALETTES)"
  by (simp add: palettes_keys)

lemma palette_entry_member:
  assumes "(name, e) \<in> set COLOR_PALETTES"
  shows "spread [(''palette'', PStr name)] e = palette_entry name"
proof -
  have "taggable [''palette''] e"
    using palettes_taggable assms by (auto simp: list_all_iff)
  then have "spread [(''palette'', PStr name)] e = (''palette'', PStr name) # e"
    by (simp add: spread_taggable)
  moreover have "map_of COLOR_PALETTES name = Some e"
    using assms palettes_distinct by simp
  ultimately show ?thesis by (simp add: palette_entry_def)
qed

lemma palette_literal_key:
  assumes "has_key COLOR_PALETTES name"
  shows "palette_literal name = Inr (palette_entry name)"
proof -
  from assms obtain e where e: "map_of COLOR_PALETTES name = Some e"
    by (auto simp: has_key_def)
  then have "(name, e) \<in> set COLOR_PALETTES" by (rule map_of_SomeD)
  then show ?thesis
    by (simp add: palette_literal_def dict_getitem_def e bindE_def palette_entry_member)
qed

lemma has_key_iff: "has_key d k = (k \<in> set (map fst d))"
  unfolding has_key_def by (metis domIff dom_map_of_conv_image_fst set_map)

lemma palette_loop_find:
  "set T \<subseteq> set COLOR_PALETTES \<Longrightarrow>
   palette_loop text T =
     map_option palette_entry (find (\<lambda>name. py_in name text) (map fst T))"
proof (induction T)
  case Nil
  then show ?case by simp
next
  case (Cons p T)
  obtain name e where p: "p = (name, e)" by (cases p)
  with Cons.prems have "(name, e) \<in> set COLOR_PALETTES" by simp
  then have "spread [(''palette'', PStr name)] e = palette_entry name"
    by (rule palette_entry_member)
  with Cons show ?case by (simp add: p)
qed

lemma palette_literal_eval:
  "palette_literal ''spring'' = Inr (palette_entry ''spring'')"
  "palette_literal ''summer'' = Inr (palette_entry ''summer'')"
  "palette_literal ''autumn'' = Inr (palette_entry ''autumn'')"
  "palette_literal ''winter'' = Inr (palette_entry ''winter'')"
  "palette_literal ''romantic'' = Inr (palette_entry ''romantic'')"
  "palette_literal ''elegant'' = Inr (palette_entry ''elegant'')"
  "palette_literal ''vibrant'' = Inr (palette_entry ''vibrant'')"
  "palette_literal ''analogous'' = Inr (palette_entry ''analogous'')"
  by (rule palette_literal_key, simp add: has_key_iff palettes_keys)+

lemma detect_color_scheme_chosen:
  "detect_color_scheme intent color_preference occasion =
     Inr (palette_entry (chosen_palette intent color_preference))"
proof (cases "find (\<lambda>name. py_in name (lower intent)) (map fst COLOR_PALETTES)")
  case (Some name)
  then show ?thesis
    by (simp add: detect_color_scheme_def chosen_palette_def palette_loop_find)
next
  case None
  then have loop: "palette_loop (lower intent) COLOR_PALETTES = None"
    by (simp add: palette_loop_find)
  show ?thesis
    unfolding detect_color_scheme_def chosen_palette_def Let_def loop None
      first_keyword_rule_def season_rules_def mood_rules_def
    by (simp add: palette_literal_eval palette_literal_key has_key_iff)
qed

lemma chosen_palette_known: "chosen_palette intent color_preference \<in> set (map fst COLOR_PALETTES)"
proof -
  have a: "''analogous'' \<in> set (map fst COLOR_PALETTES)"
    and s: "\<And>n. first_keyword_rule season_rules (lower intent) = Some n \<Longrightarrow> n \<in> set (map fst COLOR_PALETTES)"
    and m: "\<And>n. first_keyword_rule mood_rules (lower intent) = Some n \<Longrightarrow> n \<in> set (map fst COLOR_PALETTES)"
    unfolding palettes_keys first_keyword_rule_def season_rules_def mood_rules_def
    by (auto split: if_splits)
  have f: "\<And>n. find (\<lambda>name. py_in name (lower intent)) (map fst COLOR_PALETTES) = Some n
              \<Longrightarrow> n \<in> set (map fst COLOR_PALETTES)"
    by (metis find_Some_iff nth_mem)
  show ?thesis
    unfolding chosen_palette_def using a s m f
    by (auto split: option.splits)
qed

section \<open>Flower detection\<close>

lemma map_of_dict_set: "map_of (dict_set d k v) k' = (if k' = k then Some v else map_of d k')"
  by (induction d) auto

lemma dict_set_twice: "dict_set (dict_set d k v) k v' = dict_set d k v'"
  by (induction d) auto

lemma dict_set_same: "map_of d k = Some v \<Longrightarrow> dict_set d k v = d"
  by (induction d) (auto split: if_splits)

lemma flowers_table:
  "FLOWERS_BY_ROLE =
     [(''focal'', role_flowers ''focal''), (''line'', role_flowers ''line''),
      (''filler'', role_flowers ''filler''), (''texture'', role_flowers ''texture'')]"
  by (simp add: FLOWERS_BY_ROLE_def role_flowers_def)

lemma flowers_taggable:
  "list_all (\<lambda>(role, flowers). list_all (\<lambda>(n, d). taggable [''name'', ''role''] d) flowers)
     FLOWERS_BY_ROLE"
  by (simp add: FLOWERS_BY_ROLE_def taggable_def)

lemma role_flowers_taggable:
  "list_all (\<lambda>(n, d). taggable [''name'', ''role''] d) (role_flowers ''focal'')"
  "list_all (\<lambda>(n, d). taggable [''name'', ''role''] d) (role_flowers ''line'')"
  "list_all (\<lambda>(n, d). taggable [''name'', ''role''] d) (role_flowers ''filler'')"
  "list_all (\<lambda>(n, d). taggable [''name'', ''role''] d) (role_flowers ''texture'')"
  using flowers_taggable unfolding flowers_table by simp_all

lemma flowers_loop_value:
  assumes "map_of detected role = Some (PList xs)"
    and "list_all (\<lambda>(n, d). taggable [''name'', ''role''] d) fl"
  shows "flowers_loop intent role fl detected =
     Inr (dict_set detected role
       (PList (xs @ map (\<lambda>(n, d). flower_entry (spoken n) role d)
                      (filter (\<lambda>(n, d). py_in (spoken n) intent) fl))))"
  using assms
proof (induction fl arbitrary: detected xs)
  case Nil
  then show ?case by (simp add: dict_set_same)
next
  case (Cons p fl)
  obtain n d where p: "p = (n, d)" by (cases p)
  from Cons.prems(2) have tag: "taggable [''name'', ''role''] d"
    and rest: "list_all (\<lambda>(n, d). taggable [''name'', ''role''] d) fl"
    by (simp_all add: p)
  show ?case
  proof (cases "py_in (spoken n) intent")
    case False
    then show ?thesis
      using Cons.IH [OF Cons.prems(1) rest] by (simp add: p spoken_def)
  next
    case True
    have sp: "spread [(''name'', PStr (spoken n)), (''role'', PStr role)] d =
        (''name'', PStr (spoken n)) # (''role'', PStr role) # d"
      using tag by (simp add: spread_taggable)
    let ?d' = "dict_set detected role (PList (xs @ [flower_entry (spoken n) role d]))"
    have app: "append_to detected role
         (Inr (PDict (spread [(''name'', PStr (spoken n)), (''role'', PStr role)] d))) = Inr ?d'"
      using Cons.prems(1)
      by (simp add: append_to_def dict_getitem_def bindE_def sp flower_entry_def)
    have look: "map_of ?d' role = Some (PList (xs @ [flower_entry (spoken n) role d]))"
      by (simp add: map_of_dict_set)
    show ?thesis
      using True Cons.IH [OF look rest] app
      by (simp add: p spoken_def [symmetric] bindE_def dict_set_twice)
  qed
qed

lemma roles_loop_table:
  "roles_loop intent FLOWERS_BY_ROLE
     [(''focal'', PList []), (''line'', PList []), (''filler'', PList []), (''texture'', PList [])] =
   Inr (pass1 intent)"
  unfolding flowers_table
  by (simp add: flowers_loop_value role_flowers_taggable bindE_def pass1_def named_flowers_def)

lemma any_pass1: "list_ex truthy (map snd (pass1 intent)) = any_named intent"
  unfolding any_named_def flowers_table
  by (simp add: pass1_def truthy_def named_flowers_def filter_empty_conv list_ex_iff
      case_prod_unfold)

lemma flower_literal_eval:
  "flower_literal ''garden roses'' ''focal'' ''roses'' = Inr (curated_flower ''garden roses'' ''focal'' ''roses'')"
  "flower_literal ''peonies'' ''focal'' ''peonies'' = Inr (curated_flower ''peonies'' ''focal'' ''peonies'')"
  "flower_literal ''baby breath'' ''filler'' ''baby_breath'' = Inr (curated_flower ''baby breath'' ''filler'' ''baby_breath'')"
  "flower_literal ''roses'' ''focal'' ''roses'' = Inr (curated_flower ''roses'' ''focal'' ''roses'')"
  "flower_literal ''ranunculus'' ''texture'' ''ranunculus'' = Inr (curated_flower ''ranunculus'' ''texture'' ''ranunculus'')"
  "flower_literal ''sunflowers'' ''focal'' ''sunflowers'' = Inr (curated_flower ''sunflowers'' ''focal'' ''sunflowers'')"
  "flower_literal ''dahlias'' ''focal'' ''dahlias'' = Inr (curated_flower ''dahlias'' ''focal'' ''dahlias'')"
  "flower_literal ''orchids'' ''focal'' ''orchids'' = Inr (curated_flower ''orchids'' ''focal'' ''orchids'')"
  "flower_literal ''lilies'' ''focal'' ''lilies'' = Inr (curated_flower ''lilies'' ''focal'' ''lilies'')"
  "flower_literal ''waxflower'' ''filler'' ''waxflower'' = Inr (curated_flower ''waxflower'' ''filler'' ''waxflower'')"
  by (simp_all add: flower_literal_def curated_flower_def table_flower_def flower_entry_def role_flowers_def
      FLOWERS_BY_ROLE_def dict_getitem_def bindE_def spread_def)

lemma suggest_curated:
  "suggest_flowers_by_occasion occasion intent = Inr (curated (fallback_branch occasion intent))"
  by (simp add: suggest_flowers_by_occasion_def fallback_branch_def flower_literal_eval
      append_to_def dict_getitem_def bindE_def)

lemma curated_distinct: "distinct (map curated [Wedding, Romantic, Vibrant, Elegant, Default])"
  by (simp add: curated_flower_def flower_entry_def)

lemma detect_flowers_value:
  "detect_flowers intent occasion =
     Inr (if any_named intent then pass1 intent else curated (fallback_branch occasion intent))"
  by (simp add: detect_flowers_def roles_loop_table bindE_def any_pass1 suggest_curated)

lemma flowers_result_keys:
  "map fst (if any_named intent then pass1 intent else curated (fallback_branch occasion intent)) =
     [''focal'', ''line'', ''filler'', ''texture'']"
  by (cases "fallback_branch occasion intent") (simp_all add: pass1_def)

lemma named_included:
  assumes "(role, flowers) \<in> set FLOWERS_BY_ROLE" and "(flower_name, flower_data) \<in> set flowers"
    and "py_in (spoken flower_name) intent"
  shows "any_named intent"
    and "\<exists>items. map_of (pass1 intent) role = Some (PList items)
           \<and> flower_entry (spoken flower_name) role flower_data \<in> set items"
proof -
  show "any_named intent"
    unfolding any_named_def list_ex_iff using assms by fastforce
  have role: "role \<in> set [''focal'', ''line'', ''filler'', ''texture''] \<and> flowers = role_flowers role"
    using assms(1) unfolding flowers_table [THEN arg_cong, of set] flowers_table by auto
  then have "flower_entry (spoken flower_name) role flower_data \<in> set (named_flowers intent role)"
    using assms(2,3) by (force simp: named_flowers_def)
  moreover have "map_of (pass1 intent) role = Some (PList (named_flowers intent role))"
    using role by (auto simp: pass1_def)
  ultimately show "\<exists>items. map_of (pass1 intent) role = Some (PList items)
           \<and> flower_entry (spoken flower_name) role flower_data \<in> set items"
    by blast
qed

lemma bells_of_ireland:
  "(''line'', role_flowers ''line'') \<in> set FLOWERS_BY_ROLE"
  "(''bells_of_ireland'', table_flower ''line'' ''bells_of_ireland'') \<in> set (role_flowers ''line'')"
  "py_in (spoken ''bells_of_ireland'') ''peonies and bells of ireland''"
  "spoken ''bells_of_ireland'' = ''bells of ireland''"
  by (simp_all add: FLOWERS_BY_ROLE_def role_flowers_def table_flower_def spoken_def
      replace_chr_def)

lemma none_named: "\<not> any_named ''a birthday bouquet''"
  unfolding any_named_def flowers_table
  by (simp add: role_flowers_def FLOWERS_BY_ROLE_def spoken_def replace_chr_def)

section \<open>Prompt formatting\<close>

lemma str_items_length: "str_items vs = Inr ss \<Longrightarrow> length ss = length vs"
  by (induction vs arbitrary: ss) (auto simp: bindE_Inr split: pyval.splits)

lemma add_clause_Inr:
  assumes "add_clause parts names lead trail = Inr parts'"
  shows "\<exists>ss. str_items names = Inr ss \<and> parts' = parts @ optional_clause lead trail ss"
proof (cases "names = []")
  case True
  with assms show ?thesis by (simp add: add_clause_def optional_clause_def)
next
  case False
  with assms obtain ss where ss: "str_items names = Inr ss"
    and p: "parts' = parts @ [lead @ join '', '' ss @ trail]"
    by (auto simp: add_clause_def join_values_def bindE_Inr)
  from ss False have "ss \<noteq> []" using str_items_length by fastforce
  with ss p show ?thesis by (simp add: optional_clause_def)
qed

lemma colors_clause_Inr:
  assumes "(if has_colors
            then bindE (subscript colors ''colors'') (\<lambda>color_list.
                 bindE (py_iter color_list) (\<lambda>color_items.
                 bindE (join_values '', '' color_items) (\<lambda>joined.
                 Inr (parts @ [''in '' @ joined @ '' palette'']))))
            else Inr parts) = Inr parts'"
  shows "\<exists>palette. has_colors = (palette \<noteq> [])
            \<and> (palette = [] \<or> (\<exists>joined. palette = [''in '' @ joined @ '' palette'']))
            \<and> parts' = parts @ palette"
  using assms by (cases has_colors) (auto simp: bindE_Inr)

lemma prompt_parts_Inr:
  "prompt_parts mapped = Inr parts \<Longrightarrow>
   \<exists>style flowers foliage colors struct style_type titled container
      focal_v focal_n focal line_v line_n line filler_v filler_n filler foliage_n fol
      has_colors palette balance balance_description movement movement_description
      characteristics.
     dict_getitem mapped ''style'' = Inr style
   \<and> dict_getitem mapped ''flowers'' = Inr flowers
   \<and> dict_getitem mapped ''foliage'' = Inr foliage
   \<and> dict_getitem mapped ''colors'' = Inr colors
   \<and> dict_getitem mapped ''structure'' = Inr struct
   \<and> subscript style ''type'' = Inr style_type
   \<and> replace_title style_type = Inr titled
   \<and> subscript style ''container'' = Inr container
   \<and> get_method flowers ''focal'' (PList []) = Inr focal_v \<and> names_of focal_v = Inr focal_n
   \<and> get_method flowers ''line'' (PList []) = Inr line_v \<and> names_of line_v = Inr line_n
   \<and> get_method flowers ''filler'' (PList []) = Inr filler_v \<and> names_of filler_v = Inr filler_n
   \<and> names_of foliage = Inr foliage_n
   \<and> contains colors ''colors'' = Inr has_colors
   \<and> subscript struct ''balance'' = Inr balance
   \<and> subscript balance ''description'' = Inr balance_description
   \<and> subscript struct ''movement'' = Inr movement
   \<and> subscript movement ''description'' = Inr movement_description
   \<and> get_method style ''characteristics'' (PStr ''beautiful composition'') = Inr characteristics
   \<and> str_items focal_n = Inr focal
   \<and> str_items line_n = Inr line
   \<and> str_items filler_n = Inr filler
   \<and> str_items foliage_n = Inr fol
   \<and> has_colors = (palette \<noteq> [])
   \<and> (palette = [] \<or> (\<exists>joined. palette = [''in '' @ joined @ '' palette'']))
   \<and> parts =
       [titled @ '' floral arrangement'', ''in '' @ py_str container]
       @ optional_clause ''featuring '' '' as focal flowers'' focal
       @ optional_clause ''with '' '' creating vertical lines'' line
       @ optional_clause ''filled with '' [] filler
       @ optional_clause ''accented with '' '' foliage'' fol
       @ palette
       @ [''using '' @ py_str balance_description,
          ''with '' @ py_str movement_description,
          ''creating '' @ py_str characteristics]"
  unfolding prompt_parts_def Let_def
  apply (erule bindE_InrE)+
  apply (drule add_clause_Inr)+
  apply (drule colors_clause_Inr)
  apply (elim exE conjE)
  apply (intro exI conjI)
  apply (assumption | simp)+
  done


lemma optional_clause_nonempty: "lead \<noteq> [] \<Longrightarrow> [] \<notin> set (optional_clause lead trail names)"
  by (simp add: optional_clause_def)

lemma pipeline_example:
  "bindE (map_floral_taxonomy ''Romantic spring wedding centerpiece'' ''any'' ''wedding'' ''romantic'')
     format_prompt_enhancement =
   Inr ''Dome floral arrangement, in low bowl, vase, or compote, featuring garden roses, peonies as focal flowers, filled with baby breath, accented with ruscus foliage, in blush pink, cream, soft peach, ivory, champagne palette, using Equal visual weight radiating from center, with Circular flow around center, creating equal dimensions all sides, full 360-degree viewing, dense''"
  by code_simp

lemma pipeline_example_lines:
  "bindE (map_floral_taxonomy ''Romantic spring wedding centerpiece'' ''any'' ''wedding'' ''romantic'')
     (\<lambda>mapped. Inr (role_names mapped ''line'', carries_colors mapped)) = Inr (Some [], True)"
  by code_simp

lemma prompt_example_clauses:
  "\<not> py_in ''creating vertical lines'' ''Dome floral arrangement, in low bowl, vase, or compote, featuring garden roses, peonies as focal flowers, filled with baby breath, accented with ruscus foliage, in blush pink, cream, soft peach, ivory, champagne palette, using Equal visual weight radiating from center, with Circular flow around center, creating equal dimensions all sides, full 360-degree viewing, dense''"
  "\<not> py_in '', ,'' ''Dome floral arrangement, in low bowl, vase, or compote, featuring garden roses, peonies as focal flowers, filled with baby breath, accented with ruscus foliage, in blush pink, cream, soft peach, ivory, champagne palette, using Equal visual weight radiating from center, with Circular flow around center, creating equal dimensions all sides, full 360-degree viewing, dense''"
  by code_simp+

lemma subscript_Inr: "subscript v k = Inr x \<Longrightarrow> \<exists>d. v = PDict d \<and> map_of d k = Some x"
  by (cases v) (auto simp: subscript_def dict_getitem_def split: option.splits)

lemma dict_getitem_Inr: "dict_getitem d k = Inr x \<Longrightarrow> map_of d k = Some x"
  by (auto simp: dict_getitem_def split: option.splits)

lemma replace_title_Inr:
  "replace_title v = Inr titled \<Longrightarrow>
     \<exists>s. v = PStr s \<and> titled = title (replace_chr CHR ''_'' CHR '' '' s)"
  by (cases v) (auto simp: replace_title_def)

lemma prompt_clauses:
  assumes "format_prompt_enhancement mapped = Inr prompt"
  shows "\<exists>style style_type container focal line filler foliage palette
           struct balance balance_description movement movement_description.
       map_of mapped ''style'' = Some (PDict style)
     \<and> map_of style ''type'' = Some (PStr style_type)
     \<and> map_of style ''container'' = Some container
     \<and> role_names mapped ''focal'' = Some focal
     \<and> role_names mapped ''line'' = Some line
     \<and> role_names mapped ''filler'' = Some filler
     \<and> foliage_names mapped = Some foliage
     \<and> carries_colors mapped = (palette \<noteq> [])
     \<and> (palette = [] \<or> (\<exists>colors. palette = [''in '' @ colors @ '' palette'']))
     \<and> map_of mapped ''structure'' = Some (PDict struct)
     \<and> map_of struct ''balance'' = Some (PDict balance)
     \<and> map_of balance ''description'' = Some balance_description
     \<and> map_of struct ''movement'' = Some (PDict movement)
     \<and> map_of movement ''description'' = Some movement_description
     \<and> prompt = join '', ''
          ([title (replace_chr CHR ''_'' CHR '' '' style_type) @ '' floral arrangement'',
            ''in '' @ py_str container]
           @ optional_clause ''featuring '' '' as focal flowers'' focal
           @ optional_clause ''with '' '' creating vertical lines'' line
           @ optional_clause ''filled with '' [] filler
           @ optional_clause ''accented with '' '' foliage'' foliage
           @ palette
           @ [''using '' @ py_str balance_description,
              ''with '' @ py_str movement_description,
              ''creating '' @ py_str (dict_get_default style ''characteristics''
                                        (PStr ''beautiful composition''))])
     \<and> [] \<notin> set
          ([title (replace_chr CHR ''_'' CHR '' '' style_type) @ '' floral arrangement'',
            ''in '' @ py_str container]
           @ optional_clause ''featuring '' '' as focal flowers'' focal
           @ optional_clause ''with '' '' creating vertical lines'' line
           @ optional_clause ''filled with '' [] filler
           @ optional_clause ''accented with '' '' foliage'' foliage
           @ palette
           @ [''using '' @ py_str balance_description,
              ''with '' @ py_str movement_description,
              ''creating '' @ py_str (dict_get_default style ''characteristics''
                                        (PStr ''beautiful composition''))])"
proof -
  from assms obtain parts where pp: "prompt_parts mapped = Inr parts"
    and prompt: "prompt = join '', '' parts"
    unfolding format_prompt_enhancement_def by (elim bindE_InrE) simp
  from prompt_parts_Inr [OF pp]
  obtain style flowers foliage colors struct style_type titled container
      focal_v focal_n focal line_v line_n line filler_v filler_n filler foliage_n fol
      has_colors palette balance balance_description movement movement_description
      characteristics
    where s: "dict_getitem mapped ''style'' = Inr style"
      and fl: "dict_getitem mapped ''flowers'' = Inr flowers"
      and fo: "dict_getitem mapped ''foliage'' = Inr foliage"
      and co: "dict_getitem mapped ''colors'' = Inr colors"
      and st: "dict_getitem mapped ''structure'' = Inr struct"
      and ty: "subscript style ''type'' = Inr style_type"
      and ti: "replace_title style_type = Inr titled"
      and cn: "subscript style ''container'' = Inr container"
      and g1: "get_method flowers ''focal'' (PList []) = Inr focal_v" and n1: "names_of focal_v = Inr focal_n"
      and g2: "get_method flowers ''line'' (PList []) = Inr line_v" and n2: "names_of line_v = Inr line_n"
      and g3: "get_method flowers ''filler'' (PList []) = Inr filler_v" and n3: "names_of filler_v = Inr filler_n"
      and n4: "names_of foliage = Inr foliage_n"
      and hc: "contains colors ''colors'' = Inr has_colors"
      and b1: "subscript struct ''balance'' = Inr balance"
      and b2: "subscript balance ''description'' = Inr balance_description"
      and m1: "subscript struct ''movement'' = Inr movement"
      and m2: "subscript movement ''description'' = Inr movement_description"
      and ch: "get_method style ''characteristics'' (PStr ''beautiful composition'') = Inr characteristics"
      and s1: "str_items focal_n = Inr focal"
      and s2: "str_items line_n = Inr line"
      and s3: "str_items filler_n = Inr filler"
      and s4: "str_items foliage_n = Inr fol"
      and pal: "has_colors = (palette \<noteq> [])"
      and form: "palette = [] \<or> (\<exists>joined. palette = [''in '' @ joined @ '' palette''])"
      and parts: "parts =
       [titled @ '' floral arrangement'', ''in '' @ py_str container]
       @ optional_clause ''featuring '' '' as focal flowers'' focal
       @ optional_clause ''with '' '' creating vertical lines'' line
       @ optional_clause ''filled with '' [] filler
       @ optional_clause ''accented with '' '' foliage'' fol
       @ palette
       @ [''using '' @ py_str balance_description,
          ''with '' @ py_str movement_description,
          ''creating '' @ py_str characteristics]"
    by (elim exE conjE) (rule that)
  from subscript_Inr [OF ty] obtain sd where sd: "style = PDict sd"
    and ty': "map_of sd ''type'' = Some style_type" by blast
  from replace_title_Inr [OF ti] obtain tname where tn: "style_type = PStr tname"
    and titled: "titled = title (replace_chr CHR ''_'' CHR '' '' tname)" by blast
  from subscript_Inr [OF cn] sd have cn': "map_of sd ''container'' = Some container" by auto
  from ch sd have ch': "characteristics =
      dict_get_default sd ''characteristics'' (PStr ''beautiful composition'')"
    by (simp add: get_method_def)
  from subscript_Inr [OF b1] obtain std where std: "struct = PDict std"
    and b1': "map_of std ''balance'' = Some balance" by blast
  from subscript_Inr [OF b2] obtain bd where bd: "balance = PDict bd"
    and b2': "map_of bd ''description'' = Some balance_description" by blast
  from subscript_Inr [OF m1] std have m1': "map_of std ''movement'' = Some movement" by auto
  from subscript_Inr [OF m2] obtain md where md: "movement = PDict md"
    and m2': "map_of md ''description'' = Some movement_description" by blast
  have a1: "map_of mapped ''style'' = Some (PDict sd)"
    using dict_getitem_Inr [OF s] sd by simp
  have a2: "map_of sd ''type'' = Some (PStr tname)"
    using ty' tn by simp
  have a3: "map_of mapped ''structure'' = Some (PDict std)"
    using dict_getitem_Inr [OF st] std by simp
  have a4: "map_of std ''balance'' = Some (PDict bd)"
    using b1' bd by simp
  have a5: "map_of std ''movement'' = Some (PDict md)"
    using m1' md by simp
  have r1: "role_names mapped ''focal'' = Some focal"
    by (simp add: role_names_def clause_names_def bindE_def fl g1 n1 s1)
  have r2: "role_names mapped ''line'' = Some line"
    by (simp add: role_names_def clause_names_def bindE_def fl g2 n2 s2)
  have r3: "role_names mapped ''filler'' = Some filler"
    by (simp add: role_names_def clause_names_def bindE_def fl g3 n3 s3)
  have r4: "foliage_names mapped = Some fol"
    by (simp add: foliage_names_def clause_names_def bindE_def fo n4 s4)
  have cc: "carries_colors mapped = (palette \<noteq> [])"
    by (simp add: carries_colors_def bindE_def co hc pal)
  have pne: "[] \<notin> set palette"
    using form by auto
  have ne: "[] \<notin> set parts"
    unfolding parts using pne by (simp add: optional_clause_nonempty)
  show ?thesis
    using a1 a2 cn' r1 r2 r3 r4 cc form a3 a4 b2' a5 m2'
      prompt [unfolded parts titled ch'] ne [unfolded parts titled ch']
    by (intro exI conjI)
qed

section \<open>The pipeline's mapping results\<close>

lemma str_items_map: "str_items (map PStr ss) = Inr ss"
  by (induction ss) (simp_all add: bindE_def)

lemma add_clause_value:
  "add_clause parts (map PStr ss) lead trail = Inr (parts @ optional_clause lead trail ss)"
  by (cases ss) (simp_all add: add_clause_def optional_clause_def join_values_def bindE_def
      str_items_map)

lemma prompt_parts_value:
  assumes "map_of mapped ''style'' = Some (PDict style)"
    and "map_of style ''type'' = Some (PStr style_type)"
    and "map_of style ''container'' = Some container"
    and "map_of mapped ''flowers'' = Some (PDict flowers)"
    and "names_of (dict_get_default flowers ''focal'' (PList [])) = Inr (map PStr focal)"
    and "names_of (dict_get_default flowers ''line'' (PList [])) = Inr (map PStr line)"
    and "names_of (dict_get_default flowers ''filler'' (PList [])) = Inr (map PStr filler)"
    and "map_of mapped ''foliage'' = Some foliage"
    and "names_of foliage = Inr (map PStr fol)"
    and "map_of mapped ''colors'' = Some (PDict colors)"
    and "case map_of colors ''colors'' of None \<Rightarrow> True | Some v \<Rightarrow> py_iter v = Inr (map PStr cs)"
    and "map_of mapped ''structure'' = Some (PDict struct)"
    and "map_of struct ''balance'' = Some (PDict balance)"
    and "map_of balance ''description'' = Some balance_description"
    and "map_of struct ''movement'' = Some (PDict movement)"
    and "map_of movement ''description'' = Some movement_description"
  shows "prompt_parts mapped = Inr
     ([title (replace_chr CHR ''_'' CHR '' '' style_type) @ '' floral arrangement'',
       ''in '' @ py_str container]
      @ optional_clause ''featuring '' '' as focal flowers'' focal
      @ optional_clause ''with '' '' creating vertical lines'' line
      @ optional_clause ''filled with '' [] filler
      @ optional_clause ''accented with '' '' foliage'' fol
      @ (if has_key colors ''colors'' then [''in '' @ join '', '' cs @ '' palette''] else [])
      @ [''using '' @ py_str balance_description,
         ''with '' @ py_str movement_description,
         ''creating '' @ py_str (dict_get_default style ''characteristics''
                                   (PStr ''beautiful composition''))])"
proof (cases "map_of colors ''colors''")
  case None
  then show ?thesis
    unfolding prompt_parts_def Let_def
    by (simp add: assms(1-10,12-16) dict_getitem_def bindE_def subscript_def replace_title_def
        get_method_def add_clause_value contains_def has_key_def)
next
  case (Some v)
  with assms(11) have it: "py_iter v = Inr (map PStr cs)" by simp
  show ?thesis
    unfolding prompt_parts_def Let_def
    by (simp add: assms(1-10,12-16) Some it dict_getitem_def bindE_def subscript_def
        replace_title_def get_method_def add_clause_value contains_def has_key_def
        join_values_def str_items_map)
qed


subsection \<open>Style\<close>

lemma styles_renderable:
  "list_all (\<lambda>(c, styles). distinct (map fst styles)
       \<and> list_all (\<lambda>(t, e). has_key e ''container'') styles) ARRANGEMENT_STYLES"
  by (simp add: ARRANGEMENT_STYLES_def has_key_def)

lemma style_entry_fields:
  assumes "map_of ARRANGEMENT_STYLES c = Some styles" and "map_of styles t = Some e"
  shows "\<exists>container. map_of (style_entry c t) ''type'' = Some (PStr t)
       \<and> map_of (style_entry c t) ''container'' = Some container"
proof -
  from assms have "(c, styles) \<in> set ARRANGEMENT_STYLES" and "(t, e) \<in> set styles"
    by (auto dest: map_of_SomeD)
  with styles_renderable have "has_key e ''container''"
    by (auto simp: list_all_iff)
  then show ?thesis
    by (auto simp: style_entry_def assms has_key_def)
qed

lemma style_rules_in_table:
  "list_all (\<lambda>(triggers, c, t).
       case map_of ARRANGEMENT_STYLES c of None \<Rightarrow> False | Some styles \<Rightarrow> has_key styles t)
     (([], ''ikebana'', ''moribana'') # ([], ''contemporary'', ''garden_style'')
        # style_rules)"
  by (simp add: style_rules_def ARRANGEMENT_STYLES_def has_key_def)

lemma rule_entry_fields:
  assumes "(triggers, c, t) \<in> set (([], ''ikebana'', ''moribana'')
              # ([], ''contemporary'', ''garden_style'') # style_rules)"
  shows "\<exists>container. map_of (style_entry c t) ''type'' = Some (PStr t)
       \<and> map_of (style_entry c t) ''container'' = Some container"
proof -
  from style_rules_in_table assms
  have "case map_of ARRANGEMENT_STYLES c of None \<Rightarrow> False | Some styles \<Rightarrow> has_key styles t"
    unfolding list_all_iff by fastforce
  then obtain styles e where "map_of ARRANGEMENT_STYLES c = Some styles" "map_of styles t = Some e"
    by (auto simp: has_key_def split: option.splits)
  then show ?thesis by (rule style_entry_fields)
qed

lemma detected_style_fields:
  "\<exists>style t container. detect_arrangement_style intent preference = Inr style
     \<and> map_of style ''type'' = Some (PStr t) \<and> map_of style ''container'' = Some container"
proof (cases "find (\<lambda>(triggers, _). list_ex (\<lambda>t. py_in t intent) triggers) style_rules")
  case (Some r)
  obtain triggers c t where r: "r = (triggers, c, t)" by (cases r)
  from Some have mem: "(triggers, c, t) \<in> set style_rules"
    unfolding r by (metis find_Some_iff nth_mem)
  show ?thesis
  proof (cases "c = ''ikebana'' \<and> py_in ''moribana'' intent")
    case True
    from rule_entry_fields [of "[]" "''ikebana''" "''moribana''"] True
    show ?thesis
      unfolding detect_arrangement_style_rules Some r by auto
  next
    case False
    from rule_entry_fields [of triggers c t] mem False
    show ?thesis
      unfolding detect_arrangement_style_rules Some r by auto
  qed
next
  case None
  show ?thesis
  proof (cases "find (\<lambda>(c, styles). has_key styles preference) ARRANGEMENT_STYLES")
    case inner: None
    from rule_entry_fields [of "[]" "''contemporary''" "''garden_style''"]
    show ?thesis
      unfolding detect_arrangement_style_rules None inner by auto
  next
    case (Some cs)
    obtain c styles where cs: "cs = (c, styles)" by (cases cs)
    from Some have mem: "(c, styles) \<in> set ARRANGEMENT_STYLES" and key: "has_key styles preference"
      unfolding cs by (metis find_Some_iff nth_mem, metis (mono_tags, lifting) find_Some_iff case_prod_conv)
    have 1: "map_of ARRANGEMENT_STYLES c = Some styles"
      using mem styles_distinct by simp
    from key obtain e where 2: "map_of styles preference = Some e"
      by (auto simp: has_key_def)
    from style_entry_fields [OF 1 2]
    show ?thesis
      unfolding detect_arrangement_style_rules None Some cs by auto
  qed
qed


subsection \<open>Flowers and foliage\<close>

lemma all_str: "list_all is_str ns \<Longrightarrow> \<exists>ss. ns = map PStr ss"
proof (induction ns)
  case Nil
  then show ?case by simp
next
  case (Cons v ns)
  then obtain s ss where "v = PStr s" and "ns = map PStr ss"
    by (cases v) (auto simp: is_str_def)
  then have "v # ns = map PStr (s # ss)" by simp
  then show ?case by (rule exI)
qed

lemma named_names: "named v \<Longrightarrow> \<exists>ss. names_of v = Inr (map PStr ss)"
  using all_str by (cases "names_of v") (auto simp: named_def)

lemma str_list_items: "str_list v \<Longrightarrow> \<exists>ss. py_iter v = Inr (map PStr ss)"
  using all_str by (cases "py_iter v") (auto simp: str_list_def)

lemma named_nil: "named (PList [])"
  by (simp add: named_def names_of_def py_iter_def bindE_def)

lemma names_of_items_snoc:
  "names_of_items xs = Inr ns \<Longrightarrow> map_of d ''name'' = Some v
     \<Longrightarrow> names_of_items (xs @ [PDict d]) = Inr (ns @ [v])"
  by (induction xs arbitrary: ns) (auto simp: bindE_Inr subscript_def dict_getitem_def)

lemma named_snoc:
  assumes "named (PList xs)" and "map_of d ''name'' = Some (PStr n)"
  shows "named (PList (xs @ [PDict d]))"
proof -
  from assms(1) obtain ns where ns: "names_of_items xs = Inr ns" and all: "list_all is_str ns"
    by (cases "names_of_items xs") (auto simp: named_def names_of_def py_iter_def bindE_def)
  from names_of_items_snoc [OF ns assms(2)] all show ?thesis
    by (simp add: named_def names_of_def py_iter_def bindE_def is_str_def)
qed

lemma named_flower_entries:
  "named (PList (map (\<lambda>(n, d). flower_entry (f n) role d) xs))"
proof (induction xs rule: rev_induct)
  case Nil
  then show ?case by (simp add: named_nil)
next
  case (snoc p xs)
  obtain n d where p: "p = (n, d)" by (cases p)
  have "named (PList (map (\<lambda>(n, d). flower_entry (f n) role d) xs
      @ [PDict ((''name'', PStr (f n)) # (''role'', PStr role) # d)]))"
    using snoc by (rule named_snoc) simp
  then show ?case by (simp add: p flower_entry_def)
qed

lemma pass1_named:
  "named (dict_get_default (pass1 intent) ''focal'' (PList []))"
  "named (dict_get_default (pass1 intent) ''line'' (PList []))"
  "named (dict_get_default (pass1 intent) ''filler'' (PList []))"
  by (simp_all add: pass1_def dict_get_default_def named_flowers_def named_flower_entries)

lemma curated_flower_named:
  "named (PList [])"
  "named (PList [curated_flower a r k])"
  "named (PList [curated_flower a r k, curated_flower a' r' k'])"
  by (simp_all add: named_def names_of_def py_iter_def bindE_def subscript_def dict_getitem_def
      curated_flower_def flower_entry_def is_str_def)

lemma curated_named:
  "named (dict_get_default (curated b) ''focal'' (PList []))"
  "named (dict_get_default (curated b) ''line'' (PList []))"
  "named (dict_get_default (curated b) ''filler'' (PList []))"
  by (cases b; simp add: dict_get_default_def curated_flower_named)+

lemma detected_flowers_named:
  "\<exists>flowers. detect_flowers intent occasion = Inr flowers
     \<and> named (dict_get_default flowers ''focal'' (PList []))
     \<and> named (dict_get_default flowers ''line'' (PList []))
     \<and> named (dict_get_default flowers ''filler'' (PList []))"
  unfolding detect_flowers_value
  by (cases "any_named intent") (simp_all add: pass1_named curated_named)

lemma foliage_taggable:
  "list_all (\<lambda>(category, types). list_all (\<lambda>(n, d). taggable [''name'', ''category''] d) types)
     FOLIAGE_TYPES"
  by (simp add: FOLIAGE_TYPES_def taggable_def)

lemma types_loop_named:
  assumes "named (PList acc)"
    and "list_all (\<lambda>(n, d). taggable [''name'', ''category''] d) types"
  shows "named (PList (types_loop intent category types acc))"
  using assms
proof (induction types arbitrary: acc)
  case Nil
  then show ?case by simp
next
  case (Cons p types)
  obtain n d where p: "p = (n, d)" by (cases p)
  from Cons.prems(2) have tag: "taggable [''name'', ''category''] d"
    and rest: "list_all (\<lambda>(n, d). taggable [''name'', ''category''] d) types"
    by (simp_all add: p)
  show ?case
  proof (cases "py_in (replace_chr CHR ''_'' CHR '' '' n) intent")
    case False
    with Cons.IH [OF Cons.prems(1) rest] show ?thesis by (simp add: p)
  next
    case True
    let ?n = "replace_chr CHR ''_'' CHR '' '' n"
    have sp: "spread [(''name'', PStr ?n), (''category'', PStr category)] d =
        (''name'', PStr ?n) # (''category'', PStr category) # d"
      using tag by (simp add: spread_taggable)
    have "named (PList (acc @ [PDict (spread [(''name'', PStr ?n),
          (''category'', PStr category)] d)]))"
      using Cons.prems(1) by (rule named_snoc) (simp add: sp)
    from Cons.IH [OF this rest] True show ?thesis by (simp add: p)
  qed
qed

lemma categories_loop_named:
  assumes "named (PList acc)"
    and "list_all (\<lambda>(category, types). list_all (\<lambda>(n, d). taggable [''name'', ''category''] d) types) T"
  shows "named (PList (categories_loop intent T acc))"
  using assms
proof (induction T arbitrary: acc)
  case Nil
  then show ?case by simp
next
  case (Cons p T)
  obtain category types where p: "p = (category, types)" by (cases p)
  from Cons.prems(2) have 1: "list_all (\<lambda>(n, d). taggable [''name'', ''category''] d) types"
    and 2: "list_all (\<lambda>(category, types). list_all (\<lambda>(n, d). taggable [''name'', ''category''] d) types) T"
    by (simp_all add: p)
  from Cons.IH [OF types_loop_named [OF Cons.prems(1) 1] 2] show ?case by (simp add: p)
qed

lemma foliage_fallback_named:
  "case foliage_literal ''eucalyptus'' ''structural'' ''eucalyptus'' of
     Inl _ \<Rightarrow> False | Inr f \<Rightarrow> named (PList [f])"
  "case foliage_literal ''eucalyptus'' ''structural'' ''eucalyptus'' of
     Inl _ \<Rightarrow> False
   | Inr f \<Rightarrow> (case foliage_literal ''ivy'' ''accent'' ''ivy'' of
       Inl _ \<Rightarrow> False | Inr g \<Rightarrow> named (PList [f, g]))"
  "case foliage_literal ''aspidistra'' ''dramatic'' ''aspidistra'' of
     Inl _ \<Rightarrow> False | Inr f \<Rightarrow> named (PList [f])"
  "case foliage_literal ''ruscus'' ''structural'' ''ruscus'' of
     Inl _ \<Rightarrow> False | Inr f \<Rightarrow> named (PList [f])"
  by (simp_all add: foliage_literal_def FOLIAGE_TYPES_def dict_getitem_def bindE_def spread_def
      named_def names_of_def py_iter_def subscript_def is_str_def)

lemma detected_foliage_named:
  "\<exists>foliage. detect_foliage intent style = Inr foliage \<and> named (PList foliage)"
proof (cases "categories_loop intent FOLIAGE_TYPES [] = []")
  case False
  from categories_loop_named [OF named_nil foliage_taggable, of intent] False
  show ?thesis by (simp add: detect_foliage_def Let_def)
next
  case True
  show ?thesis
    unfolding detect_foliage_def Let_def True
    using foliage_fallback_named
    by (simp add: bindE_def split: sum.splits)
qed


subsection \<open>Colors, structure, occasion and cultural context\<close>

lemma palettes_str_lists:
  "list_all (\<lambda>(name, e). case map_of e ''colors'' of None \<Rightarrow> True | Some v \<Rightarrow> str_list v)
     COLOR_PALETTES"
  by (simp add: COLOR_PALETTES_def str_list_def py_iter_def is_str_def)

lemma palette_entry_colors:
  assumes "name \<in> set (map fst COLOR_PALETTES)"
  shows "case map_of (palette_entry name) ''colors'' of None \<Rightarrow> True | Some v \<Rightarrow> str_list v"
proof -
  from assms obtain e where e: "map_of COLOR_PALETTES name = Some e"
    by (metis has_key_iff has_key_def not_None_eq)
  then have "(name, e) \<in> set COLOR_PALETTES" by (rule map_of_SomeD)
  with palettes_str_lists
  have "case map_of e ''colors'' of None \<Rightarrow> True | Some v \<Rightarrow> str_list v"
    by (auto simp: list_all_iff)
  then show ?thesis by (simp add: palette_entry_def e)
qed

lemma technique_descriptions:
  "list_all (\<lambda>(family, name).
       case technique_entry family name of
         PDict t \<Rightarrow> has_key t ''description''
       | _ \<Rightarrow> False)
     [(''balance'', ''symmetrical_radial''), (''balance'', ''asymmetrical''),
      (''movement'', ''cascade_fall''), (''movement'', ''vertical_lift''),
      (''movement'', ''horizontal_sweep''), (''movement'', ''spiral_rotation'')]"
  by (simp add: technique_entry_def STRUCTURAL_TECHNIQUES_def has_key_def)

lemma technique_description:
  assumes "(family, name) \<in> set
     [(''balance'', ''symmetrical_radial''), (''balance'', ''asymmetrical''),
      (''movement'', ''cascade_fall''), (''movement'', ''vertical_lift''),
      (''movement'', ''horizontal_sweep''), (''movement'', ''spiral_rotation'')]"
  shows "\<exists>t d. technique_entry family name = PDict t \<and> map_of t ''description'' = Some d"
proof -
  from technique_descriptions assms
  have "case technique_entry family name of PDict t \<Rightarrow> has_key t ''description'' | _ \<Rightarrow> False"
    unfolding list_all_iff by fastforce
  then show ?thesis
    by (cases "technique_entry family name") (auto simp: has_key_def)
qed

lemma mapped_structure_fields:
  "\<exists>struct balance balance_description movement movement_description.
     map_structure style colors = Inr struct
   \<and> map_of struct ''balance'' = Some (PDict balance)
   \<and> map_of balance ''description'' = Some balance_description
   \<and> map_of struct ''movement'' = Some (PDict movement)
   \<and> map_of movement ''description'' = Some movement_description"
proof -
  let ?b = "if dict_get_default style ''balance'' (PStr ''asymmetrical'') = PStr ''symmetrical''
            \<or> dict_get_default style ''balance'' (PStr ''asymmetrical'') = PStr ''radial symmetrical''
         then technique_entry ''balance'' ''symmetrical_radial''
         else technique_entry ''balance'' ''asymmetrical''"
  let ?m = "if map_of style ''type'' = Some (PStr ''cascade'') then technique_entry ''movement'' ''cascade_fall''
         else if map_of style ''type'' = Some (PStr ''vertical'') then technique_entry ''movement'' ''vertical_lift''
         else if map_of style ''type'' = Some (PStr ''horizontal'') then technique_entry ''movement'' ''horizontal_sweep''
         else technique_entry ''movement'' ''spiral_rotation''"
  have "\<exists>t d. ?b = PDict t \<and> map_of t ''description'' = Some d"
    using technique_description [of "''balance''" "''symmetrical_radial''"]
      technique_description [of "''balance''" "''asymmetrical''"]
    by (simp split: if_splits)
  then obtain balance bd where b: "?b = PDict balance" "map_of balance ''description'' = Some bd"
    by blast
  have "\<exists>t d. ?m = PDict t \<and> map_of t ''description'' = Some d"
    using technique_description [of "''movement''" "''cascade_fall''"]
      technique_description [of "''movement''" "''vertical_lift''"]
      technique_description [of "''movement''" "''horizontal_sweep''"]
      technique_description [of "''movement''" "''spiral_rotation''"]
    by (simp split: if_splits)
  then obtain movement md where m: "?m = PDict movement" "map_of movement ''description'' = Some md"
    by blast
  obtain struct where s: "map_structure style colors = Inr struct"
    and sb: "map_of struct ''balance'' = Some ?b" and sm: "map_of struct ''movement'' = Some ?m"
    by (simp add: map_structure_value)
  from sb b(1) have sb': "map_of struct ''balance'' = Some (PDict balance)" by simp
  from sm m(1) have sm': "map_of struct ''movement'' = Some (PDict movement)" by simp
  from s sb' b(2) sm' m(2) show ?thesis by (intro exI conjI)
qed

lemma map_occasion_returns: "\<exists>specs. map_occasion occasion style = Inr specs"
  by (simp add: map_occasion_def dict_getitem_def has_key_def split: option.splits)

lemma get_cultural_context_returns: "\<exists>tradition. get_cultural_context style = Inr tradition"
proof -
  have "\<exists>c. dict_getitem CULTURAL_TRADITIONS ''japanese_ikebana'' = Inr c"
    "\<exists>c. dict_getitem CULTURAL_TRADITIONS ''european_garden'' = Inr c"
    "\<exists>c. dict_getitem CULTURAL_TRADITIONS ''contemporary_western'' = Inr c"
    by (simp_all add: dict_getitem_def CULTURAL_TRADITIONS_def)
  then show ?thesis by (simp add: get_cultural_context_def)
qed


subsection \<open>The pipeline returns\<close>

lemma pipeline_returns:
  "\<exists>mapped prompt.
     map_floral_taxonomy user_intent style_preference occasion color_scheme = Inr mapped
   \<and> format_prompt_enhancement mapped = Inr prompt"
proof -
  let ?i = "lower user_intent"
  from detected_style_fields [of ?i style_preference]
  obtain style style_type container
    where st: "detect_arrangement_style ?i style_preference = Inr style"
      and ty: "map_of style ''type'' = Some (PStr style_type)"
      and co: "map_of style ''container'' = Some container"
    by blast
  from detected_flowers_named [of ?i occasion]
  obtain flowers where fl: "detect_flowers ?i occasion = Inr flowers"
    and n1: "named (dict_get_default flowers ''focal'' (PList []))"
    and n2: "named (dict_get_default flowers ''line'' (PList []))"
    and n3: "named (dict_get_default flowers ''filler'' (PList []))"
    by blast
  from named_names [OF n1] obtain focal
    where f1: "names_of (dict_get_default flowers ''focal'' (PList [])) = Inr (map PStr focal)" ..
  from named_names [OF n2] obtain line
    where f2: "names_of (dict_get_default flowers ''line'' (PList [])) = Inr (map PStr line)" ..
  from named_names [OF n3] obtain filler
    where f3: "names_of (dict_get_default flowers ''filler'' (PList [])) = Inr (map PStr filler)" ..
  from detected_foliage_named [of ?i style]
  obtain foliage where fo: "detect_foliage ?i style = Inr foliage" and n4: "named (PList foliage)"
    by blast
  from named_names [OF n4] obtain fol
    where f4: "names_of (PList foliage) = Inr (map PStr fol)" ..
  let ?colors = "palette_entry (chosen_palette ?i color_scheme)"
  have cl: "detect_color_scheme ?i color_scheme occasion = Inr ?colors"
    by (rule detect_color_scheme_chosen)
  have "case map_of ?colors ''colors'' of None \<Rightarrow> True | Some v \<Rightarrow> str_list v"
    by (rule palette_entry_colors) (rule chosen_palette_known)
  then obtain cs
    where cs: "case map_of ?colors ''colors'' of None \<Rightarrow> True
               | Some v \<Rightarrow> py_iter v = Inr (map PStr cs)"
    using str_list_items by (cases "map_of ?colors ''colors''") auto
  from mapped_structure_fields [of style ?colors]
  obtain struct balance balance_description movement movement_description
    where ms: "map_structure style ?colors = Inr struct"
      and b1: "map_of struct ''balance'' = Some (PDict balance)"
      and b2: "map_of balance ''description'' = Some balance_description"
      and m1: "map_of struct ''movement'' = Some (PDict movement)"
      and m2: "map_of movement ''description'' = Some movement_description"
    by blast
  from map_occasion_returns [of occasion style]
  obtain specs where oc: "map_occasion occasion style = Inr specs" ..
  from get_cultural_context_returns [of style]
  obtain tradition where cu: "get_cultural_context style = Inr tradition" ..
  let ?mapped = "[(''user_intent'', PStr user_intent),
           (''style'', PDict style),
           (''flowers'', PDict flowers),
           (''foliage'', PList foliage),
           (''colors'', PDict ?colors),
           (''structure'', PDict struct),
           (''occasion'', PDict specs),
           (''cultural_context'', PDict tradition)]"
  have m: "map_floral_taxonomy user_intent style_preference occasion color_scheme = Inr ?mapped"
    by (simp add: map_floral_taxonomy_def Let_def bindE_def st fl fo cl ms oc cu)
  have "\<exists>parts. prompt_parts ?mapped = Inr parts"
    by (rule exI, rule prompt_parts_value [where style = style and flowers = flowers
          and foliage = "PList foliage" and colors = ?colors and struct = struct,
          OF _ ty co _ f1 f2 f3 _ f4 _ cs _ b1 b2 m1 m2]) simp_all
  then obtain parts where "prompt_parts ?mapped = Inr parts" ..
  then have "format_prompt_enhancement ?mapped = Inr (join '', '' parts)"
    by (simp add: format_prompt_enhancement_def bindE_def)
  with m show ?thesis by blast
qed

section \<open>The claims\<close>

text \<open>
  C1 (as amended). detect_arrangement_style tests the trigger phrases as substrings of the
  intent it is given, exactly as spelled, in the fixed priority order ikebana/japanese,
  then cascade/waterfall/trailing, then dome/round/centerpiece, then
  minimal/modern/contemporary, then garden/loose/natural/romantic, then crescent/curve,
  and returns the StyleEntry bound to the first matching rule (for the first rule the
  moribana entry when the intent also holds "moribana", the nageire entry otherwise). If no
  trigger matches, it returns the entry of the first category that has the preference as a
  style type, and the contemporary garden_style entry when there is none. It never raises.
  On the lower-cased user intent, which is what map_floral_taxonomy passes, the test is
  the case-insensitive substring test on the user's text.
\<close>

theorem detect_arrangement_style_first_match:
  "detect_arrangement_style intent preference =
     Inr (case find (\<lambda>(triggers, _). list_ex (\<lambda>t. py_in t intent) triggers) style_rules of
            Some (_, c, t) \<Rightarrow>
              style_entry c
                (if c = ''ikebana'' \<and> py_in ''moribana'' intent then ''moribana'' else t)
          | None \<Rightarrow>
              (case find (\<lambda>(c, styles). has_key styles preference) ARRANGEMENT_STYLES of
                 Some (c, _) \<Rightarrow> style_entry c preference
               | None \<Rightarrow> style_entry ''contemporary'' ''garden_style''))
   \<and> detect_arrangement_style (lower user_intent) preference =
     Inr (case find (\<lambda>(triggers, _). list_ex (\<lambda>t. ci_in t user_intent) triggers) style_rules of
            Some (_, c, t) \<Rightarrow>
              style_entry c
                (if c = ''ikebana'' \<and> ci_in ''moribana'' user_intent then ''moribana'' else t)
          | None \<Rightarrow>
              (case find (\<lambda>(c, styles). has_key styles preference) ARRANGEMENT_STYLES of
                 Some (c, _) \<Rightarrow> style_entry c preference
               | None \<Rightarrow> style_entry ''contemporary'' ''garden_style''))"
proof
  show "detect_arrangement_style intent preference =
     Inr (case find (\<lambda>(triggers, _). list_ex (\<lambda>t. py_in t intent) triggers) style_rules of
            Some (_, c, t) \<Rightarrow>
              style_entry c
                (if c = ''ikebana'' \<and> py_in ''moribana'' intent then ''moribana'' else t)
          | None \<Rightarrow>
              (case find (\<lambda>(c, styles). has_key styles preference) ARRANGEMENT_STYLES of
                 Some (c, _) \<Rightarrow> style_entry c preference
               | None \<Rightarrow> style_entry ''contemporary'' ''garden_style''))"
    by (rule detect_arrangement_style_rules)
next
  have same: "find (\<lambda>(triggers, _). list_ex (\<lambda>t. ci_in t user_intent) triggers) style_rules =
              find (\<lambda>(triggers, _). list_ex (\<lambda>t. py_in t (lower user_intent)) triggers) style_rules"
    using lower_triggers(1)
    by (intro find_cong refl) (fastforce simp: ci_in_def list_ex_iff list_all_iff)
  have mori: "ci_in ''moribana'' user_intent = py_in ''moribana'' (lower user_intent)"
    by (simp add: ci_in_def lower_triggers(2))
  show "detect_arrangement_style (lower user_intent) preference =
     Inr (case find (\<lambda>(triggers, _). list_ex (\<lambda>t. ci_in t user_intent) triggers) style_rules of
            Some (_, c, t) \<Rightarrow>
              style_entry c
                (if c = ''ikebana'' \<and> ci_in ''moribana'' user_intent then ''moribana'' else t)
          | None \<Rightarrow>
              (case find (\<lambda>(c, styles). has_key styles preference) ARRANGEMENT_STYLES of
                 Some (c, _) \<Rightarrow> style_entry c preference
               | None \<Rightarrow> style_entry ''contemporary'' ''garden_style''))"
    unfolding same mori by (rule detect_arrangement_style_rules)
qed

theorem detect_arrangement_style_first_match_witness:
  "detect_arrangement_style ''modern ikebana'' ''any'' = Inr (style_entry ''ikebana'' ''nageire'')
   \<and> detect_arrangement_style (lower ''Modern IKEBANA'') ''any'' =
       Inr (style_entry ''ikebana'' ''nageire'')"
  using detect_arrangement_style_first_match [of "''modern ikebana''" "''any''" "''Modern IKEBANA''"]
  by (simp add: style_rules_def ci_in_def lower_def lower_chr_def)

text \<open>
  C1 fails as stated at two inputs. "trailing ivy" holds none of the sixteen trigger
  phrases the claim lists and "any" names no style type, yet the result is the cascade
  entry and not the garden_style entry: "trailing" is a third trigger of the cascade rule.
  "IKEBANA" holds the trigger "ikebana" when case is ignored, yet the result is the
  garden_style entry: the function compares the intent as spelled.
\<close>

theorem detect_arrangement_style_counterexample:
  "\<not> list_ex (\<lambda>t. py_in t ''trailing ivy'')
        [''ikebana'', ''japanese'', ''cascade'', ''waterfall'', ''dome'', ''round'',
         ''centerpiece'', ''minimal'', ''modern'', ''contemporary'', ''garden'', ''loose'',
         ''natural'', ''romantic'', ''crescent'', ''curve'']
   \<and> find (\<lambda>(c, styles). has_key styles ''any'') ARRANGEMENT_STYLES = None
   \<and> detect_arrangement_style ''trailing ivy'' ''any'' =
       Inr (style_entry ''western_classical'' ''cascade'')
   \<and> style_entry ''western_classical'' ''cascade'' \<noteq> style_entry ''contemporary'' ''garden_style''
   \<and> ci_in ''ikebana'' ''IKEBANA''
   \<and> detect_arrangement_style ''IKEBANA'' ''any'' =
       Inr (style_entry ''contemporary'' ''garden_style'')
   \<and> style_entry ''contemporary'' ''garden_style'' \<noteq> style_entry ''ikebana'' ''nageire''
   \<and> style_entry ''contemporary'' ''garden_style'' \<noteq> style_entry ''ikebana'' ''moribana''"
proof -
  have trailing: "detect_arrangement_style ''trailing ivy'' ''any'' =
      Inr (style_entry ''western_classical'' ''cascade'')"
    by (simp add: detect_arrangement_style_rules style_rules_def)
  have upper: "detect_arrangement_style ''IKEBANA'' ''any'' =
      Inr (style_entry ''contemporary'' ''garden_style'')"
    by (simp add: detect_arrangement_style_rules style_rules_def no_style_named_any)
  have differ: "style_entry ''western_classical'' ''cascade'' \<noteq>
        style_entry ''contemporary'' ''garden_style''"
      "style_entry ''contemporary'' ''garden_style'' \<noteq> style_entry ''ikebana'' ''nageire''"
      "style_entry ''contemporary'' ''garden_style'' \<noteq> style_entry ''ikebana'' ''moribana''"
    by (simp_all add: style_entry_def ARRANGEMENT_STYLES_def)
  have ci: "ci_in ''ikebana'' ''IKEBANA''"
    by (simp add: ci_in_def lower_def lower_chr_def)
  show ?thesis
    using trailing upper differ ci no_style_named_any by simp
qed

text \<open>
  C2 (as amended). For every style record and every colors record map_structure returns,
  and its density choice special-cases exactly the (contemporary, minimalist) and
  (contemporary, garden_style) combinations: airy_spacious for the first, packed_abundant
  for the second, and for every other style the fallback clustered_with_voids. Its
  focal-point choice special-cases the (contemporary, minimalist) combination only:
  single_dominant there, and for every other style, garden_style included, the fallback
  multiple_secondary. The special values differ from the fallbacks.
\<close>

theorem map_structure_focal_density:
  "result_field (map_structure style colors) ''focal'' =
       Some (if is_style style ''contemporary'' ''minimalist''
             then technique_entry ''focal_points'' ''single_dominant''
             else technique_entry ''focal_points'' ''multiple_secondary'')
   \<and> result_field (map_structure style colors) ''density'' =
       Some (if is_style style ''contemporary'' ''minimalist''
               then technique_entry ''density'' ''airy_spacious''
             else if is_style style ''contemporary'' ''garden_style''
               then technique_entry ''density'' ''packed_abundant''
             else technique_entry ''density'' ''clustered_with_voids'')
   \<and> technique_entry ''focal_points'' ''single_dominant'' \<noteq>
       technique_entry ''focal_points'' ''multiple_secondary''
   \<and> technique_entry ''density'' ''airy_spacious'' \<noteq>
       technique_entry ''density'' ''clustered_with_voids''
   \<and> technique_entry ''density'' ''packed_abundant'' \<noteq>
       technique_entry ''density'' ''clustered_with_voids''
   \<and> technique_entry ''density'' ''airy_spacious'' \<noteq>
       technique_entry ''density'' ''packed_abundant''"
  by (simp add: map_structure_value result_field_def techniques_differ)

theorem map_structure_focal_density_witness:
  "result_field (map_structure (style_entry ''contemporary'' ''minimalist'') []) ''focal'' =
       Some (technique_entry ''focal_points'' ''single_dominant'')
   \<and> result_field (map_structure (style_entry ''contemporary'' ''minimalist'') []) ''density'' =
       Some (technique_entry ''density'' ''airy_spacious'')
   \<and> result_field (map_structure (style_entry ''contemporary'' ''garden_style'') []) ''density'' =
       Some (technique_entry ''density'' ''packed_abundant'')
   \<and> result_field (map_structure (style_entry ''western_classical'' ''dome'') []) ''density'' =
       Some (technique_entry ''density'' ''clustered_with_voids'')"
  using map_structure_focal_density [of "style_entry ''contemporary'' ''minimalist''" "[]"]
    map_structure_focal_density [of "style_entry ''contemporary'' ''garden_style''" "[]"]
    map_structure_focal_density [of "style_entry ''western_classical'' ''dome''" "[]"]
  by (simp add: is_style_eval)

text \<open>
  C2 fails as stated for the focal-point choice: the (contemporary, garden_style) record
  is given the same multiple_secondary technique as a record that is neither of the two
  combinations, here the (western_classical, dome) record.
\<close>

theorem map_structure_focal_counterexample:
  "is_style (style_entry ''contemporary'' ''garden_style'') ''contemporary'' ''garden_style''
   \<and> \<not> is_style (style_entry ''western_classical'' ''dome'') ''contemporary'' ''garden_style''
   \<and> \<not> is_style (style_entry ''western_classical'' ''dome'') ''contemporary'' ''minimalist''
   \<and> result_field (map_structure (style_entry ''contemporary'' ''garden_style'') []) ''focal'' =
       Some (technique_entry ''focal_points'' ''multiple_secondary'')
   \<and> result_field (map_structure (style_entry ''western_classical'' ''dome'') []) ''focal'' =
       Some (technique_entry ''focal_points'' ''multiple_secondary'')"
  by (simp add: map_structure_value result_field_def is_style_eval)

text \<open>
  C3. build_comfyui_workflow parses its size argument as "<width>x<height>": for size
  "1024x1024" node "4" of the returned graph has inputs exactly width 1024, height 1024
  and batch_size 1, and the call raises ValueError exactly when the size string is not two
  strings that \<open>int\<close> reads as integers (white space, an optional sign, at most 4300
  digits) with a literal "x" between them; there is no default size.
\<close>

theorem build_comfyui_workflow_size:
  "node_inputs (build_comfyui_workflow prompt negative_prompt ''1024x1024'' model steps) ''4'' =
      Some [(''width'', PInt 1024), (''height'', PInt 1024), (''batch_size'', PInt 1)]
   \<and> (build_comfyui_workflow prompt negative_prompt size_str model steps = Inl ValueError) =
      (\<not> (\<exists>a b. size_str = a @ ''x'' @ b \<and> is_int_literal a \<and> is_int_literal b))
   \<and> (\<not> (\<exists>a b. size_str = a @ ''x'' @ b \<and> is_int_literal a \<and> is_int_literal b) \<longrightarrow>
        build_comfyui_workflow prompt negative_prompt size_str model steps = Inl ValueError)"
proof -
  have "unpack2 (map py_int (split_chr CHR ''x'' (''1024'' @ ''x'' @ ''1024''))) = Inr (1024, 1024)"
    by (rule parse_size_ok) (rule py_int_1024)+
  then have "node_inputs (build_comfyui_workflow prompt negative_prompt ''1024x1024'' model steps) ''4'' =
      Some [(''width'', PInt 1024), (''height'', PInt 1024), (''batch_size'', PInt 1)]"
    by (simp add: build_comfyui_workflow_def bindE_def get_model_file_value node_inputs_def
        result_field_def)
  moreover have "(build_comfyui_workflow prompt negative_prompt size_str model steps = Inl ValueError) =
      (\<not> (\<exists>a b. size_str = a @ ''x'' @ b \<and> is_int_literal a \<and> is_int_literal b))"
    unfolding build_error_iff size_decomposition_iff by simp
  ultimately show ?thesis by blast
qed

text \<open>The size "1024 by 768" holds no "x" and is rejected.\<close>

theorem build_comfyui_workflow_size_witness:
  "\<not> (\<exists>a b. ''1024 by 768'' = a @ ''x'' @ b \<and> is_int_literal a \<and> is_int_literal b)
   \<and> build_comfyui_workflow ''roses'' ''wilted'' ''1024 by 768'' ''flux'' 20 = Inl ValueError"
proof -
  have no: "\<not> (\<exists>a b. ''1024 by 768'' = a @ ''x'' @ b \<and> is_int_literal a \<and> is_int_literal b)"
  proof
    assume "\<exists>a b. ''1024 by 768'' = a @ ''x'' @ b \<and> is_int_literal a \<and> is_int_literal b"
    then obtain a b where eq: "''1024 by 768'' = a @ ''x'' @ b" by blast
    have "CHR ''x'' \<in> set (a @ ''x'' @ b)" by simp
    then have "CHR ''x'' \<in> set ''1024 by 768''" by (simp only: eq [symmetric])
    then show False by simp
  qed
  with build_comfyui_workflow_size [of "''roses''" "''wilted''" "''flux''" 20 "''1024 by 768''"]
  show ?thesis by blast
qed

text \<open>
  C7. For every prompt, negative prompt, model and step count, and every size made of two
  integer literals around an "x", build_comfyui_workflow returns a graph with exactly the
  seven nodes "1" to "7", the same class types and the same nine references, each a
  [node id, slot index] pair; the remaining inputs are literals, of which only the
  checkpoint file name, the two prompt texts, the width, the height and the step count
  depend on the arguments.
\<close>

theorem build_comfyui_workflow_topology:
  assumes "py_int a = Inr width" and "py_int b = Inr height"
  shows "\<exists>g ckpt_name.
     build_comfyui_workflow prompt negative_prompt (a @ ''x'' @ b) model steps = Inr g
   \<and> get_model_file model = Inr ckpt_name
   \<and> map fst g = [''1'', ''2'', ''3'', ''4'', ''5'', ''6'', ''7'']
   \<and> class_types g =
       [(''1'', Some (PStr ''CheckpointLoaderSimple'')),
        (''2'', Some (PStr ''CLIPTextEncode'')),
        (''3'', Some (PStr ''CLIPTextEncode'')),
        (''4'', Some (PStr ''EmptyLatentImage'')),
        (''5'', Some (PStr ''KSampler'')),
        (''6'', Some (PStr ''VAEDecode'')),
        (''7'', Some (PStr ''SaveImage''))]
   \<and> references g =
       [(''2'', ''clip'', ''1'', 1),
        (''3'', ''clip'', ''1'', 1),
        (''5'', ''model'', ''1'', 0),
        (''5'', ''positive'', ''2'', 0),
        (''5'', ''negative'', ''3'', 0),
        (''5'', ''latent_image'', ''4'', 0),
        (''6'', ''samples'', ''5'', 0),
        (''6'', ''vae'', ''1'', 2),
        (''7'', ''images'', ''6'', 0)]
   \<and> literals g =
       [(''1'', ''ckpt_name'', PStr ckpt_name),
        (''2'', ''text'', PStr prompt),
        (''3'', ''text'', PStr negative_prompt),
        (''4'', ''width'', PInt width),
        (''4'', ''height'', PInt height),
        (''4'', ''batch_size'', PInt 1),
        (''5'', ''seed'', PInt (- 1)),
        (''5'', ''steps'', PInt steps),
        (''5'', ''cfg'', PFloat ''7.5''),
        (''5'', ''sampler_name'', PStr ''euler_ancestral''),
        (''5'', ''scheduler'', PStr ''normal''),
        (''5'', ''denoise'', PFloat ''1.0''),
        (''7'', ''filename_prefix'', PStr ''floral_arrangement'')]"
  using parse_size_ok [OF assms]
  by (simp add: build_comfyui_workflow_def bindE_def get_model_file_value class_types_def
      references_def literals_def inputs_of_def)

theorem build_comfyui_workflow_topology_witness:
  "py_int ''768'' = Inr 768 \<and> py_int ''1024'' = Inr 1024
   \<and> (\<exists>g ckpt_name.
     build_comfyui_workflow ''peonies'' ''wilted'' (''768'' @ ''x'' @ ''1024'') ''sdxl'' 30 = Inr g
   \<and> get_model_file ''sdxl'' = Inr ckpt_name
   \<and> map fst g = [''1'', ''2'', ''3'', ''4'', ''5'', ''6'', ''7'']
   \<and> class_types g =
       [(''1'', Some (PStr ''CheckpointLoaderSimple'')),
        (''2'', Some (PStr ''CLIPTextEncode'')),
        (''3'', Some (PStr ''CLIPTextEncode'')),
        (''4'', Some (PStr ''EmptyLatentImage'')),
        (''5'', Some (PStr ''KSampler'')),
        (''6'', Some (PStr ''VAEDecode'')),
        (''7'', Some (PStr ''SaveImage''))]
   \<and> references g =
       [(''2'', ''clip'', ''1'', 1),
        (''3'', ''clip'', ''1'', 1),
        (''5'', ''model'', ''1'', 0),
        (''5'', ''positive'', ''2'', 0),
        (''5'', ''negative'', ''3'', 0),
        (''5'', ''latent_image'', ''4'', 0),
        (''6'', ''samples'', ''5'', 0),
        (''6'', ''vae'', ''1'', 2),
        (''7'', ''images'', ''6'', 0)]
   \<and> literals g =
       [(''1'', ''ckpt_name'', PStr ckpt_name),
        (''2'', ''text'', PStr ''peonies''),
        (''3'', ''text'', PStr ''wilted''),
        (''4'', ''width'', PInt 768),
        (''4'', ''height'', PInt 1024),
        (''4'', ''batch_size'', PInt 1),
        (''5'', ''seed'', PInt (- 1)),
        (''5'', ''steps'', PInt 30),
        (''5'', ''cfg'', PFloat ''7.5''),
        (''5'', ''sampler_name'', PStr ''euler_ancestral''),
        (''5'', ''scheduler'', PStr ''normal''),
        (''5'', ''denoise'', PFloat ''1.0''),
        (''7'', ''filename_prefix'', PStr ''floral_arrangement'')])"
proof -
  have a: "py_int ''768'' = Inr 768" and b: "py_int ''1024'' = Inr 1024"
    by (simp_all add: py_int_def strip_def is_space_def unsigned_literal_def digit_val_def)
  show ?thesis
    by (intro conjI a b
        build_comfyui_workflow_topology [OF a b, of "''peonies''" "''wilted''" "''sdxl''" 30])
qed

text \<open>
  C9. get_model_file never raises: "sdxl" and "sd15" map to their own checkpoint file
  names, "flux" to the flux file name, and every other model name to the flux file name
  as well. For every well-formed size, node "1" of the graph that build_comfyui_workflow
  returns carries that file name as its ckpt_name.
\<close>

theorem get_model_file_fallback:
  assumes "is_int_literal a" and "is_int_literal b"
  shows "get_model_file model = Inr
       (if model = ''sdxl'' then ''sd_xl_base_1.0.safetensors''
        else if model = ''sd15'' then ''v1-5-pruned-emaonly.safetensors''
        else ''flux1-dev.safetensors'')
   \<and> node_input (build_comfyui_workflow prompt negative_prompt (a @ ''x'' @ b) model steps)
         ''1'' ''ckpt_name'' = Some (PStr
       (if model = ''sdxl'' then ''sd_xl_base_1.0.safetensors''
        else if model = ''sd15'' then ''v1-5-pruned-emaonly.safetensors''
        else ''flux1-dev.safetensors''))"
proof -
  from assms obtain w h where "py_int a = Inr w" and "py_int b = Inr h"
    by (auto simp: is_int_literal_iff)
  then have "unpack2 (map py_int (split_chr CHR ''x'' (a @ ''x'' @ b))) = Inr (w, h)"
    by (rule parse_size_ok)
  then show ?thesis
    by (simp add: build_comfyui_workflow_def bindE_def get_model_file_value node_input_def
        node_inputs_def result_field_def)
qed

theorem get_model_file_fallback_witness:
  "is_int_literal ''1024''
   \<and> get_model_file ''midjourney'' = Inr ''flux1-dev.safetensors''
   \<and> get_model_file ''flux'' = Inr ''flux1-dev.safetensors''
   \<and> get_model_file ''sdxl'' = Inr ''sd_xl_base_1.0.safetensors''
   \<and> get_model_file ''sd15'' = Inr ''v1-5-pruned-emaonly.safetensors''
   \<and> node_input (build_comfyui_workflow ''roses'' ''wilted'' (''1024'' @ ''x'' @ ''1024'')
        ''midjourney'' 20) ''1'' ''ckpt_name'' = Some (PStr ''flux1-dev.safetensors'')"
proof -
  have lit: "is_int_literal ''1024''"
    by (simp add: is_int_literal_def py_int_1024)
  from get_model_file_fallback [OF lit lit, of "''midjourney''" "''roses''" "''wilted''" 20]
    get_model_file_fallback [OF lit lit, of "''flux''"]
    get_model_file_fallback [OF lit lit, of "''sdxl''"]
    get_model_file_fallback [OF lit lit, of "''sd15''"]
  show ?thesis using lit by simp
qed

text \<open>
  C8 (as amended). For every occasion string that is not a top-level key of the occasion
  table, suggest_flowers_for_occasion returns an error record holding the echoed occasion,
  the message "Occasion '<occasion>' not found" and an available_occasions list equal to
  the four keys wedding, funeral, celebration, everyday. For every occasion that is a key
  it returns a record of two fields: the echoed occasion, and under "recommendations" that
  occasion's sub-table. It never raises.
\<close>

theorem suggest_flowers_for_occasion_result:
  "suggest_flowers_for_occasion occasion = Inr
     (if has_key OCCASIONS occasion
      then [(''occasion'', PStr occasion), (''recommendations'', PDict (occasion_table occasion))]
      else [(''occasion'', PStr occasion),
            (''error'', PStr (''Occasion '' @ [CHR 0x27] @ occasion @ [CHR 0x27] @ '' not found'')),
            (''available_occasions'',
               PList [PStr ''wedding'', PStr ''funeral'', PStr ''celebration'', PStr ''everyday''])])
   \<and> map fst OCCASIONS = [''wedding'', ''funeral'', ''celebration'', ''everyday'']"
  using suggest_value occasions_keys by (rule conjI)

theorem suggest_flowers_for_occasion_result_witness:
  "\<not> has_key OCCASIONS ''not_a_real_occasion''
   \<and> suggest_flowers_for_occasion ''not_a_real_occasion'' = Inr
       [(''occasion'', PStr ''not_a_real_occasion''),
        (''error'', PStr (''Occasion '' @ [CHR 0x27] @ ''not_a_real_occasion'' @ [CHR 0x27] @ '' not found'')),
        (''available_occasions'',
           PList [PStr ''wedding'', PStr ''funeral'', PStr ''celebration'', PStr ''everyday''])]"
proof -
  have no: "\<not> has_key OCCASIONS ''not_a_real_occasion''"
    by (simp add: has_key_occasions)
  with suggest_flowers_for_occasion_result [of "''not_a_real_occasion''"]
  show ?thesis by simp
qed

text \<open>
  C8 fails as stated for an occasion that is a key: for "wedding" the result is not the
  wedding sub-table but a record that holds the sub-table under "recommendations".
\<close>

theorem suggest_flowers_for_occasion_counterexample:
  "has_key OCCASIONS ''wedding''
   \<and> suggest_flowers_for_occasion ''wedding'' =
       Inr [(''occasion'', PStr ''wedding''),
            (''recommendations'', PDict (occasion_table ''wedding''))]
   \<and> suggest_flowers_for_occasion ''wedding'' \<noteq> Inr (occasion_table ''wedding'')"
proof -
  have k: "has_key OCCASIONS ''wedding''" by (simp add: has_key_occasions)
  have "map fst (occasion_table ''wedding'') = [''ceremony'', ''reception'', ''bridal_party'']"
    by (simp add: occasion_table_def OCCASIONS_def)
  then have "occasion_table ''wedding'' \<noteq>
      [(''occasion'', PStr ''wedding''), (''recommendations'', PDict (occasion_table ''wedding''))]"
    by auto
  then show ?thesis using k by (simp add: suggest_value)
qed

text \<open>
  C10. For every occasion that is not a key of the occasion table, map_occasion returns
  the first entry, in the table order wedding, funeral, celebration, everyday, whose
  lower-cased string form holds the occasion as a substring, wrapped as a record of one
  field named after the entry, and the generic record when there is no such entry. The
  empty string is no key and is a substring of every string, so for it the result is the
  wrapped wedding sub-table and not the generic record.
\<close>

theorem map_occasion_fallback:
  assumes "\<not> has_key OCCASIONS occasion"
  shows "map_occasion occasion style =
     Inr (case find (\<lambda>(occ_name, occ_data). py_in occasion (lower (py_str (PDict occ_data))))
                OCCASIONS of
            Some (occ_name, occ_data) \<Rightarrow> [(occ_name, PDict occ_data)]
          | None \<Rightarrow>
              [(''occasion'', PStr ''general''),
               (''notes'', PStr ''versatile arrangement suitable for various contexts'')])
   \<and> map fst OCCASIONS = [''wedding'', ''funeral'', ''celebration'', ''everyday'']
   \<and> \<not> has_key OCCASIONS []
   \<and> map_occasion [] style = Inr [(''wedding'', PDict (occasion_table ''wedding''))]"
proof -
  have e: "\<not> has_key OCCASIONS []" by (simp add: has_key_occasions)
  have "map_occasion [] style = Inr [(''wedding'', PDict (occasion_table ''wedding''))]"
    using e by (simp add: map_occasion_def occasion_loop_empty)
  moreover have "map_occasion occasion style =
     Inr (case find (\<lambda>(occ_name, occ_data). py_in occasion (lower (py_str (PDict occ_data))))
                OCCASIONS of
            Some (occ_name, occ_data) \<Rightarrow> [(occ_name, PDict occ_data)]
          | None \<Rightarrow>
              [(''occasion'', PStr ''general''),
               (''notes'', PStr ''versatile arrangement suitable for various contexts'')])"
    using assms by (simp add: map_occasion_def occasion_loop_find split: option.splits)
  ultimately show ?thesis using e occasions_keys by simp
qed

theorem map_occasion_fallback_witness:
  "\<not> has_key OCCASIONS ''birthday''
   \<and> map_occasion ''birthday'' [] = Inr [(''celebration'', PDict (occasion_table ''celebration''))]
   \<and> map_occasion [] [] = Inr [(''wedding'', PDict (occasion_table ''wedding''))]"
proof -
  have no: "\<not> has_key OCCASIONS ''birthday''"
    by (simp add: has_key_occasions)
  from map_occasion_fallback [OF no, of "[]"] show ?thesis
    unfolding birthday_found using no by simp
qed

text \<open>
  C4. For every intent, color preference and occasion, detect_color_scheme returns, and
  what it returns is exactly one palette record of the table, tagged with its name: the
  one chosen by the first satisfied rule in the order (1) a palette name, in table order,
  that is a substring of the lower-cased intent, (2) a season keyword (spring, summer,
  autumn or fall, winter), (3) a mood keyword (romantic or wedding, elegant or formal,
  vibrant or bold), (4) the color preference when it names a palette, (5) analogous.
\<close>

theorem detect_color_scheme_first_rule:
  "detect_color_scheme intent color_preference occasion =
     Inr (palette_entry (chosen_palette intent color_preference))
   \<and> chosen_palette intent color_preference \<in> set (map fst COLOR_PALETTES)"
  using detect_color_scheme_chosen chosen_palette_known by (rule conjI)

theorem detect_color_scheme_first_rule_witness:
  "detect_color_scheme ''Elegant triadic bouquet for a fall wedding'' ''vibrant'' ''wedding'' =
     Inr (palette_entry ''triadic'')
   \<and> detect_color_scheme ''Bold FALL wedding arch'' ''vibrant'' ''wedding'' =
     Inr (palette_entry ''autumn'')
   \<and> detect_color_scheme ''bold formal dinner'' ''vibrant'' ''general'' =
     Inr (palette_entry ''elegant'')
   \<and> detect_color_scheme ''peonies'' ''vibrant'' ''general'' = Inr (palette_entry ''vibrant'')
   \<and> detect_color_scheme ''peonies'' ''harmonious'' ''general'' = Inr (palette_entry ''analogous'')"
  using detect_color_scheme_first_rule
          [of "''Elegant triadic bouquet for a fall wedding''" "''vibrant''" "''wedding''"]
        detect_color_scheme_first_rule [of "''Bold FALL wedding arch''" "''vibrant''" "''wedding''"]
        detect_color_scheme_first_rule [of "''bold formal dinner''" "''vibrant''" "''general''"]
        detect_color_scheme_first_rule [of "''peonies''" "''vibrant''" "''general''"]
        detect_color_scheme_first_rule [of "''peonies''" "''harmonious''" "''general''"]
  by (simp add: chosen_palette_def palettes_keys first_keyword_rule_def season_rules_def
      mood_rules_def lower_def lower_chr_def)

text \<open>
  C5. For every intent and occasion detect_flowers returns a record with the four role
  keys focal, line, filler and texture. When some flower name of the table, its
  underscores replaced by spaces, is a substring of the intent, the record is the result of
  the first pass: under each role the entries of all its flowers named in the intent, so
  every named flower is included under its role. The occasion fallback runs only when no
  flower is named, and then the record is the curated set of exactly one of the five
  branches wedding, romantic, vibrant, elegant and default, the first in that order
  whose keywords apply; the five curated sets are pairwise different.
\<close>

theorem detect_flowers_passes:
  "detect_flowers intent occasion =
     Inr (if any_named intent then pass1 intent else curated (fallback_branch occasion intent))
   \<and> result_keys (detect_flowers intent occasion) = Some [''focal'', ''line'', ''filler'', ''texture'']
   \<and> distinct (map curated [Wedding, Romantic, Vibrant, Elegant, Default])
   \<and> ((role, flowers) \<in> set FLOWERS_BY_ROLE \<and> (flower_name, flower_data) \<in> set flowers
        \<and> py_in (spoken flower_name) intent \<longrightarrow>
       (\<exists>items. result_field (detect_flowers intent occasion) role = Some (PList items)
          \<and> flower_entry (spoken flower_name) role flower_data \<in> set items))"
proof (intro conjI impI)
  show "detect_flowers intent occasion =
     Inr (if any_named intent then pass1 intent else curated (fallback_branch occasion intent))"
    by (rule detect_flowers_value)
  show "result_keys (detect_flowers intent occasion) = Some [''focal'', ''line'', ''filler'', ''texture'']"
    unfolding detect_flowers_value by (simp only: result_keys_def sum.case flowers_result_keys)
  show "distinct (map curated [Wedding, Romantic, Vibrant, Elegant, Default])"
    by (rule curated_distinct)
next
  assume h: "(role, flowers) \<in> set FLOWERS_BY_ROLE \<and> (flower_name, flower_data) \<in> set flowers
        \<and> py_in (spoken flower_name) intent"
  then have "any_named intent"
    and "\<exists>items. map_of (pass1 intent) role = Some (PList items)
           \<and> flower_entry (spoken flower_name) role flower_data \<in> set items"
    using named_included [of role flowers flower_name flower_data intent] by blast+
  then show "\<exists>items. result_field (detect_flowers intent occasion) role = Some (PList items)
          \<and> flower_entry (spoken flower_name) role flower_data \<in> set items"
    by (simp add: detect_flowers_value result_field_def)
qed

theorem detect_flowers_passes_witness:
  "(''line'', role_flowers ''line'') \<in> set FLOWERS_BY_ROLE
   \<and> (''bells_of_ireland'', table_flower ''line'' ''bells_of_ireland'') \<in> set (role_flowers ''line'')
   \<and> py_in (spoken ''bells_of_ireland'') ''peonies and bells of ireland''
   \<and> (\<exists>items. result_field (detect_flowers ''peonies and bells of ireland'' ''wedding'') ''line'' =
          Some (PList items)
        \<and> flower_entry ''bells of ireland'' ''line'' (table_flower ''line'' ''bells_of_ireland'')
            \<in> set items)
   \<and> detect_flowers ''a birthday bouquet'' ''general'' = Inr (curated Vibrant)"
proof -
  have "\<exists>items. result_field (detect_flowers ''peonies and bells of ireland'' ''wedding'') ''line'' =
          Some (PList items)
        \<and> flower_entry (spoken ''bells_of_ireland'') ''line'' (table_flower ''line'' ''bells_of_ireland'')
            \<in> set items"
    using detect_flowers_passes [of "''peonies and bells of ireland''" "''wedding''" "''line''"
        "role_flowers ''line''" "''bells_of_ireland''" "table_flower ''line'' ''bells_of_ireland''"]
      bells_of_ireland(1,2,3) by blast
  moreover have "detect_flowers ''a birthday bouquet'' ''general'' = Inr (curated Vibrant)"
    using detect_flowers_passes [of "''a birthday bouquet''" "''general''"] none_named
    by (simp add: fallback_branch_def)
  ultimately show ?thesis
    using bells_of_ireland by simp
qed

text \<open>
  C6. For every mapping result on which format_prompt_enhancement returns, the prompt is
  the parts joined by ", ", where the parts are the title-cased style type with "floral
  arrangement" and the container part, then one clause for each of the focal flowers, the
  line flowers, the filler flowers and the foliage that is present exactly when its list
  of names is not empty (with no line flowers there is no "creating vertical lines"
  clause), then the "in ... palette" clause, present if and only if the palette record
  carries a "colors" entry, then the balance, movement and effect parts. No part is empty,
  so no empty clause is joined. And for every user intent, style preference, occasion and
  color scheme, map_floral_taxonomy returns a mapping result, and format_prompt_enhancement
  returns on it.
\<close>

theorem format_prompt_enhancement_clauses:
  "(format_prompt_enhancement mapped = Inr prompt \<longrightarrow>
     (\<exists>style style_type container focal line filler foliage palette
           struct balance balance_description movement movement_description.
       map_of mapped ''style'' = Some (PDict style)
     \<and> map_of style ''type'' = Some (PStr style_type)
     \<and> map_of style ''container'' = Some container
     \<and> role_names mapped ''focal'' = Some focal
     \<and> role_names mapped ''line'' = Some line
     \<and> role_names mapped ''filler'' = Some filler
     \<and> foliage_names mapped = Some foliage
     \<and> carries_colors mapped = (palette \<noteq> [])
     \<and> (palette = [] \<or> (\<exists>colors. palette = [''in '' @ colors @ '' palette'']))
     \<and> map_of mapped ''structure'' = Some (PDict struct)
     \<and> map_of struct ''balance'' = Some (PDict balance)
     \<and> map_of balance ''description'' = Some balance_description
     \<and> map_of struct ''movement'' = Some (PDict movement)
     \<and> map_of movement ''description'' = Some movement_description
     \<and> prompt = join '', ''
          ([title (replace_chr CHR ''_'' CHR '' '' style_type) @ '' floral arrangement'',
            ''in '' @ py_str container]
           @ optional_clause ''featuring '' '' as focal flowers'' focal
           @ optional_clause ''with '' '' creating vertical lines'' line
           @ optional_clause ''filled with '' [] filler
           @ optional_clause ''accented with '' '' foliage'' foliage
           @ palette
           @ [''using '' @ py_str balance_description,
              ''with '' @ py_str movement_description,
              ''creating '' @ py_str (dict_get_default style ''characteristics''
                                        (PStr ''beautiful composition''))])
     \<and> [] \<notin> set
          ([title (replace_chr CHR ''_'' CHR '' '' style_type) @ '' floral arrangement'',
            ''in '' @ py_str container]
           @ optional_clause ''featuring '' '' as focal flowers'' focal
           @ optional_clause ''with '' '' creating vertical lines'' line
           @ optional_clause ''filled with '' [] filler
           @ optional_clause ''accented with '' '' foliage'' foliage
           @ palette
           @ [''using '' @ py_str balance_description,
              ''with '' @ py_str movement_description,
              ''creating '' @ py_str (dict_get_default style ''characteristics''
                                        (PStr ''beautiful composition''))])))
   \<and> (\<exists>result enhanced.
         map_floral_taxonomy user_intent style_preference occasion color_scheme = Inr result
       \<and> format_prompt_enhancement result = Inr enhanced)"
proof (intro conjI impI)
  assume "format_prompt_enhancement mapped = Inr prompt"
  then show "\<exists>style style_type container focal line filler foliage palette
           struct balance balance_description movement movement_description.
       map_of mapped ''style'' = Some (PDict style)
     \<and> map_of style ''type'' = Some (PStr style_type)
     \<and> map_of style ''container'' = Some container
     \<and> role_names mapped ''focal'' = Some focal
     \<and> role_names mapped ''line'' = Some line
     \<and> role_names mapped ''filler'' = Some filler
     \<and> foliage_names mapped = Some foliage
     \<and> carries_colors mapped = (palette \<noteq> [])
     \<and> (palette = [] \<or> (\<exists>colors. palette = [''in '' @ colors @ '' palette'']))
     \<and> map_of mapped ''structure'' = Some (PDict struct)
     \<and> map_of struct ''balance'' = Some (PDict balance)
     \<and> map_of balance ''description'' = Some balance_description
     \<and> map_of struct ''movement'' = Some (PDict movement)
     \<and> map_of movement ''description'' = Some movement_description
     \<and> prompt = join '', ''
          ([title (replace_chr CHR ''_'' CHR '' '' style_type) @ '' floral arrangement'',
            ''in '' @ py_str container]
           @ optional_clause ''featuring '' '' as focal flowers'' focal
           @ optional_clause ''with '' '' creating vertical lines'' line
           @ optional_clause ''filled with '' [] filler
           @ optional_clause ''accented with '' '' foliage'' foliage
           @ palette
           @ [''using '' @ py_str balance_description,
              ''with '' @ py_str movement_description,
              ''creating '' @ py_str (dict_get_default style ''characteristics''
                                        (PStr ''beautiful composition''))])
     \<and> [] \<notin> set
          ([title (replace_chr CHR ''_'' CHR '' '' style_type) @ '' floral arrangement'',
            ''in '' @ py_str container]
           @ optional_clause ''featuring '' '' as focal flowers'' focal
           @ optional_clause ''with '' '' creating vertical lines'' line
           @ optional_clause ''filled with '' [] filler
           @ optional_clause ''accented with '' '' foliage'' foliage
           @ palette
           @ [''using '' @ py_str balance_description,
              ''with '' @ py_str movement_description,
              ''creating '' @ py_str (dict_get_default style ''characteristics''
                                        (PStr ''beautiful composition''))])"
    by (rule prompt_clauses)
next
  show "\<exists>result enhanced.
         map_floral_taxonomy user_intent style_preference occasion color_scheme = Inr result
       \<and> format_prompt_enhancement result = Inr enhanced"
    by (rule pipeline_returns)
qed

text \<open>
  The mapping result of the intent "Romantic spring wedding centerpiece" for a wedding
  names no line flower and carries the romantic colors: its prompt has no "creating
  vertical lines" clause, it has the palette clause, and ", ," does not occur in it.
\<close>

theorem format_prompt_enhancement_clauses_witness:
  "\<exists>mapped.
     map_floral_taxonomy ''Romantic spring wedding centerpiece'' ''any'' ''wedding'' ''romantic'' =
       Inr mapped
   \<and> format_prompt_enhancement mapped = Inr
       ''Dome floral arrangement, in low bowl, vase, or compote, featuring garden roses, peonies as focal flowers, filled with baby breath, accented with ruscus foliage, in blush pink, cream, soft peach, ivory, champagne palette, using Equal visual weight radiating from center, with Circular flow around center, creating equal dimensions all sides, full 360-degree viewing, dense''
   \<and> role_names mapped ''line'' = Some []
   \<and> carries_colors mapped
   \<and> \<not> py_in ''creating vertical lines''
       ''Dome floral arrangement, in low bowl, vase, or compote, featuring garden roses, peonies as focal flowers, filled with baby breath, accented with ruscus foliage, in blush pink, cream, soft peach, ivory, champagne palette, using Equal visual weight radiating from center, with Circular flow around center, creating equal dimensions all sides, full 360-degree viewing, dense''
   \<and> \<not> py_in '', ,''
       ''Dome floral arrangement, in low bowl, vase, or compote, featuring garden roses, peonies as focal flowers, filled with baby breath, accented with ruscus foliage, in blush pink, cream, soft peach, ivory, champagne palette, using Equal visual weight radiating from center, with Circular flow around center, creating equal dimensions all sides, full 360-degree viewing, dense''
   \<and> (\<exists>style style_type container focal line filler foliage palette
           struct balance balance_description movement movement_description.
       map_of mapped ''style'' = Some (PDict style)
     \<and> map_of style ''type'' = Some (PStr style_type)
     \<and> map_of style ''container'' = Some container
     \<and> role_names mapped ''focal'' = Some focal
     \<and> role_names mapped ''line'' = Some line
     \<and> role_names mapped ''filler'' = Some filler
     \<and> foliage_names mapped = Some foliage
     \<and> carries_colors mapped = (palette \<noteq> [])
     \<and> (palette = [] \<or> (\<exists>colors. palette = [''in '' @ colors @ '' palette'']))
     \<and> map_of mapped ''structure'' = Some (PDict struct)
     \<and> map_of struct ''balance'' = Some (PDict balance)
     \<and> map_of balance ''description'' = Some balance_description
     \<and> map_of struct ''movement'' = Some (PDict movement)
     \<and> map_of movement ''description'' = Some movement_description
     \<and> 
       ''Dome floral arrangement, in low bowl, vase, or compote, featuring garden roses, peonies as focal flowers, filled with baby breath, accented with ruscus foliage, in blush pink, cream, soft peach, ivory, champagne palette, using Equal visual weight radiating from center, with Circular flow around center, creating equal dimensions all sides, full 360-degree viewing, dense'' = join '', ''
          ([title (replace_chr CHR ''_'' CHR '' '' style_type) @ '' floral arrangement'',
            ''in '' @ py_str container]
           @ optional_clause ''featuring '' '' as focal flowers'' focal
           @ optional_clause ''with '' '' creating vertical lines'' line
           @ optional_clause ''filled with '' [] filler
           @ optional_clause ''accented with '' '' foliage'' foliage
           @ palette
           @ [''using '' @ py_str balance_description,
              ''with '' @ py_str movement_description,
              ''creating '' @ py_str (dict_get_default style ''characteristics''
                                        (PStr ''beautiful composition''))])
     \<and> [] \<notin> set
          ([title (replace_chr CHR ''_'' CHR '' '' style_type) @ '' floral arrangement'',
            ''in '' @ py_str container]
           @ optional_clause ''featuring '' '' as focal flowers'' focal
           @ optional_clause ''with '' '' creating vertical lines'' line
           @ optional_clause ''filled with '' [] filler
           @ optional_clause ''accented with '' '' foliage'' foliage
           @ palette
           @ [''using '' @ py_str balance_description,
              ''with '' @ py_str movement_description,
              ''creating '' @ py_str (dict_get_default style ''characteristics''
                                        (PStr ''beautiful composition''))]))"
proof -
  from pipeline_example obtain mapped
    where m: "map_floral_taxonomy ''Romantic spring wedding centerpiece'' ''any'' ''wedding''
                ''romantic'' = Inr mapped"
      and f: "format_prompt_enhancement mapped = Inr
       ''Dome floral arrangement, in low bowl, vase, or compote, featuring garden roses, peonies as focal flowers, filled with baby breath, accented with ruscus foliage, in blush pink, cream, soft peach, ivory, champagne palette, using Equal visual weight radiating from center, with Circular flow around center, creating equal dimensions all sides, full 360-degree viewing, dense''"
    by (rule bindE_InrE)
  from pipeline_example_lines have l: "role_names mapped ''line'' = Some []"
    and c: "carries_colors mapped"
    by (simp_all add: m bindE_def)
  from format_prompt_enhancement_clauses [of mapped, THEN conjunct1, THEN mp, OF f]
  have prompt_here: "\<exists>style style_type container focal line filler foliage palette
           struct balance balance_description movement movement_description.
       map_of mapped ''style'' = Some (PDict style)
     \<and> map_of style ''type'' = Some (PStr style_type)
     \<and> map_of style ''container'' = Some container
     \<and> role_names mapped ''focal'' = Some focal
     \<and> role_names mapped ''line'' = Some line
     \<and> role_names mapped ''filler'' = Some filler
     \<and> foliage_names mapped = Some foliage
     \<and> carries_colors mapped = (palette \<noteq> [])
     \<and> (palette = [] \<or> (\<exists>colors. palette = [''in '' @ colors @ '' palette'']))
     \<and> map_of mapped ''structure'' = Some (PDict struct)
     \<and> map_of struct ''balance'' = Some (PDict balance)
     \<and> map_of balance ''description'' = Some balance_description
     \<and> map_of struct ''movement'' = Some (PDict movement)
     \<and> map_of movement ''description'' = Some movement_description
     \<and> 
       ''Dome floral arrangement, in low bowl, vase, or compote, featuring garden roses, peonies as focal flowers, filled with baby breath, accented with ruscus foliage, in blush pink, cream, soft peach, ivory, champagne palette, using Equal visual weight radiating from center, with Circular flow around center, creating equal dimensions all sides, full 360-degree viewing, dense'' = join '', ''
          ([title (replace_chr CHR ''_'' CHR '' '' style_type) @ '' floral arrangement'',
            ''in '' @ py_str container]
           @ optional_clause ''featuring '' '' as focal flowers'' focal
           @ optional_clause ''with '' '' creating vertical lines'' line
           @ optional_clause ''filled with '' [] filler
           @ optional_clause ''accented with '' '' foliage'' foliage
           @ palette
           @ [''using '' @ py_str balance_description,
              ''with '' @ py_str movement_description,
              ''creating '' @ py_str (dict_get_default style ''characteristics''
                                        (PStr ''beautiful composition''))])
     \<and> [] \<notin> set
          ([title (replace_chr CHR ''_'' CHR '' '' style_type) @ '' floral arrangement'',
            ''in '' @ py_str container]
           @ optional_clause ''featuring '' '' as focal flowers'' focal
           @ optional_clause ''with '' '' creating vertical lines'' line
           @ optional_clause ''filled with '' [] filler
           @ optional_clause ''accented with '' '' foliage'' foliage
           @ palette
           @ [''using '' @ py_str balance_description,
              ''with '' @ py_str movement_description,
              ''creating '' @ py_str (dict_get_default style ''characteristics''
                                        (PStr ''beautiful composition''))])" .
  show ?thesis
    by (intro exI [of _ mapped] conjI m f l c prompt_example_clauses prompt_here)
qed

end
